theory Spec2Isabelle
  imports Main "HOL-Library.Word"
begin

unbundle bit_operations_syntax

section \<open>The rt2800 radio control engine (rt2800lib.c)\<close>

text \<open>
  A shallow embedding of the parts of \<^verbatim>\<open>rt2800lib.c\<close> that decide the properties below:
  firmware validation, EEPROM validation, the radio lifecycle guard, the channel
  configuration dispatch, the two filter calibrations and the link tuner reset.
  C integers of a fixed width are words of that width; \<^verbatim>\<open>size_t\<close> lengths and offsets,
  which stay far below their width here, are natural numbers.
\<close>

type_synonym u8 = "8 word"
type_synonym u16 = "16 word"
type_synonym u32 = "32 word"

subsection \<open>Device identity\<close>

text \<open>
  \<^verbatim>\<open>rt2x00dev->chip.rt\<close> and \<^verbatim>\<open>rt2x00dev->chip.rf\<close> are 16-bit codes that the driver only ever
  compares with the named constants of \<^verbatim>\<open>rt2800.h\<close>. The header is not part of the sources at
  hand, so the codes are kept symbolic: one constructor per name that \<^verbatim>\<open>rt2800lib.c\<close> uses,
  and one more for every code that carries none of these names.
\<close>

datatype rt_chip =
  RT2860 | RT2872 | RT2883 | RT3070 | RT3071 | RT3090 | RT3290 | RT3352 | RT3390
  | RT3572 | RT3593 | RT3883 | RT5350 | RT5390 | RT5392 | RT5592 | RT6352 | RT_UNKNOWN

datatype rf_chip =
  RF2820 | RF2850 | RF2720 | RF2750 | RF3020 | RF2020 | RF3021 | RF3022 | RF3052
  | RF3053 | RF3070 | RF3290 | RF3320 | RF3322 | RF3853 | RF5350 | RF5360 | RF5362
  | RF5370 | RF5372 | RF5390 | RF5392 | RF5592 | RF7620 | RF_UNKNOWN

datatype chip_intf = CHIP_INTF_PCI | CHIP_INTF_PCIE | CHIP_INTF_USB | CHIP_INTF_SOC

datatype rt2x00_flag = DEVICE_STATE_ENABLED_RADIO | CONFIG_CHANNEL_HT40

datatype dev_state =
  STATE_RADIO_ON | STATE_RADIO_OFF | STATE_RADIO_IRQ_ON | STATE_RADIO_IRQ_OFF
  | STATE_SLEEP | STATE_AWAKE

datatype nl80211_band = NL80211_BAND_2GHZ | NL80211_BAND_5GHZ

text \<open>\<^verbatim>\<open>struct rt2800_drv_data\<close> of \<^verbatim>\<open>rt2800lib.h\<close>: the four calibration results.\<close>

record rt2800_drv_data =
  rx_calibration_bw20 :: u8
  rx_calibration_bw40 :: u8
  tx_calibration_bw20 :: u8
  tx_calibration_bw40 :: u8

text \<open>
  The fields of \<^verbatim>\<open>struct rt2x00_dev\<close> that the modelled functions read or write.
  \<^verbatim>\<open>lna_gain\<close> is a \<^verbatim>\<open>short\<close>, \<^verbatim>\<open>default_ant.rx_chain_num\<close> an 8-bit count, and
  \<^verbatim>\<open>eeprom\<close> the in-memory image of the EEPROM, an array of 16-bit words indexed by word.
\<close>

record rt2x00_dev =
  chip_rt :: rt_chip
  chip_rf :: rf_chip
  chip_intf :: chip_intf
  flags :: "rt2x00_flag set"
  curr_band :: nl80211_band
  lna_gain :: u16
  rx_chain_num :: u8
  drv_data :: rt2800_drv_data
  eeprom :: "nat \<Rightarrow> u16"

definition rt2x00_rt :: "rt2x00_dev \<Rightarrow> rt_chip \<Rightarrow> bool" where
  "rt2x00_rt dev rt = (chip_rt dev = rt)"

definition rt2x00_rf :: "rt2x00_dev \<Rightarrow> rf_chip \<Rightarrow> bool" where
  "rt2x00_rf dev rf = (chip_rf dev = rf)"

definition rt2x00_is_usb :: "rt2x00_dev \<Rightarrow> bool" where
  "rt2x00_is_usb dev = (chip_intf dev = CHIP_INTF_USB)"

definition test_bit :: "rt2x00_flag \<Rightarrow> rt2x00_dev \<Rightarrow> bool" where
  "test_bit f dev = (f \<in> flags dev)"



subsection \<open>Firmware validation\<close>

text \<open>
  Modelled from the spec: the 256 entries of \<^verbatim>\<open>crc_ccitt_table\<close> and the body of
  \<^verbatim>\<open>crc_ccitt\<close> are only declared in \<^verbatim>\<open>crc_ccit.h\<close>. The specification names the checksum
  (the CCITT variant of CRC-16), whose table entry \<open>i\<close> is the result of eight shift steps
  of the reflected polynomial \<open>0x8408\<close> on \<open>i\<close>, and whose value over a buffer is
  \<^verbatim>\<open>crc_ccitt_byte\<close> applied to each byte in turn.
\<close>

fun crc_ccitt_table_gen :: "nat \<Rightarrow> u16 \<Rightarrow> u16" where
  "crc_ccitt_table_gen 0 c = c"
| "crc_ccitt_table_gen (Suc n) c =
     crc_ccitt_table_gen n (if bit c 0 then drop_bit 1 c XOR 0x8408 else drop_bit 1 c)"

definition crc_ccitt_table :: "u8 \<Rightarrow> u16" where
  "crc_ccitt_table i = crc_ccitt_table_gen 8 (ucast i)"

text \<open>\<^verbatim>\<open>crc_ccitt_byte\<close> of \<^verbatim>\<open>crc_ccit.h\<close>.\<close>

definition crc_ccitt_byte :: "u16 \<Rightarrow> u8 \<Rightarrow> u16" where
  "crc_ccitt_byte crc c =
     drop_bit 8 crc XOR crc_ccitt_table (ucast ((crc XOR ucast c) AND 0xff))"

fun crc_ccitt_bytes :: "u16 \<Rightarrow> u8 list \<Rightarrow> u16" where
  "crc_ccitt_bytes crc [] = crc"
| "crc_ccitt_bytes crc (c # cs) = crc_ccitt_bytes (crc_ccitt_byte crc c) cs"

definition crc_ccitt :: "u16 \<Rightarrow> u8 list \<Rightarrow> nat \<Rightarrow> u16" where
  "crc_ccitt crc buffer len = crc_ccitt_bytes crc (take len buffer)"

text \<open>\<^verbatim>\<open>swab16\<close>: the two bytes of a 16-bit value exchanged.\<close>

definition swab16 :: "u16 \<Rightarrow> u16" where
  "swab16 x = push_bit 8 x OR drop_bit 8 x"

text \<open>
  \<^verbatim>\<open>rt2800_check_firmware_crc(data, len)\<close>. The stored checksum is
  \<^verbatim>\<open>data[len - 2] << 8 | data[len - 1]\<close>; the computed one starts from \<^verbatim>\<open>~0\<close> and covers
  the first \<^verbatim>\<open>len - 2\<close> bytes.
\<close>

definition fw_crc_of :: "u8 \<Rightarrow> u8 \<Rightarrow> u16" where
  "fw_crc_of hi lo = push_bit 8 (ucast hi) OR ucast lo"

definition rt2800_check_firmware_crc :: "u8 list \<Rightarrow> nat \<Rightarrow> bool" where
  "rt2800_check_firmware_crc data len =
     (let fw_crc = fw_crc_of (data ! (len - 2)) (data ! (len - 1));
          crc = crc_ccitt 0xffff data (len - 2);
          crc = swab16 crc
      in fw_crc = crc)"

datatype fw_result = FW_OK | FW_BAD_CRC | FW_BAD_LENGTH | FW_BAD_VERSION

text \<open>The base unit: 4 KiB on USB and for the RT3290, 8 KiB otherwise.\<close>

definition fw_len_of :: "rt2x00_dev \<Rightarrow> nat" where
  "fw_len_of dev =
     (if rt2x00_is_usb dev \<or> rt2x00_rt dev RT3290 then 4096 else 8192)"

lemma fw_len_of_pos: "0 < fw_len_of dev"
  by (simp add: fw_len_of_def)

text \<open>
  The loop \<^verbatim>\<open>while (offset < len)\<close> of \<^verbatim>\<open>rt2800_check_firmware\<close>; \<^verbatim>\<open>data + offset\<close> is the
  buffer without its first \<open>offset\<close> bytes.
\<close>

function check_firmware_loop :: "rt2x00_dev \<Rightarrow> u8 list \<Rightarrow> nat \<Rightarrow> fw_result" where
  "check_firmware_loop dev data offset =
     (if offset < length data then
        (if \<not> rt2800_check_firmware_crc (drop offset data) (fw_len_of dev) then FW_BAD_CRC
         else check_firmware_loop dev data (offset + fw_len_of dev))
      else FW_OK)"
  by pat_completeness auto
termination
  by (relation "measure (\<lambda>(dev, data, offset). length data - offset)")
     (use fw_len_of_pos in \<open>auto simp add: diff_less_mono2\<close>)

declare check_firmware_loop.simps [simp del]

definition rt2800_check_firmware :: "rt2x00_dev \<Rightarrow> u8 list \<Rightarrow> fw_result" where
  "rt2800_check_firmware dev data =
     (let len = length data;
          fw_len = fw_len_of dev;
          multiple = True
      in if len \<noteq> fw_len \<and> (\<not> multiple \<or> len mod fw_len \<noteq> 0) then FW_BAD_LENGTH
         else if rt2x00_is_usb dev \<and>
                 \<not> rt2x00_rt dev RT2860 \<and>
                 \<not> rt2x00_rt dev RT2872 \<and>
                 \<not> rt2x00_rt dev RT3070 \<and>
                 len div fw_len = 1 then FW_BAD_VERSION
         else check_firmware_loop dev data 0)"

subsection \<open>The device as seen through the register access layer\<close>

text \<open>
  The driver reaches the hardware through \<^verbatim>\<open>rt2800_register_read\<close> and
  \<^verbatim>\<open>rt2800_register_write\<close> (MAC registers), \<^verbatim>\<open>rt2800_bbp_read\<close> and \<^verbatim>\<open>rt2800_bbp_write\<close>
  (baseband registers), \<^verbatim>\<open>rt2800_rfcsr_read\<close> and \<^verbatim>\<open>rt2800_rfcsr_write\<close> (RF registers), and
  the bus driver's \<^verbatim>\<open>set_device_state\<close> and \<^verbatim>\<open>read_eeprom\<close>, which it calls through the
  operations tables. The
  model takes each such call as one event and keeps the events in the order they happen.
  What the device answers to a read is not in the hands of the driver: it is given by an
  environment that may answer differently after every history, so nothing is assumed about
  the hardware. The busy-bit polling inside the indirect accesses is below this interface.
\<close>

datatype mac_reg = RF_CONTROL0 | RF_BYPASS0

datatype hw_event =
  Register_read mac_reg u32
  | Register_write mac_reg u32
  | Bbp_read nat u8
  | Bbp_write nat u8
  | Rfcsr_read nat u8
  | Rfcsr_write nat u8
  | Set_device_state dev_state int
  | Read_eeprom int

record hw_env =
  register_answer :: "hw_event list \<Rightarrow> mac_reg \<Rightarrow> u32"
  bbp_answer :: "hw_event list \<Rightarrow> nat \<Rightarrow> u8"
  rfcsr_answer :: "hw_event list \<Rightarrow> nat \<Rightarrow> u8"
  state_answer :: "hw_event list \<Rightarrow> dev_state \<Rightarrow> int"
  eeprom_answer :: "hw_event list \<Rightarrow> int \<times> (nat \<Rightarrow> u16)"

definition rt2800_register_read :: "hw_env \<Rightarrow> mac_reg \<Rightarrow> hw_event list \<Rightarrow> u32 \<times> hw_event list" where
  "rt2800_register_read env offset tr =
     (let v = register_answer env tr offset in (v, tr @ [Register_read offset v]))"

definition rt2800_register_write :: "mac_reg \<Rightarrow> u32 \<Rightarrow> hw_event list \<Rightarrow> hw_event list" where
  "rt2800_register_write offset v tr = tr @ [Register_write offset v]"

definition rt2800_bbp_read :: "hw_env \<Rightarrow> nat \<Rightarrow> hw_event list \<Rightarrow> u8 \<times> hw_event list" where
  "rt2800_bbp_read env word tr =
     (let v = bbp_answer env tr word in (v, tr @ [Bbp_read word v]))"

definition rt2800_bbp_write :: "nat \<Rightarrow> u8 \<Rightarrow> hw_event list \<Rightarrow> hw_event list" where
  "rt2800_bbp_write word v tr = tr @ [Bbp_write word v]"

definition rt2800_rfcsr_read :: "hw_env \<Rightarrow> nat \<Rightarrow> hw_event list \<Rightarrow> u8 \<times> hw_event list" where
  "rt2800_rfcsr_read env word tr =
     (let v = rfcsr_answer env tr word in (v, tr @ [Rfcsr_read word v]))"

definition rt2800_rfcsr_write :: "nat \<Rightarrow> u8 \<Rightarrow> hw_event list \<Rightarrow> hw_event list" where
  "rt2800_rfcsr_write word v tr = tr @ [Rfcsr_write word v]"


text \<open>
  Modelled from the spec: the field macros \<^verbatim>\<open>rt2x00_set_field8/16\<close> and
  \<^verbatim>\<open>rt2x00_get_field8/16\<close> of \<^verbatim>\<open>rt2x00reg.h\<close> are missing from the sources. The specification
  speaks of the fields of a register or EEPROM word; a field is a bit mask with the offset
  of its lowest bit, writing it replaces the masked bits by the shifted value, and reading
  it shifts the masked bits down.
\<close>

datatype rt2x00_field8 = FIELD8 (bit_offset8: nat) (bit_mask8: u8)

datatype rt2x00_field16 = FIELD16 (bit_offset16: nat) (bit_mask16: u16)

definition set_field :: "'a::len word \<Rightarrow> nat \<Rightarrow> 'a word \<Rightarrow> 'a word \<Rightarrow> 'a word" where
  "set_field reg off m v = (reg AND NOT m) OR (push_bit off v AND m)"

definition get_field :: "'a::len word \<Rightarrow> nat \<Rightarrow> 'a word \<Rightarrow> 'a word" where
  "get_field reg off m = drop_bit off (reg AND m)"

definition rt2x00_set_field8 :: "u8 \<Rightarrow> rt2x00_field8 \<Rightarrow> u8 \<Rightarrow> u8" where
  "rt2x00_set_field8 reg f v = set_field reg (bit_offset8 f) (bit_mask8 f) v"

definition rt2x00_get_field8 :: "u8 \<Rightarrow> rt2x00_field8 \<Rightarrow> u8" where
  "rt2x00_get_field8 reg f = get_field reg (bit_offset8 f) (bit_mask8 f)"

definition rt2x00_set_field16 :: "u16 \<Rightarrow> rt2x00_field16 \<Rightarrow> u16 \<Rightarrow> u16" where
  "rt2x00_set_field16 reg f v = set_field reg (bit_offset16 f) (bit_mask16 f) v"

definition rt2x00_get_field16 :: "u16 \<Rightarrow> rt2x00_field16 \<Rightarrow> u16" where
  "rt2x00_get_field16 reg f = get_field reg (bit_offset16 f) (bit_mask16 f)"

text \<open>
  The constants of \<^verbatim>\<open>rt2800.h\<close> that the modelled functions use. The header is missing
  from the sources, so its field layouts and codes are parameters of the model.
\<close>

record rt2800_h =
  BBP4_BANDWIDTH :: rt2x00_field8
  BBP27_RX_CHAIN_SEL :: rt2x00_field8
  RFCSR22_BASEBAND_LOOPBACK :: rt2x00_field8
  RFCSR31_RX_H20M :: rt2x00_field8

subsection \<open>Radio lifecycle\<close>




subsection \<open>Channel configuration dispatch\<close>

text \<open>
  \<^verbatim>\<open>rt2800_config_channel\<close> returns nothing (\<^verbatim>\<open>static void\<close>). Its two \<^verbatim>\<open>switch\<close> statements
  choose the chip-specific procedures; the model gives the procedures it calls, in order.
  The procedures themselves and the shared register programming after them are not part of
  the model.
\<close>

datatype channel_proc =
  rt3883_bbp_adjust
  | rt2800_config_channel_rf2xxx
  | rt2800_config_channel_rf3xxx
  | rt2800_config_channel_rf3052
  | rt2800_config_channel_rf3053
  | rt2800_config_channel_rf3290
  | rt2800_config_channel_rf3322
  | rt2800_config_channel_rf3853
  | rt2800_config_channel_rf53xx
  | rt2800_config_channel_rf55xx
  | rt2800_config_channel_rf7620

fun config_channel_rt_switch :: "rt_chip \<Rightarrow> channel_proc list" where
  "config_channel_rt_switch RT3883 = [rt3883_bbp_adjust]"
| "config_channel_rt_switch _ = []"

fun config_channel_rf_switch :: "rf_chip \<Rightarrow> channel_proc list" where
  "config_channel_rf_switch RF2020 = [rt2800_config_channel_rf3xxx]"
| "config_channel_rf_switch RF3020 = [rt2800_config_channel_rf3xxx]"
| "config_channel_rf_switch RF3021 = [rt2800_config_channel_rf3xxx]"
| "config_channel_rf_switch RF3022 = [rt2800_config_channel_rf3xxx]"
| "config_channel_rf_switch RF3320 = [rt2800_config_channel_rf3xxx]"
| "config_channel_rf_switch RF3052 = [rt2800_config_channel_rf3052]"
| "config_channel_rf_switch RF3053 = [rt2800_config_channel_rf3053]"
| "config_channel_rf_switch RF3290 = [rt2800_config_channel_rf3290]"
| "config_channel_rf_switch RF3322 = [rt2800_config_channel_rf3322]"
| "config_channel_rf_switch RF3853 = [rt2800_config_channel_rf3853]"
| "config_channel_rf_switch RF3070 = [rt2800_config_channel_rf53xx]"
| "config_channel_rf_switch RF5350 = [rt2800_config_channel_rf53xx]"
| "config_channel_rf_switch RF5360 = [rt2800_config_channel_rf53xx]"
| "config_channel_rf_switch RF5362 = [rt2800_config_channel_rf53xx]"
| "config_channel_rf_switch RF5370 = [rt2800_config_channel_rf53xx]"
| "config_channel_rf_switch RF5372 = [rt2800_config_channel_rf53xx]"
| "config_channel_rf_switch RF5390 = [rt2800_config_channel_rf53xx]"
| "config_channel_rf_switch RF5392 = [rt2800_config_channel_rf53xx]"
| "config_channel_rf_switch RF5592 = [rt2800_config_channel_rf55xx]"
| "config_channel_rf_switch RF7620 = [rt2800_config_channel_rf7620]"
| "config_channel_rf_switch _ = [rt2800_config_channel_rf2xxx]"

definition rt2800_config_channel :: "rt2x00_dev \<Rightarrow> channel_proc list" where
  "rt2800_config_channel dev =
     config_channel_rt_switch (chip_rt dev) @ config_channel_rf_switch (chip_rf dev)"

text \<open>
  The RF chipset check of \<^verbatim>\<open>rt2800_init_eeprom\<close>, which runs at probe time, long before any
  channel is configured: the supported identities pass, every other one is \<^verbatim>\<open>-ENODEV\<close>.
\<close>

datatype errno = ENODEV

fun init_eeprom_rf_switch :: "rf_chip \<Rightarrow> errno + unit" where
  "init_eeprom_rf_switch RF_UNKNOWN = Inl ENODEV"
| "init_eeprom_rf_switch _ = Inr ()"

definition rf_cases_of_config_channel :: "rf_chip set" where
  "rf_cases_of_config_channel =
     {RF2020, RF3020, RF3021, RF3022, RF3320, RF3052, RF3053, RF3290, RF3322, RF3853,
      RF3070, RF5350, RF5360, RF5362, RF5370, RF5372, RF5390, RF5392, RF5592, RF7620}"

subsection \<open>Link tuner\<close>

text \<open>\<^verbatim>\<open>struct link_qual\<close>: the fields the tuner uses.\<close>

record link_qual =
  rssi :: int
  vgc_level :: u8
  vgc_level_reg :: u8

text \<open>C's integer division, which truncates towards zero.\<close>

definition c_div :: "int \<Rightarrow> int \<Rightarrow> int" where
  "c_div a b = sgn a * sgn b * (\<bar>a\<bar> div \<bar>b\<bar>)"

text \<open>
  \<^verbatim>\<open>rt2800_get_default_vgc\<close>: the arithmetic is done on \<^verbatim>\<open>int\<close> and the result stored into
  a \<^verbatim>\<open>uint8_t\<close>.
\<close>

definition rt2800_get_default_vgc :: "rt2x00_dev \<Rightarrow> u8" where
  "rt2800_get_default_vgc dev =
     (let lna = sint (lna_gain dev) in
      word_of_int
        (if curr_band dev = NL80211_BAND_2GHZ then
           (if rt2x00_rt dev RT3070 \<or> rt2x00_rt dev RT3071 \<or> rt2x00_rt dev RT3090 \<or>
               rt2x00_rt dev RT3290 \<or> rt2x00_rt dev RT3390 \<or> rt2x00_rt dev RT3572 \<or>
               rt2x00_rt dev RT3593 \<or> rt2x00_rt dev RT5390 \<or> rt2x00_rt dev RT5392 \<or>
               rt2x00_rt dev RT5592 \<or> rt2x00_rt dev RT6352
            then 0x1c + 2 * lna
            else 0x2e + lna)
         else
           (if rt2x00_rt dev RT3593 \<or> rt2x00_rt dev RT3883 then 0x20 + c_div (lna * 5) 3
            else if rt2x00_rt dev RT5592 then 0x24 + 2 * lna
            else if \<not> test_bit CONFIG_CHANNEL_HT40 dev then 0x32 + c_div (lna * 5) 3
            else 0x3a + c_div (lna * 5) 3)))"

text \<open>
  \<^verbatim>\<open>rt2800_bbp_write_with_rx_chain\<close>: the loop over the receive chains, from \<open>chain\<close> on.
\<close>

function bbp_write_with_rx_chain_from ::
  "hw_env \<Rightarrow> rt2800_h \<Rightarrow> rt2x00_dev \<Rightarrow> nat \<Rightarrow> u8 \<Rightarrow> nat \<Rightarrow> hw_event list \<Rightarrow> hw_event list" where
  "bbp_write_with_rx_chain_from env h dev word v chain tr =
     (if chain < unat (rx_chain_num dev) then
        let (reg, tr) = rt2800_bbp_read env 27 tr;
            reg = rt2x00_set_field8 reg (BBP27_RX_CHAIN_SEL h) (of_nat chain);
            tr = rt2800_bbp_write 27 reg tr;
            tr = rt2800_bbp_write word v tr
        in bbp_write_with_rx_chain_from env h dev word v (chain + 1) tr
      else tr)"
  by pat_completeness auto
termination
  by (relation "measure (\<lambda>(env, h, dev, word, v, chain, tr). unat (rx_chain_num dev) - chain)") auto

declare bbp_write_with_rx_chain_from.simps [simp del]

definition rt2800_bbp_write_with_rx_chain ::
  "hw_env \<Rightarrow> rt2800_h \<Rightarrow> rt2x00_dev \<Rightarrow> nat \<Rightarrow> u8 \<Rightarrow> hw_event list \<Rightarrow> hw_event list" where
  "rt2800_bbp_write_with_rx_chain env h dev word v tr =
     bbp_write_with_rx_chain_from env h dev word v 0 tr"

definition rt2800_set_vgc ::
  "hw_env \<Rightarrow> rt2800_h \<Rightarrow> rt2x00_dev \<Rightarrow> link_qual \<Rightarrow> u8 \<Rightarrow> hw_event list \<Rightarrow> link_qual \<times> hw_event list" where
  "rt2800_set_vgc env h dev qual level tr =
     (if vgc_level qual \<noteq> level then
        let tr =
              (if rt2x00_rt dev RT3572 \<or> rt2x00_rt dev RT3593 \<or> rt2x00_rt dev RT3883 then
                 rt2800_bbp_write_with_rx_chain env h dev 66 level tr
               else if rt2x00_rt dev RT5592 then
                 let tr = rt2800_bbp_write 83 (if rssi qual > -65 then 0x4a else 0x7a) tr
                 in rt2800_bbp_write_with_rx_chain env h dev 66 level tr
               else rt2800_bbp_write 66 level tr);
            qual = qual\<lparr>vgc_level := level\<rparr>;
            qual = qual\<lparr>vgc_level_reg := level\<rparr>
        in (qual, tr)
      else (qual, tr))"

definition rt2800_reset_tuner ::
  "hw_env \<Rightarrow> rt2800_h \<Rightarrow> rt2x00_dev \<Rightarrow> link_qual \<Rightarrow> hw_event list \<Rightarrow> link_qual \<times> hw_event list" where
  "rt2800_reset_tuner env h dev qual tr =
     rt2800_set_vgc env h dev qual (rt2800_get_default_vgc dev) tr"

subsection \<open>The simple filter sweep\<close>

text \<open>
  \<^verbatim>\<open>rt2800_init_rx_filter\<close>. The first loop captures the response to the passband test
  tone: it reads baseband register 55 up to 100 times and stops at the first reading that
  is not zero. \<open>passband\<close> is the variable of that name; it has no value before the first
  iteration, and the loop runs at least once.
\<close>

function init_rx_filter_passband_loop ::
  "hw_env \<Rightarrow> nat \<Rightarrow> u8 \<Rightarrow> hw_event list \<Rightarrow> u8 \<times> hw_event list" where
  "init_rx_filter_passband_loop env i passband tr =
     (if i < 100 then
        let tr = rt2800_bbp_write 25 0x90 tr;
            (passband, tr) = rt2800_bbp_read env 55 tr
        in if passband \<noteq> 0 then (passband, tr)
           else init_rx_filter_passband_loop env (i + 1) passband tr
      else (passband, tr))"
  by pat_completeness auto
termination
  by (relation "measure (\<lambda>(env, i, passband, tr). 100 - i)") auto

declare init_rx_filter_passband_loop.simps [simp del]

text \<open>
  The gap \<^verbatim>\<open>passband - stopband\<close> is computed on \<^verbatim>\<open>int\<close>, so it can be negative, and
  is compared with the target as an \<^verbatim>\<open>int\<close>.
\<close>

definition filter_gap :: "u8 \<Rightarrow> u8 \<Rightarrow> int" where
  "filter_gap passband stopband = uint passband - uint stopband"

text \<open>
  The second loop: each step reads the response to the stopband test tone; while the gap
  is at most the target it increments \<open>rfcsr24\<close>, counts in \<open>overtuned\<close> the steps whose
  gap is the target, and writes \<open>rfcsr24\<close> to RF register 24; it leaves at the first step
  whose gap is above the target.
\<close>

function init_rx_filter_stopband_loop ::
  "hw_env \<Rightarrow> u8 \<Rightarrow> u8 \<Rightarrow> nat \<Rightarrow> u8 \<Rightarrow> u8 \<Rightarrow> hw_event list \<Rightarrow> u8 \<times> u8 \<times> hw_event list" where
  "init_rx_filter_stopband_loop env filter_target passband i rfcsr24 overtuned tr =
     (if i < 100 then
        let tr = rt2800_bbp_write 25 0x90 tr;
            (stopband, tr) = rt2800_bbp_read env 55 tr
        in if filter_gap passband stopband \<le> uint filter_target then
             let rfcsr24 = rfcsr24 + 1;
                 overtuned = overtuned +
                   (if filter_gap passband stopband = uint filter_target then 1 else 0);
                 tr = rt2800_rfcsr_write 24 rfcsr24 tr
             in init_rx_filter_stopband_loop env filter_target passband (i + 1) rfcsr24 overtuned tr
           else (rfcsr24, overtuned, tr)
      else (rfcsr24, overtuned, tr))"
  by pat_completeness auto
termination
  by (relation "measure (\<lambda>(env, filter_target, passband, i, rfcsr24, overtuned, tr). 100 - i)") auto

declare init_rx_filter_stopband_loop.simps [simp del]

text \<open>The function up to the end of the first loop.\<close>

definition init_rx_filter_passband ::
  "hw_env \<Rightarrow> rt2800_h \<Rightarrow> bool \<Rightarrow> hw_event list \<Rightarrow> u8 \<times> u8 \<times> hw_event list" where
  "init_rx_filter_passband env h bw40 tr =
     (let rfcsr24 = (if bw40 then 0x27 else 0x07);
          tr = rt2800_rfcsr_write 24 rfcsr24 tr;
          (bbp, tr) = rt2800_bbp_read env 4 tr;
          bbp = rt2x00_set_field8 bbp (BBP4_BANDWIDTH h) (2 * (if bw40 then 1 else 0));
          tr = rt2800_bbp_write 4 bbp tr;
          (rfcsr, tr) = rt2800_rfcsr_read env 31 tr;
          rfcsr = rt2x00_set_field8 rfcsr (RFCSR31_RX_H20M h) (if bw40 then 1 else 0);
          tr = rt2800_rfcsr_write 31 rfcsr tr;
          (rfcsr, tr) = rt2800_rfcsr_read env 22 tr;
          rfcsr = rt2x00_set_field8 rfcsr (RFCSR22_BASEBAND_LOOPBACK h) 1;
          tr = rt2800_rfcsr_write 22 rfcsr tr;
          tr = rt2800_bbp_write 24 0 tr;
          (passband, tr) = init_rx_filter_passband_loop env 0 0 tr
      in (rfcsr24, passband, tr))"

definition rt2800_init_rx_filter ::
  "hw_env \<Rightarrow> rt2800_h \<Rightarrow> bool \<Rightarrow> u8 \<Rightarrow> hw_event list \<Rightarrow> u8 \<times> hw_event list" where
  "rt2800_init_rx_filter env h bw40 filter_target tr =
     (let (rfcsr24, passband, tr) = init_rx_filter_passband env h bw40 tr;
          overtuned = 0;
          tr = rt2800_bbp_write 24 0x06 tr;
          (rfcsr24, overtuned, tr) =
            init_rx_filter_stopband_loop env filter_target passband 0 rfcsr24 overtuned tr;
          rfcsr24 = rfcsr24 - (if overtuned \<noteq> 0 then 1 else 0);
          tr = rt2800_rfcsr_write 24 rfcsr24 tr
      in (rfcsr24, tr))"

text \<open>The readings of baseband register 55 in a history, in order.\<close>

fun bbp55_readings :: "hw_event list \<Rightarrow> u8 list" where
  "bbp55_readings [] = []"
| "bbp55_readings (Bbp_read w v # evs) =
     (if w = 55 then v # bbp55_readings evs else bbp55_readings evs)"
| "bbp55_readings (_ # evs) = bbp55_readings evs"

text \<open>A stopband reading is within the target, or on it, for a captured passband.\<close>

definition within_target :: "u8 \<Rightarrow> u8 \<Rightarrow> u8 \<Rightarrow> bool" where
  "within_target filter_target passband s \<longleftrightarrow> filter_gap passband s \<le> uint filter_target"

definition on_target :: "u8 \<Rightarrow> u8 \<Rightarrow> u8 \<Rightarrow> bool" where
  "on_target filter_target passband s \<longleftrightarrow> filter_gap passband s = uint filter_target"

subsection \<open>EEPROM access\<close>

text \<open>
  \<^verbatim>\<open>enum rt2800_eeprom_word\<close>: the names that index the two maps of \<^verbatim>\<open>rt2800lib.c\<close>.
\<close>

datatype rt2800_eeprom_word =
  EEPROM_CHIP_ID | EEPROM_VERSION | EEPROM_MAC_ADDR_0 | EEPROM_MAC_ADDR_1 | EEPROM_MAC_ADDR_2
  | EEPROM_NIC_CONF0 | EEPROM_NIC_CONF1 | EEPROM_FREQ | EEPROM_LED_AG_CONF
  | EEPROM_LED_ACT_CONF | EEPROM_LED_POLARITY | EEPROM_NIC_CONF2 | EEPROM_LNA
  | EEPROM_RSSI_BG | EEPROM_RSSI_BG2 | EEPROM_TXMIXER_GAIN_BG | EEPROM_RSSI_A
  | EEPROM_RSSI_A2 | EEPROM_TXMIXER_GAIN_A | EEPROM_EIRP_MAX_TX_POWER
  | EEPROM_TXPOWER_DELTA | EEPROM_TXPOWER_BG1 | EEPROM_TXPOWER_BG2
  | EEPROM_TSSI_BOUND_BG1 | EEPROM_TSSI_BOUND_BG2 | EEPROM_TSSI_BOUND_BG3
  | EEPROM_TSSI_BOUND_BG4 | EEPROM_TSSI_BOUND_BG5 | EEPROM_TXPOWER_A1 | EEPROM_TXPOWER_A2
  | EEPROM_TXPOWER_INIT | EEPROM_TSSI_BOUND_A1 | EEPROM_TSSI_BOUND_A2
  | EEPROM_TSSI_BOUND_A3 | EEPROM_TSSI_BOUND_A4 | EEPROM_TSSI_BOUND_A5
  | EEPROM_TXPOWER_BYRATE | EEPROM_BBP_START | EEPROM_EXT_LNA2 | EEPROM_EXT_TXPOWER_BG3
  | EEPROM_EXT_TXPOWER_A3

text \<open>
  The two maps; a name without an initialiser has index 0, as a C array element without
  one has.
\<close>

fun rt2800_eeprom_map :: "rt2800_eeprom_word \<Rightarrow> nat" where
  "rt2800_eeprom_map EEPROM_CHIP_ID = 0x0000"
| "rt2800_eeprom_map EEPROM_VERSION = 0x0001"
| "rt2800_eeprom_map EEPROM_MAC_ADDR_0 = 0x0002"
| "rt2800_eeprom_map EEPROM_MAC_ADDR_1 = 0x0003"
| "rt2800_eeprom_map EEPROM_MAC_ADDR_2 = 0x0004"
| "rt2800_eeprom_map EEPROM_NIC_CONF0 = 0x001a"
| "rt2800_eeprom_map EEPROM_NIC_CONF1 = 0x001b"
| "rt2800_eeprom_map EEPROM_FREQ = 0x001d"
| "rt2800_eeprom_map EEPROM_LED_AG_CONF = 0x001e"
| "rt2800_eeprom_map EEPROM_LED_ACT_CONF = 0x001f"
| "rt2800_eeprom_map EEPROM_LED_POLARITY = 0x0020"
| "rt2800_eeprom_map EEPROM_NIC_CONF2 = 0x0021"
| "rt2800_eeprom_map EEPROM_LNA = 0x0022"
| "rt2800_eeprom_map EEPROM_RSSI_BG = 0x0023"
| "rt2800_eeprom_map EEPROM_RSSI_BG2 = 0x0024"
| "rt2800_eeprom_map EEPROM_TXMIXER_GAIN_BG = 0x0024"
| "rt2800_eeprom_map EEPROM_RSSI_A = 0x0025"
| "rt2800_eeprom_map EEPROM_RSSI_A2 = 0x0026"
| "rt2800_eeprom_map EEPROM_TXMIXER_GAIN_A = 0x0026"
| "rt2800_eeprom_map EEPROM_EIRP_MAX_TX_POWER = 0x0027"
| "rt2800_eeprom_map EEPROM_TXPOWER_DELTA = 0x0028"
| "rt2800_eeprom_map EEPROM_TXPOWER_BG1 = 0x0029"
| "rt2800_eeprom_map EEPROM_TXPOWER_BG2 = 0x0030"
| "rt2800_eeprom_map EEPROM_TSSI_BOUND_BG1 = 0x0037"
| "rt2800_eeprom_map EEPROM_TSSI_BOUND_BG2 = 0x0038"
| "rt2800_eeprom_map EEPROM_TSSI_BOUND_BG3 = 0x0039"
| "rt2800_eeprom_map EEPROM_TSSI_BOUND_BG4 = 0x003a"
| "rt2800_eeprom_map EEPROM_TSSI_BOUND_BG5 = 0x003b"
| "rt2800_eeprom_map EEPROM_TXPOWER_A1 = 0x003c"
| "rt2800_eeprom_map EEPROM_TXPOWER_A2 = 0x0053"
| "rt2800_eeprom_map EEPROM_TXPOWER_INIT = 0x0068"
| "rt2800_eeprom_map EEPROM_TSSI_BOUND_A1 = 0x006a"
| "rt2800_eeprom_map EEPROM_TSSI_BOUND_A2 = 0x006b"
| "rt2800_eeprom_map EEPROM_TSSI_BOUND_A3 = 0x006c"
| "rt2800_eeprom_map EEPROM_TSSI_BOUND_A4 = 0x006d"
| "rt2800_eeprom_map EEPROM_TSSI_BOUND_A5 = 0x006e"
| "rt2800_eeprom_map EEPROM_TXPOWER_BYRATE = 0x006f"
| "rt2800_eeprom_map EEPROM_BBP_START = 0x0078"
| "rt2800_eeprom_map _ = 0"

fun rt2800_eeprom_map_ext :: "rt2800_eeprom_word \<Rightarrow> nat" where
  "rt2800_eeprom_map_ext EEPROM_CHIP_ID = 0x0000"
| "rt2800_eeprom_map_ext EEPROM_VERSION = 0x0001"
| "rt2800_eeprom_map_ext EEPROM_MAC_ADDR_0 = 0x0002"
| "rt2800_eeprom_map_ext EEPROM_MAC_ADDR_1 = 0x0003"
| "rt2800_eeprom_map_ext EEPROM_MAC_ADDR_2 = 0x0004"
| "rt2800_eeprom_map_ext EEPROM_NIC_CONF0 = 0x001a"
| "rt2800_eeprom_map_ext EEPROM_NIC_CONF1 = 0x001b"
| "rt2800_eeprom_map_ext EEPROM_NIC_CONF2 = 0x001c"
| "rt2800_eeprom_map_ext EEPROM_EIRP_MAX_TX_POWER = 0x0020"
| "rt2800_eeprom_map_ext EEPROM_FREQ = 0x0022"
| "rt2800_eeprom_map_ext EEPROM_LED_AG_CONF = 0x0023"
| "rt2800_eeprom_map_ext EEPROM_LED_ACT_CONF = 0x0024"
| "rt2800_eeprom_map_ext EEPROM_LED_POLARITY = 0x0025"
| "rt2800_eeprom_map_ext EEPROM_LNA = 0x0026"
| "rt2800_eeprom_map_ext EEPROM_EXT_LNA2 = 0x0027"
| "rt2800_eeprom_map_ext EEPROM_RSSI_BG = 0x0028"
| "rt2800_eeprom_map_ext EEPROM_RSSI_BG2 = 0x0029"
| "rt2800_eeprom_map_ext EEPROM_RSSI_A = 0x002a"
| "rt2800_eeprom_map_ext EEPROM_RSSI_A2 = 0x002b"
| "rt2800_eeprom_map_ext EEPROM_TXPOWER_BG1 = 0x0030"
| "rt2800_eeprom_map_ext EEPROM_TXPOWER_BG2 = 0x0037"
| "rt2800_eeprom_map_ext EEPROM_EXT_TXPOWER_BG3 = 0x003e"
| "rt2800_eeprom_map_ext EEPROM_TSSI_BOUND_BG1 = 0x0045"
| "rt2800_eeprom_map_ext EEPROM_TSSI_BOUND_BG2 = 0x0046"
| "rt2800_eeprom_map_ext EEPROM_TSSI_BOUND_BG3 = 0x0047"
| "rt2800_eeprom_map_ext EEPROM_TSSI_BOUND_BG4 = 0x0048"
| "rt2800_eeprom_map_ext EEPROM_TSSI_BOUND_BG5 = 0x0049"
| "rt2800_eeprom_map_ext EEPROM_TXPOWER_A1 = 0x004b"
| "rt2800_eeprom_map_ext EEPROM_TXPOWER_A2 = 0x0065"
| "rt2800_eeprom_map_ext EEPROM_EXT_TXPOWER_A3 = 0x007f"
| "rt2800_eeprom_map_ext EEPROM_TSSI_BOUND_A1 = 0x009a"
| "rt2800_eeprom_map_ext EEPROM_TSSI_BOUND_A2 = 0x009b"
| "rt2800_eeprom_map_ext EEPROM_TSSI_BOUND_A3 = 0x009c"
| "rt2800_eeprom_map_ext EEPROM_TSSI_BOUND_A4 = 0x009d"
| "rt2800_eeprom_map_ext EEPROM_TSSI_BOUND_A5 = 0x009e"
| "rt2800_eeprom_map_ext EEPROM_TXPOWER_BYRATE = 0x00a0"
| "rt2800_eeprom_map_ext _ = 0"

text \<open>
  \<^verbatim>\<open>rt2800_eeprom_word_index\<close>. Its range check cannot fail on a name of the enumeration,
  and an index 0 for another name than the chip id is only logged.
\<close>

definition rt2800_eeprom_word_index :: "rt2x00_dev \<Rightarrow> rt2800_eeprom_word \<Rightarrow> nat" where
  "rt2800_eeprom_word_index dev word =
     (if rt2x00_rt dev RT3593 \<or> rt2x00_rt dev RT3883 then rt2800_eeprom_map_ext word
      else rt2800_eeprom_map word)"

definition rt2800_eeprom_read :: "rt2x00_dev \<Rightarrow> rt2800_eeprom_word \<Rightarrow> u16" where
  "rt2800_eeprom_read dev word = eeprom dev (rt2800_eeprom_word_index dev word)"

definition rt2800_eeprom_write :: "rt2x00_dev \<Rightarrow> rt2800_eeprom_word \<Rightarrow> u16 \<Rightarrow> rt2x00_dev" where
  "rt2800_eeprom_write dev word data =
     dev\<lparr>eeprom := (eeprom dev)(rt2800_eeprom_word_index dev word := data)\<rparr>"

text \<open>
  The EEPROM field layouts and the two codes of \<^verbatim>\<open>rt2800.h\<close> and \<^verbatim>\<open>rt2x00.h\<close> that
  \<^verbatim>\<open>rt2800_validate_eeprom\<close> uses; they are parameters like the register fields above.
\<close>

record rt2800_eeprom_h =
  EEPROM_NIC_CONF0_RXPATH :: rt2x00_field16
  EEPROM_NIC_CONF0_TXPATH :: rt2x00_field16
  EEPROM_NIC_CONF0_RF_TYPE :: rt2x00_field16
  EEPROM_NIC_CONF1_FIELDS :: "rt2x00_field16 list"
  EEPROM_FREQ_OFFSET :: rt2x00_field16
  EEPROM_FREQ_LED_MODE :: rt2x00_field16
  EEPROM_FREQ_LED_POLARITY :: rt2x00_field16
  EEPROM_LNA_A0 :: rt2x00_field16
  EEPROM_RSSI_BG_OFFSET0 :: rt2x00_field16
  EEPROM_RSSI_BG_OFFSET1 :: rt2x00_field16
  EEPROM_RSSI_BG2_OFFSET2 :: rt2x00_field16
  EEPROM_RSSI_BG2_LNA_A1 :: rt2x00_field16
  EEPROM_RSSI_A_OFFSET0 :: rt2x00_field16
  EEPROM_RSSI_A_OFFSET1 :: rt2x00_field16
  EEPROM_RSSI_A2_OFFSET2 :: rt2x00_field16
  EEPROM_RSSI_A2_LNA_A2 :: rt2x00_field16
  EEPROM_EXT_LNA2_A1 :: rt2x00_field16
  EEPROM_EXT_LNA2_A2 :: rt2x00_field16
  RF2820_CODE :: u16
  LED_MODE_TXRX_ACTIVITY :: u16

subsection \<open>EEPROM validation\<close>

text \<open>
  \<^verbatim>\<open>rt2800_read_eeprom\<close> is reached through the operations table; it fills the in-memory
  image from the device and returns a status.
\<close>

definition rt2800_read_eeprom ::
  "hw_env \<Rightarrow> rt2x00_dev \<Rightarrow> hw_event list \<Rightarrow> int \<times> rt2x00_dev \<times> hw_event list" where
  "rt2800_read_eeprom env dev tr =
     (let (retval, image) = eeprom_answer env tr
      in (retval, dev\<lparr>eeprom := image\<rparr>, tr @ [Read_eeprom retval]))"

text \<open>
  The paragraphs of \<^verbatim>\<open>rt2800_validate_eeprom\<close>, in the order of the source, one definition
  for each EEPROM word that is validated. \<^verbatim>\<open>abs\<close> is applied to the field value as an
  \<^verbatim>\<open>int\<close>.
\<close>

definition validate_nic_conf0 :: "rt2800_eeprom_h \<Rightarrow> rt2x00_dev \<Rightarrow> rt2x00_dev" where
  "validate_nic_conf0 h dev =
     (let word = rt2800_eeprom_read dev EEPROM_NIC_CONF0 in
      if word = 0xffff then
        let word = rt2x00_set_field16 word (EEPROM_NIC_CONF0_RXPATH h) 2;
            word = rt2x00_set_field16 word (EEPROM_NIC_CONF0_TXPATH h) 1;
            word = rt2x00_set_field16 word (EEPROM_NIC_CONF0_RF_TYPE h) (RF2820_CODE h)
        in rt2800_eeprom_write dev EEPROM_NIC_CONF0 word
      else if rt2x00_rt dev RT2860 \<or> rt2x00_rt dev RT2872 then
        let word =
              (if rt2x00_get_field16 word (EEPROM_NIC_CONF0_RXPATH h) > 2
               then rt2x00_set_field16 word (EEPROM_NIC_CONF0_RXPATH h) 2 else word)
        in rt2800_eeprom_write dev EEPROM_NIC_CONF0 word
      else dev)"

definition validate_nic_conf1 :: "rt2800_eeprom_h \<Rightarrow> rt2x00_dev \<Rightarrow> rt2x00_dev" where
  "validate_nic_conf1 h dev =
     (let word = rt2800_eeprom_read dev EEPROM_NIC_CONF1 in
      if word = 0xffff then
        let word = fold (\<lambda>f word. rt2x00_set_field16 word f 0) (EEPROM_NIC_CONF1_FIELDS h) word
        in rt2800_eeprom_write dev EEPROM_NIC_CONF1 word
      else dev)"

definition validate_freq :: "rt2800_eeprom_h \<Rightarrow> rt2x00_dev \<Rightarrow> rt2x00_dev" where
  "validate_freq h dev =
     (let word = rt2800_eeprom_read dev EEPROM_FREQ;
          (word, dev) =
            (if word AND 0x00ff = 0x00ff then
               let word = rt2x00_set_field16 word (EEPROM_FREQ_OFFSET h) 0
               in (word, rt2800_eeprom_write dev EEPROM_FREQ word)
             else (word, dev))
      in if word AND 0xff00 = 0xff00 then
           let word = rt2x00_set_field16 word (EEPROM_FREQ_LED_MODE h) (LED_MODE_TXRX_ACTIVITY h);
               word = rt2x00_set_field16 word (EEPROM_FREQ_LED_POLARITY h) 0;
               dev = rt2800_eeprom_write dev EEPROM_FREQ word;
               dev = rt2800_eeprom_write dev EEPROM_LED_AG_CONF 0x5555;
               dev = rt2800_eeprom_write dev EEPROM_LED_ACT_CONF 0x2221;
               dev = rt2800_eeprom_write dev EEPROM_LED_POLARITY 0xa9f8
           in dev
         else dev)"

definition rssi_offset_clamp :: "u16 \<Rightarrow> rt2x00_field16 \<Rightarrow> u16" where
  "rssi_offset_clamp word f =
     (if \<bar>uint (rt2x00_get_field16 word f)\<bar> > 10 then rt2x00_set_field16 word f 0 else word)"

definition lna_backfill :: "u16 \<Rightarrow> rt2x00_field16 \<Rightarrow> rt2x00_field16 \<Rightarrow> u8 \<Rightarrow> u16" where
  "lna_backfill word tested written default_lna_gain =
     (if rt2x00_get_field16 word tested = 0x00 \<or> rt2x00_get_field16 word tested = 0xff
      then rt2x00_set_field16 word written (ucast default_lna_gain) else word)"

definition validate_rssi_bg :: "rt2800_eeprom_h \<Rightarrow> rt2x00_dev \<Rightarrow> rt2x00_dev" where
  "validate_rssi_bg h dev =
     (let word = rt2800_eeprom_read dev EEPROM_RSSI_BG;
          word = rssi_offset_clamp word (EEPROM_RSSI_BG_OFFSET0 h);
          word = rssi_offset_clamp word (EEPROM_RSSI_BG_OFFSET1 h)
      in rt2800_eeprom_write dev EEPROM_RSSI_BG word)"

definition validate_rssi_bg2 :: "rt2800_eeprom_h \<Rightarrow> u8 \<Rightarrow> rt2x00_dev \<Rightarrow> rt2x00_dev" where
  "validate_rssi_bg2 h default_lna_gain dev =
     (let word = rt2800_eeprom_read dev EEPROM_RSSI_BG2;
          word = rssi_offset_clamp word (EEPROM_RSSI_BG2_OFFSET2 h);
          word =
            (if \<not> rt2x00_rt dev RT3593 \<and> \<not> rt2x00_rt dev RT3883 then
               lna_backfill word (EEPROM_RSSI_BG2_LNA_A1 h) (EEPROM_RSSI_BG2_LNA_A1 h)
                 default_lna_gain
             else word)
      in rt2800_eeprom_write dev EEPROM_RSSI_BG2 word)"

definition validate_rssi_a :: "rt2800_eeprom_h \<Rightarrow> rt2x00_dev \<Rightarrow> rt2x00_dev" where
  "validate_rssi_a h dev =
     (let word = rt2800_eeprom_read dev EEPROM_RSSI_A;
          word = rssi_offset_clamp word (EEPROM_RSSI_A_OFFSET0 h);
          word = rssi_offset_clamp word (EEPROM_RSSI_A_OFFSET1 h)
      in rt2800_eeprom_write dev EEPROM_RSSI_A word)"

definition validate_rssi_a2 :: "rt2800_eeprom_h \<Rightarrow> u8 \<Rightarrow> rt2x00_dev \<Rightarrow> rt2x00_dev" where
  "validate_rssi_a2 h default_lna_gain dev =
     (let word = rt2800_eeprom_read dev EEPROM_RSSI_A2;
          word = rssi_offset_clamp word (EEPROM_RSSI_A2_OFFSET2 h);
          word =
            (if \<not> rt2x00_rt dev RT3593 \<and> \<not> rt2x00_rt dev RT3883 then
               lna_backfill word (EEPROM_RSSI_A2_LNA_A2 h) (EEPROM_RSSI_A2_LNA_A2 h)
                 default_lna_gain
             else word)
      in rt2800_eeprom_write dev EEPROM_RSSI_A2 word)"

text \<open>
  The last paragraph tests the field \<^verbatim>\<open>EEPROM_EXT_LNA2_A1\<close> and writes it, and then tests
  the field \<^verbatim>\<open>EEPROM_EXT_LNA2_A2\<close> and writes \<^verbatim>\<open>EEPROM_EXT_LNA2_A1\<close> again.
\<close>

definition validate_ext_lna2 :: "rt2800_eeprom_h \<Rightarrow> u8 \<Rightarrow> rt2x00_dev \<Rightarrow> rt2x00_dev" where
  "validate_ext_lna2 h default_lna_gain dev =
     (if rt2x00_rt dev RT3593 \<or> rt2x00_rt dev RT3883 then
        let word = rt2800_eeprom_read dev EEPROM_EXT_LNA2;
            word = lna_backfill word (EEPROM_EXT_LNA2_A1 h) (EEPROM_EXT_LNA2_A1 h)
                     default_lna_gain;
            word = lna_backfill word (EEPROM_EXT_LNA2_A2 h) (EEPROM_EXT_LNA2_A1 h)
                     default_lna_gain
        in rt2800_eeprom_write dev EEPROM_EXT_LNA2 word
      else dev)"

text \<open>The validation of the image that has been read.\<close>

definition validate_eeprom_image :: "rt2800_eeprom_h \<Rightarrow> rt2x00_dev \<Rightarrow> rt2x00_dev" where
  "validate_eeprom_image h dev =
     (let dev = validate_nic_conf0 h dev;
          dev = validate_nic_conf1 h dev;
          dev = validate_freq h dev;
          word = rt2800_eeprom_read dev EEPROM_LNA;
          default_lna_gain = ucast (rt2x00_get_field16 word (EEPROM_LNA_A0 h));
          dev = validate_rssi_bg h dev;
          dev = validate_rssi_bg2 h default_lna_gain dev;
          dev = validate_rssi_a h dev;
          dev = validate_rssi_a2 h default_lna_gain dev;
          dev = validate_ext_lna2 h default_lna_gain dev
      in dev)"

definition rt2800_validate_eeprom ::
  "hw_env \<Rightarrow> rt2800_eeprom_h \<Rightarrow> rt2x00_dev \<Rightarrow> hw_event list \<Rightarrow> int \<times> rt2x00_dev \<times> hw_event list" where
  "rt2800_validate_eeprom env h dev tr =
     (let (retval, dev, tr) = rt2800_read_eeprom env dev tr in
      if retval \<noteq> 0 then (retval, dev, tr)
      else (0, validate_eeprom_image h dev, tr))"

text \<open>
  What the field layout has to satisfy for the properties below: the receive-path field
  of NIC_CONF0 shares no bit with the other two fields written beside it, the frequency
  offset lies in the low byte and the two LED fields in the high byte of the FREQ word,
  and the two fields of each RSSI word share no bit.
\<close>

definition eeprom_layout_ok :: "rt2800_eeprom_h \<Rightarrow> bool" where
  "eeprom_layout_ok h \<longleftrightarrow>
     bit_mask16 (EEPROM_NIC_CONF0_RXPATH h) AND bit_mask16 (EEPROM_NIC_CONF0_TXPATH h) = 0 \<and>
     bit_mask16 (EEPROM_NIC_CONF0_RXPATH h) AND bit_mask16 (EEPROM_NIC_CONF0_RF_TYPE h) = 0 \<and>
     bit_mask16 (EEPROM_FREQ_OFFSET h) AND 0xff00 = 0 \<and>
     bit_mask16 (EEPROM_FREQ_LED_MODE h) AND 0x00ff = 0 \<and>
     bit_mask16 (EEPROM_FREQ_LED_POLARITY h) AND 0x00ff = 0 \<and>
     bit_mask16 (EEPROM_RSSI_BG_OFFSET0 h) AND bit_mask16 (EEPROM_RSSI_BG_OFFSET1 h) = 0 \<and>
     bit_mask16 (EEPROM_RSSI_BG2_OFFSET2 h) AND bit_mask16 (EEPROM_RSSI_BG2_LNA_A1 h) = 0 \<and>
     bit_mask16 (EEPROM_RSSI_A_OFFSET0 h) AND bit_mask16 (EEPROM_RSSI_A_OFFSET1 h) = 0 \<and>
     bit_mask16 (EEPROM_RSSI_A2_OFFSET2 h) AND bit_mask16 (EEPROM_RSSI_A2_LNA_A2 h) = 0"

text \<open>
  The same validation seen word by word: what each paragraph makes of the word it reads.
  These functions serve the proofs; the lemmas of the properties section relate them to
  the definitions above.
\<close>

definition nic_conf0_word :: "rt2800_eeprom_h \<Rightarrow> bool \<Rightarrow> u16 \<Rightarrow> u16" where
  "nic_conf0_word h rt28 word =
     (if word = 0xffff then
        rt2x00_set_field16
          (rt2x00_set_field16 (rt2x00_set_field16 word (EEPROM_NIC_CONF0_RXPATH h) 2)
             (EEPROM_NIC_CONF0_TXPATH h) 1)
          (EEPROM_NIC_CONF0_RF_TYPE h) (RF2820_CODE h)
      else if rt28 then
        (if rt2x00_get_field16 word (EEPROM_NIC_CONF0_RXPATH h) > 2
         then rt2x00_set_field16 word (EEPROM_NIC_CONF0_RXPATH h) 2 else word)
      else word)"

definition nic_conf1_word :: "rt2800_eeprom_h \<Rightarrow> u16 \<Rightarrow> u16" where
  "nic_conf1_word h word =
     (if word = 0xffff
      then fold (\<lambda>f word. rt2x00_set_field16 word f 0) (EEPROM_NIC_CONF1_FIELDS h) word
      else word)"

definition freq_offset_word :: "rt2800_eeprom_h \<Rightarrow> u16 \<Rightarrow> u16" where
  "freq_offset_word h word =
     (if word AND 0x00ff = 0x00ff then rt2x00_set_field16 word (EEPROM_FREQ_OFFSET h) 0
      else word)"

definition freq_led_word :: "rt2800_eeprom_h \<Rightarrow> u16 \<Rightarrow> u16" where
  "freq_led_word h word =
     (if word AND 0xff00 = 0xff00 then
        rt2x00_set_field16
          (rt2x00_set_field16 word (EEPROM_FREQ_LED_MODE h) (LED_MODE_TXRX_ACTIVITY h))
          (EEPROM_FREQ_LED_POLARITY h) 0
      else word)"

definition freq_word :: "rt2800_eeprom_h \<Rightarrow> u16 \<Rightarrow> u16" where
  "freq_word h word = freq_led_word h (freq_offset_word h word)"

definition freq_led :: "rt2800_eeprom_h \<Rightarrow> u16 \<Rightarrow> bool" where
  "freq_led h word \<longleftrightarrow> freq_offset_word h word AND 0xff00 = 0xff00"

definition rssi_word :: "rt2x00_field16 \<Rightarrow> rt2x00_field16 \<Rightarrow> u16 \<Rightarrow> u16" where
  "rssi_word f0 f1 word = rssi_offset_clamp (rssi_offset_clamp word f0) f1"

definition rssi2_word :: "bool \<Rightarrow> rt2x00_field16 \<Rightarrow> rt2x00_field16 \<Rightarrow> u8 \<Rightarrow> u16 \<Rightarrow> u16" where
  "rssi2_word ext f lna d word =
     (if \<not> ext then lna_backfill (rssi_offset_clamp word f) lna lna d
      else rssi_offset_clamp word f)"

definition ext_lna2_word :: "rt2800_eeprom_h \<Rightarrow> u8 \<Rightarrow> u16 \<Rightarrow> u16" where
  "ext_lna2_word h d word =
     lna_backfill (lna_backfill word (EEPROM_EXT_LNA2_A1 h) (EEPROM_EXT_LNA2_A1 h) d)
       (EEPROM_EXT_LNA2_A2 h) (EEPROM_EXT_LNA2_A1 h) d"

subsection \<open>The closed-loop bandwidth filter calibration\<close>

text \<open>
  \<^verbatim>\<open>rt2800_rfcsr_read_bank\<close> and \<^verbatim>\<open>rt2800_rfcsr_write_bank\<close>: the bank is encoded above
  the six bits of the register number. \<^verbatim>\<open>rt2800_bbp_dcoc_read\<close> and
  \<^verbatim>\<open>rt2800_bbp_dcoc_write\<close>: baseband register 158 selects, register 159 carries the value.
\<close>

definition rfcsr_bank_word :: "nat \<Rightarrow> nat \<Rightarrow> nat" where
  "rfcsr_bank_word bank reg = reg OR push_bit 6 bank"

definition rt2800_rfcsr_read_bank ::
  "hw_env \<Rightarrow> nat \<Rightarrow> nat \<Rightarrow> hw_event list \<Rightarrow> u8 \<times> hw_event list" where
  "rt2800_rfcsr_read_bank env bank reg tr = rt2800_rfcsr_read env (rfcsr_bank_word bank reg) tr"

definition rt2800_rfcsr_write_bank :: "nat \<Rightarrow> nat \<Rightarrow> u8 \<Rightarrow> hw_event list \<Rightarrow> hw_event list" where
  "rt2800_rfcsr_write_bank bank reg v tr = rt2800_rfcsr_write (rfcsr_bank_word bank reg) v tr"

definition rt2800_bbp_dcoc_write :: "u8 \<Rightarrow> u8 \<Rightarrow> hw_event list \<Rightarrow> hw_event list" where
  "rt2800_bbp_dcoc_write reg v tr = rt2800_bbp_write 159 v (rt2800_bbp_write 158 reg tr)"

definition rt2800_bbp_dcoc_read :: "hw_env \<Rightarrow> u8 \<Rightarrow> hw_event list \<Rightarrow> u8 \<times> hw_event list" where
  "rt2800_bbp_dcoc_read env reg tr = rt2800_bbp_read env 159 (rt2800_bbp_write 158 reg tr)"

definition rt2800_bbp_core_soft_reset ::
  "hw_env \<Rightarrow> rt2800_h \<Rightarrow> bool \<Rightarrow> bool \<Rightarrow> hw_event list \<Rightarrow> hw_event list" where
  "rt2800_bbp_core_soft_reset env h set_bw is_ht40 tr =
     (let (bbp_val, tr) = rt2800_bbp_read env 21 tr;
          bbp_val = bbp_val OR 0x1;
          tr = rt2800_bbp_write 21 bbp_val tr;
          tr =
            (if set_bw then
               let (bbp_val, tr) = rt2800_bbp_read env 4 tr;
                   bbp_val = rt2x00_set_field8 bbp_val (BBP4_BANDWIDTH h)
                     (2 * (if is_ht40 then 1 else 0))
               in rt2800_bbp_write 4 bbp_val tr
             else tr);
          (bbp_val, tr) = rt2800_bbp_read env 21 tr;
          bbp_val = bbp_val AND NOT 0x1
      in rt2800_bbp_write 21 bbp_val tr)"

definition rt2800_rf_lp_config :: "hw_env \<Rightarrow> bool \<Rightarrow> hw_event list \<Rightarrow> hw_event list" where
  "rt2800_rf_lp_config env btxcal tr =
     (let tr = (if btxcal then rt2800_register_write RF_CONTROL0 0x04 tr
                else rt2800_register_write RF_CONTROL0 0x02 tr);
          tr = rt2800_register_write RF_BYPASS0 0x06 tr;
          (rf_val, tr) = rt2800_rfcsr_read_bank env 5 17 tr;
          rf_val = rf_val OR 0x80;
          tr = rt2800_rfcsr_write_bank 5 17 rf_val tr
      in if btxcal then
           let tr = rt2800_rfcsr_write_bank 5 18 0xC1 tr;
               tr = rt2800_rfcsr_write_bank 5 19 0x20 tr;
               tr = rt2800_rfcsr_write_bank 5 20 0x02 tr;
               (rf_val, tr) = rt2800_rfcsr_read_bank env 5 3 tr;
               rf_val = rf_val AND NOT 0x3F;
               rf_val = rf_val OR 0x3F;
               tr = rt2800_rfcsr_write_bank 5 3 rf_val tr;
               (rf_val, tr) = rt2800_rfcsr_read_bank env 5 4 tr;
               rf_val = rf_val AND NOT 0x3F;
               rf_val = rf_val OR 0x3F;
               tr = rt2800_rfcsr_write_bank 5 4 rf_val tr
           in rt2800_rfcsr_write_bank 5 5 0x31 tr
         else
           let tr = rt2800_rfcsr_write_bank 5 18 0xF1 tr;
               tr = rt2800_rfcsr_write_bank 5 19 0x18 tr;
               tr = rt2800_rfcsr_write_bank 5 20 0x02 tr;
               (rf_val, tr) = rt2800_rfcsr_read_bank env 5 3 tr;
               rf_val = rf_val AND NOT 0x3F;
               rf_val = rf_val OR 0x34;
               tr = rt2800_rfcsr_write_bank 5 3 rf_val tr;
               (rf_val, tr) = rt2800_rfcsr_read_bank env 5 4 tr;
               rf_val = rf_val AND NOT 0x3F;
               rf_val = rf_val OR 0x34
           in rt2800_rfcsr_write_bank 5 4 rf_val tr)"

text \<open>
  \<^verbatim>\<open>rt2800_lp_tx_filter_bw_cal\<close>: the polling loop
  \<^verbatim>\<open>do { ...; if (bbp_val == 0x02 || cnt == 20) break; cnt++; } while (cnt < 20)\<close> and the
  readout. The result is a \<^verbatim>\<open>char\<close>, taken as a signed byte: a word that \<open>sint\<close> reads.
\<close>

function lp_tx_filter_bw_cal_poll :: "hw_env \<Rightarrow> nat \<Rightarrow> hw_event list \<Rightarrow> hw_event list" where
  "lp_tx_filter_bw_cal_poll env cnt tr =
     (let (bbp_val, tr) = rt2800_bbp_read env 159 tr in
      if bbp_val = 0x02 \<or> cnt = 20 then tr
      else
        let cnt = cnt + 1
        in if cnt < 20 then lp_tx_filter_bw_cal_poll env cnt tr else tr)"
  by pat_completeness auto
termination
  by (relation "measure (\<lambda>(env, cnt, tr). 20 - cnt)") auto

declare lp_tx_filter_bw_cal_poll.simps [simp del]

definition rt2800_lp_tx_filter_bw_cal :: "hw_env \<Rightarrow> hw_event list \<Rightarrow> u8 \<times> hw_event list" where
  "rt2800_lp_tx_filter_bw_cal env tr =
     (let tr = rt2800_bbp_dcoc_write 0 0x82 tr;
          tr = lp_tx_filter_bw_cal_poll env 0 tr;
          (bbp_val, tr) = rt2800_bbp_dcoc_read env 0x39 tr;
          cal_val = bbp_val AND 0x7F;
          cal_val = (if sint cal_val \<ge> 0x40 then cal_val - 128 else cal_val)
      in (cal_val, tr))"

text \<open>
  The registers that \<^verbatim>\<open>rt2800_bw_filter_calibration\<close> saves at entry: two MAC registers,
  baseband register 23, the registers 0 and 2 behind baseband register 159, and 24 registers
  of RF bank 5. The 24 variables \<^verbatim>\<open>saverfb5r00\<close> to \<^verbatim>\<open>saverfb5r59\<close> are the entries of a
  list, in the order in which the source reads and later writes them.
\<close>

definition saved_rfb5_regs :: "nat list" where
  "saved_rfb5_regs =
     [0, 1, 3, 4, 5, 6, 7, 8, 17, 18, 19, 20, 37, 38, 39, 40, 41, 42, 43, 44, 45, 46, 58, 59]"

record bw_filter_saved =
  MAC_RF_CONTROL0 :: u32
  MAC_RF_BYPASS0 :: u32
  savebbpr23 :: u8
  savebbp159r0 :: u8
  savebbp159r2 :: u8
  saverfb5 :: "(nat \<times> u8) list"

fun rfcsr_save_bank :: "hw_env \<Rightarrow> nat \<Rightarrow> nat list \<Rightarrow> hw_event list \<Rightarrow> (nat \<times> u8) list \<times> hw_event list" where
  "rfcsr_save_bank env bank [] tr = ([], tr)"
| "rfcsr_save_bank env bank (reg # regs) tr =
     (let (v, tr) = rt2800_rfcsr_read_bank env bank reg tr;
          (vs, tr) = rfcsr_save_bank env bank regs tr
      in ((reg, v) # vs, tr))"

fun rfcsr_restore_bank :: "nat \<Rightarrow> (nat \<times> u8) list \<Rightarrow> hw_event list \<Rightarrow> hw_event list" where
  "rfcsr_restore_bank bank [] tr = tr"
| "rfcsr_restore_bank bank ((reg, v) # vs) tr =
     rfcsr_restore_bank bank vs (rt2800_rfcsr_write_bank bank reg v tr)"

definition bw_filter_save :: "hw_env \<Rightarrow> hw_event list \<Rightarrow> bw_filter_saved \<times> hw_event list" where
  "bw_filter_save env tr =
     (let (c0, tr) = rt2800_register_read env RF_CONTROL0 tr;
          (b0, tr) = rt2800_register_read env RF_BYPASS0 tr;
          (r23, tr) = rt2800_bbp_read env 23 tr;
          (r0, tr) = rt2800_bbp_dcoc_read env 0 tr;
          (r2, tr) = rt2800_bbp_dcoc_read env 2 tr;
          (rf, tr) = rfcsr_save_bank env 5 saved_rfb5_regs tr
      in (\<lparr>MAC_RF_CONTROL0 = c0, MAC_RF_BYPASS0 = b0, savebbpr23 = r23, savebbp159r0 = r0,
           savebbp159r2 = r2, saverfb5 = rf\<rparr>, tr))"

definition bw_filter_restore ::
  "hw_env \<Rightarrow> rt2800_h \<Rightarrow> rt2x00_dev \<Rightarrow> bw_filter_saved \<Rightarrow> hw_event list \<Rightarrow> hw_event list" where
  "bw_filter_restore env h dev saved tr =
     (let tr = rfcsr_restore_bank 5 (saverfb5 saved) tr;
          tr = rt2800_bbp_write 23 (savebbpr23 saved) tr;
          tr = rt2800_bbp_dcoc_write 0 (savebbp159r0 saved) tr;
          tr = rt2800_bbp_dcoc_write 2 (savebbp159r2 saved) tr;
          (bbp_val, tr) = rt2800_bbp_read env 4 tr;
          bbp_val = rt2x00_set_field8 bbp_val (BBP4_BANDWIDTH h)
            (2 * (if test_bit CONFIG_CHANNEL_HT40 dev then 1 else 0));
          tr = rt2800_bbp_write 4 bbp_val tr;
          tr = rt2800_register_write RF_CONTROL0 (MAC_RF_CONTROL0 saved) tr
      in rt2800_register_write RF_BYPASS0 (MAC_RF_BYPASS0 saved) tr)"

text \<open>
  The wait for the calibration bit of RF register 1 of bank 5:
  \<^verbatim>\<open>do { ...; if (((rf_val & 0x1) == 0x00) || (cnt == 40)) break; cnt++; } while (cnt < 40)\<close>.
\<close>

function bw_filter_wait_rcal :: "hw_env \<Rightarrow> nat \<Rightarrow> hw_event list \<Rightarrow> hw_event list" where
  "bw_filter_wait_rcal env cnt tr =
     (let (rf_val, tr) = rt2800_rfcsr_read_bank env 5 1 tr in
      if rf_val AND 0x1 = 0x00 \<or> cnt = 40 then tr
      else
        let cnt = cnt + 1
        in if cnt < 40 then bw_filter_wait_rcal env cnt tr else tr)"
  by pat_completeness auto
termination
  by (relation "measure (\<lambda>(env, cnt, tr). 40 - cnt)") auto

declare bw_filter_wait_rcal.simps [simp del]

text \<open>
  Writing the gain-compensation value into the two registers of the direction that is
  calibrated: 58 and 59 for TX, 6 and 7 for RX.
\<close>

definition bw_filter_write_agc :: "hw_env \<Rightarrow> bool \<Rightarrow> u8 \<Rightarrow> u8 \<Rightarrow> hw_event list \<Rightarrow> hw_event list" where
  "bw_filter_write_agc env btxcal tx_agc_fc rx_agc_fc tr =
     (if btxcal then
        let (rf_val, tr) = rt2800_rfcsr_read_bank env 5 58 tr;
            rf_val = rf_val AND NOT 0x7F;
            rf_val = rf_val OR tx_agc_fc;
            tr = rt2800_rfcsr_write_bank 5 58 rf_val tr;
            (rf_val, tr) = rt2800_rfcsr_read_bank env 5 59 tr;
            rf_val = rf_val AND NOT 0x7F;
            rf_val = rf_val OR tx_agc_fc
        in rt2800_rfcsr_write_bank 5 59 rf_val tr
      else
        let (rf_val, tr) = rt2800_rfcsr_read_bank env 5 6 tr;
            rf_val = rf_val AND NOT 0x7F;
            rf_val = rf_val OR rx_agc_fc;
            tr = rt2800_rfcsr_write_bank 5 6 rf_val tr;
            (rf_val, tr) = rt2800_rfcsr_read_bank env 5 7 tr;
            rf_val = rf_val AND NOT 0x7F;
            rf_val = rf_val OR rx_agc_fc
        in rt2800_rfcsr_write_bank 5 7 rf_val tr)"

text \<open>
  The search from the label \<^verbatim>\<open>do_cal\<close>: each pass writes the gain-compensation value,
  measures, and either settles the value (resetting it to 0 in the two saturated cases) or
  increments it and jumps back. \<^verbatim>\<open>cal_diff\<close> is a \<^verbatim>\<open>char\<close>, compared as an \<^verbatim>\<open>int\<close> with
  the unsigned target.
\<close>

function bw_filter_do_cal ::
  "hw_env \<Rightarrow> rt2800_h \<Rightarrow> bool \<Rightarrow> bool \<Rightarrow> u8 \<Rightarrow> u8 \<Rightarrow> u8 \<Rightarrow> u8 \<Rightarrow> hw_event list \<Rightarrow>
   u8 \<times> u8 \<times> hw_event list" where
  "bw_filter_do_cal env h btxcal is_ht40 filter_target cal_r32_init tx_agc_fc rx_agc_fc tr =
     (let tr = bw_filter_write_agc env btxcal tx_agc_fc rx_agc_fc tr;
          tr = rt2800_bbp_core_soft_reset env h False is_ht40 tr;
          (cal_r32_val, tr) = rt2800_lp_tx_filter_bw_cal env tr;
          cal_diff = cal_r32_init - cal_r32_val;
          cmm_agc_fc = (if btxcal then tx_agc_fc else rx_agc_fc)
      in if (sint cal_diff > uint filter_target \<and> cmm_agc_fc = 0) \<or>
            (sint cal_diff < uint filter_target \<and> cmm_agc_fc = 0x3f) then
           (if btxcal then (0, rx_agc_fc, tr) else (tx_agc_fc, 0, tr))
         else if sint cal_diff \<le> uint filter_target \<and> cmm_agc_fc < 0x3f then
           (if btxcal then
              bw_filter_do_cal env h btxcal is_ht40 filter_target cal_r32_init
                (tx_agc_fc + 1) rx_agc_fc tr
            else
              bw_filter_do_cal env h btxcal is_ht40 filter_target cal_r32_init
                tx_agc_fc (rx_agc_fc + 1) tr)
         else (tx_agc_fc, rx_agc_fc, tr))"
  by pat_completeness auto
termination
  by (relation "measure (\<lambda>(env, h, btxcal, is_ht40, filter_target, cal_r32_init,
      tx_agc_fc, rx_agc_fc, tr). 0x3f - unat (if btxcal then tx_agc_fc else rx_agc_fc))")
    (auto simp add: word_less_nat_alt unat_word_ariths)

declare bw_filter_do_cal.simps [simp del]

text \<open>
  One pass of the outer loop \<^verbatim>\<open>do { ... loop++; } while (loop <= 1)\<close>: \<open>loop\<close> is 0 for
  20 MHz and 1 for 40 MHz. The pass ends by storing its result in \<^verbatim>\<open>drv_data\<close>.
\<close>

definition bw_filter_loop_body ::
  "hw_env \<Rightarrow> rt2800_h \<Rightarrow> bool \<Rightarrow> nat \<Rightarrow> u8 \<Rightarrow> u8 \<Rightarrow> rt2x00_dev \<Rightarrow> hw_event list \<Rightarrow>
   u8 \<times> u8 \<times> rt2x00_dev \<times> hw_event list" where
  "bw_filter_loop_body env h btxcal loop tx_agc_fc rx_agc_fc dev tr =
     (let tx_filter_target_20m = 0x09; tx_filter_target_40m = 0x02;
          rx_filter_target_20m = 0x27; rx_filter_target_40m = 0x31;
          is_ht40 = (loop \<noteq> 0);
          filter_target =
            (if loop = 0 then (if btxcal then tx_filter_target_20m else rx_filter_target_20m)
             else (if btxcal then tx_filter_target_40m else rx_filter_target_40m));
          (rf_val, tr) = rt2800_rfcsr_read_bank env 5 8 tr;
          rf_val = rf_val AND NOT 0x04;
          rf_val = (if loop = 1 then rf_val OR 0x4 else rf_val);
          tr = rt2800_rfcsr_write_bank 5 8 rf_val tr;
          tr = rt2800_bbp_core_soft_reset env h True is_ht40 tr;
          tr = rt2800_rf_lp_config env btxcal tr;
          tx_agc_fc = (if btxcal then 0 else tx_agc_fc);
          rx_agc_fc = (if btxcal then rx_agc_fc else 0);
          tr =
            (if btxcal then
               let (rf_val, tr) = rt2800_rfcsr_read_bank env 5 58 tr;
                   rf_val = rf_val AND NOT 0x7F;
                   tr = rt2800_rfcsr_write_bank 5 58 rf_val tr;
                   (rf_val, tr) = rt2800_rfcsr_read_bank env 5 59 tr;
                   rf_val = rf_val AND NOT 0x7F
               in rt2800_rfcsr_write_bank 5 59 rf_val tr
             else
               let (rf_val, tr) = rt2800_rfcsr_read_bank env 5 6 tr;
                   rf_val = rf_val AND NOT 0x7F;
                   tr = rt2800_rfcsr_write_bank 5 6 rf_val tr;
                   (rf_val, tr) = rt2800_rfcsr_read_bank env 5 7 tr;
                   rf_val = rf_val AND NOT 0x7F
               in rt2800_rfcsr_write_bank 5 7 rf_val tr);
          (bbp_val, tr) = rt2800_bbp_dcoc_read env 2 tr;
          bbp_val = bbp_val AND NOT 0x6;
          tr = rt2800_bbp_dcoc_write 2 bbp_val tr;
          tr = rt2800_bbp_core_soft_reset env h False is_ht40 tr;
          (cal_r32_init, tr) = rt2800_lp_tx_filter_bw_cal env tr;
          (bbp_val, tr) = rt2800_bbp_dcoc_read env 2 tr;
          bbp_val = bbp_val OR 0x6;
          tr = rt2800_bbp_dcoc_write 2 bbp_val tr;
          (tx_agc_fc, rx_agc_fc, tr) =
            bw_filter_do_cal env h btxcal is_ht40 filter_target cal_r32_init
              tx_agc_fc rx_agc_fc tr;
          drv = drv_data dev;
          drv =
            (if btxcal then
               (if loop = 0 then drv\<lparr>tx_calibration_bw20 := tx_agc_fc\<rparr>
                else drv\<lparr>tx_calibration_bw40 := tx_agc_fc\<rparr>)
             else
               (if loop = 0 then drv\<lparr>rx_calibration_bw20 := rx_agc_fc\<rparr>
                else drv\<lparr>rx_calibration_bw40 := rx_agc_fc\<rparr>))
      in (tx_agc_fc, rx_agc_fc, dev\<lparr>drv_data := drv\<rparr>, tr))"

text \<open>
  The part of \<^verbatim>\<open>rt2800_bw_filter_calibration\<close> between the saving and the restoring of the
  registers: it starts the R-calibration, sets the test tone, and runs the two passes.
\<close>

definition bw_filter_search ::
  "hw_env \<Rightarrow> rt2800_h \<Rightarrow> bool \<Rightarrow> rt2x00_dev \<Rightarrow> hw_event list \<Rightarrow> rt2x00_dev \<times> hw_event list" where
  "bw_filter_search env h btxcal dev tr =
     (let tx_agc_fc = 0; rx_agc_fc = 0;
          (rf_val, tr) = rt2800_rfcsr_read_bank env 5 0 tr;
          rf_val = rf_val OR 0x3;
          tr = rt2800_rfcsr_write_bank 5 0 rf_val tr;
          (rf_val, tr) = rt2800_rfcsr_read_bank env 5 1 tr;
          rf_val = rf_val OR 0x1;
          tr = rt2800_rfcsr_write_bank 5 1 rf_val tr;
          tr = bw_filter_wait_rcal env 0 tr;
          (rf_val, tr) = rt2800_rfcsr_read_bank env 5 0 tr;
          rf_val = rf_val AND NOT 0x3;
          rf_val = rf_val OR 0x1;
          tr = rt2800_rfcsr_write_bank 5 0 rf_val tr;
          (bbp_val, tr) = rt2800_bbp_read env 23 tr;
          bbp_val = bbp_val AND NOT 0x1F;
          bbp_val = bbp_val OR 0x10;
          tr = rt2800_bbp_write 23 bbp_val tr;
          (tx_agc_fc, rx_agc_fc, dev, tr) =
            bw_filter_loop_body env h btxcal 0 tx_agc_fc rx_agc_fc dev tr;
          (tx_agc_fc, rx_agc_fc, dev, tr) =
            bw_filter_loop_body env h btxcal 1 tx_agc_fc rx_agc_fc dev tr
      in (dev, tr))"

definition rt2800_bw_filter_calibration ::
  "hw_env \<Rightarrow> rt2800_h \<Rightarrow> bool \<Rightarrow> rt2x00_dev \<Rightarrow> hw_event list \<Rightarrow> rt2x00_dev \<times> hw_event list" where
  "rt2800_bw_filter_calibration env h btxcal dev tr =
     (let (saved, tr) = bw_filter_save env tr;
          (dev, tr) = bw_filter_search env h btxcal dev tr;
          tr = bw_filter_restore env h dev saved tr
      in (dev, tr))"

text \<open>
  The two calls at the end of \<^verbatim>\<open>rt2800_init_rfcsr_6352\<close>: the TX calibration, then the RX
  calibration.
\<close>

definition bw_filter_calibration_tx_rx ::
  "hw_env \<Rightarrow> rt2800_h \<Rightarrow> rt2x00_dev \<Rightarrow> hw_event list \<Rightarrow> rt2x00_dev \<times> hw_event list" where
  "bw_filter_calibration_tx_rx env h dev tr =
     (let (dev, tr) = rt2800_bw_filter_calibration env h True dev tr
      in rt2800_bw_filter_calibration env h False dev tr)"

text \<open>
  Reading a history: the value that the first access to a register in it read (none when
  the first access is a write), and the value that the last write to the register in it
  wrote. For the registers behind baseband register 159, the register written last to
  baseband register 158 says which one an access to 159 means.
\<close>

fun rfcsr_entry_value :: "nat \<Rightarrow> hw_event list \<Rightarrow> u8 option" where
  "rfcsr_entry_value w [] = None"
| "rfcsr_entry_value w (Rfcsr_read w' v # evs) =
     (if w' = w then Some v else rfcsr_entry_value w evs)"
| "rfcsr_entry_value w (Rfcsr_write w' v # evs) =
     (if w' = w then None else rfcsr_entry_value w evs)"
| "rfcsr_entry_value w (_ # evs) = rfcsr_entry_value w evs"

fun rfcsr_last_write :: "nat \<Rightarrow> hw_event list \<Rightarrow> u8 option" where
  "rfcsr_last_write w [] = None"
| "rfcsr_last_write w (Rfcsr_write w' v # evs) =
     (case rfcsr_last_write w evs of Some v' \<Rightarrow> Some v'
      | None \<Rightarrow> if w' = w then Some v else None)"
| "rfcsr_last_write w (_ # evs) = rfcsr_last_write w evs"

fun bbp_entry_value :: "nat \<Rightarrow> hw_event list \<Rightarrow> u8 option" where
  "bbp_entry_value w [] = None"
| "bbp_entry_value w (Bbp_read w' v # evs) =
     (if w' = w then Some v else bbp_entry_value w evs)"
| "bbp_entry_value w (Bbp_write w' v # evs) =
     (if w' = w then None else bbp_entry_value w evs)"
| "bbp_entry_value w (_ # evs) = bbp_entry_value w evs"

fun bbp_last_write :: "nat \<Rightarrow> hw_event list \<Rightarrow> u8 option" where
  "bbp_last_write w [] = None"
| "bbp_last_write w (Bbp_write w' v # evs) =
     (case bbp_last_write w evs of Some v' \<Rightarrow> Some v'
      | None \<Rightarrow> if w' = w then Some v else None)"
| "bbp_last_write w (_ # evs) = bbp_last_write w evs"

fun register_entry_value :: "mac_reg \<Rightarrow> hw_event list \<Rightarrow> u32 option" where
  "register_entry_value r [] = None"
| "register_entry_value r (Register_read r' v # evs) =
     (if r' = r then Some v else register_entry_value r evs)"
| "register_entry_value r (Register_write r' v # evs) =
     (if r' = r then None else register_entry_value r evs)"
| "register_entry_value r (_ # evs) = register_entry_value r evs"

fun register_last_write :: "mac_reg \<Rightarrow> hw_event list \<Rightarrow> u32 option" where
  "register_last_write r [] = None"
| "register_last_write r (Register_write r' v # evs) =
     (case register_last_write r evs of Some v' \<Rightarrow> Some v'
      | None \<Rightarrow> if r' = r then Some v else None)"
| "register_last_write r (_ # evs) = register_last_write r evs"

fun dcoc_entry_value :: "u8 \<Rightarrow> u8 option \<Rightarrow> hw_event list \<Rightarrow> u8 option" where
  "dcoc_entry_value k sel [] = None"
| "dcoc_entry_value k sel (Bbp_write w v # evs) =
     (if w = 158 then dcoc_entry_value k (Some v) evs
      else if w = 159 \<and> sel = Some k then None
      else dcoc_entry_value k sel evs)"
| "dcoc_entry_value k sel (Bbp_read w v # evs) =
     (if w = 159 \<and> sel = Some k then Some v else dcoc_entry_value k sel evs)"
| "dcoc_entry_value k sel (_ # evs) = dcoc_entry_value k sel evs"

fun dcoc_last_write :: "u8 \<Rightarrow> u8 option \<Rightarrow> hw_event list \<Rightarrow> u8 option" where
  "dcoc_last_write k sel [] = None"
| "dcoc_last_write k sel (Bbp_write w v # evs) =
     (if w = 158 then dcoc_last_write k (Some v) evs
      else
        (case dcoc_last_write k sel evs of Some v' \<Rightarrow> Some v'
         | None \<Rightarrow> if w = 159 \<and> sel = Some k then Some v else None))"
| "dcoc_last_write k sel (_ # evs) = dcoc_last_write k sel evs"

text \<open>
  The frame of the call on the RF registers: a history in which every RF register write
  addresses one of the saved registers of bank 5; and a history that continues another
  one by such accesses.
\<close>

fun rf_write_saved :: "hw_event \<Rightarrow> bool" where
  "rf_write_saved (Rfcsr_write w v) \<longleftrightarrow> w \<in> set (map (rfcsr_bank_word 5) saved_rfb5_regs)"
| "rf_write_saved _ \<longleftrightarrow> True"

definition rf_writes_saved :: "hw_event list \<Rightarrow> bool" where
  "rf_writes_saved evs \<longleftrightarrow> list_all rf_write_saved evs"

definition extends :: "hw_event list \<Rightarrow> hw_event list \<Rightarrow> bool" where
  "extends tr tr' \<longleftrightarrow> (\<exists>evs. tr' = tr @ evs \<and> rf_writes_saved evs)"

subsection \<open>Example devices and images\<close>

definition pci_rt2860 :: rt2x00_dev where
  "pci_rt2860 =
     \<lparr>chip_rt = RT2860, chip_rf = RF2820, chip_intf = CHIP_INTF_PCI, flags = {},
      curr_band = NL80211_BAND_2GHZ, lna_gain = 0, rx_chain_num = 2,
      drv_data = \<lparr>rx_calibration_bw20 = 0, rx_calibration_bw40 = 0,
                  tx_calibration_bw20 = 0, tx_calibration_bw40 = 0\<rparr>,
      eeprom = (\<lambda>_. 0)\<rparr>"

definition usb_rt2860 :: rt2x00_dev where
  "usb_rt2860 = pci_rt2860\<lparr>chip_intf := CHIP_INTF_USB\<rparr>"

definition usb_rt3071 :: rt2x00_dev where
  "usb_rt3071 = pci_rt2860\<lparr>chip_rt := RT3071, chip_rf := RF3020, chip_intf := CHIP_INTF_USB\<rparr>"

definition unknown_rf_dev :: rt2x00_dev where
  "unknown_rf_dev = usb_rt2860\<lparr>chip_rf := RF_UNKNOWN\<rparr>"

text \<open>A device that answers every read with 0 and every state change with success.\<close>

definition hw_quiet :: hw_env where
  "hw_quiet =
     \<lparr>register_answer = (\<lambda>_ _. 0), bbp_answer = (\<lambda>_ _. 0), rfcsr_answer = (\<lambda>_ _. 0),
      state_answer = (\<lambda>_ _. 0), eeprom_answer = (\<lambda>_. (0, \<lambda>_. 0))\<rparr>"

text \<open>
  The constants as the driver's \<^verbatim>\<open>rt2800.h\<close> is published with the Linux kernel; they
  serve as the concrete instance of the header in the examples.
\<close>

definition rt2800_h_values :: rt2800_h where
  "rt2800_h_values =
     \<lparr>BBP4_BANDWIDTH = FIELD8 3 0x18,
      BBP27_RX_CHAIN_SEL = FIELD8 5 0x60,
      RFCSR22_BASEBAND_LOOPBACK = FIELD8 0 0x01,
      RFCSR31_RX_H20M = FIELD8 5 0x20\<rparr>"

text \<open>
  Two devices for the filter sweep: one that answers 0x40 to the passband tone and 0 to the
  stopband tone, and one that answers 0x10 to both.
\<close>

definition hw_two_tone :: hw_env where
  "hw_two_tone =
     hw_quiet\<lparr>bbp_answer :=
       (\<lambda>tr word. if word = 55 \<and> Bbp_write 24 0x06 \<notin> set tr then 0x40 else 0)\<rparr>"

definition hw_flat :: hw_env where
  "hw_flat = hw_quiet\<lparr>bbp_answer := (\<lambda>tr word. if word = 55 then 0x10 else 0)\<rparr>"

lemmas io_defs =
  rt2800_register_read_def rt2800_register_write_def rt2800_bbp_read_def rt2800_bbp_write_def
  rt2800_rfcsr_read_def rt2800_rfcsr_write_def

lemma hw_two_tone_answers:
  "bbp_answer hw_two_tone tr word = (if word = 55 \<and> Bbp_write 24 0x06 \<notin> set tr then 0x40 else 0)"
  "rfcsr_answer hw_two_tone tr word = 0"
  by (simp_all add: hw_two_tone_def hw_quiet_def)

lemma hw_flat_answers:
  "bbp_answer hw_flat tr word = (if word = 55 then 0x10 else 0)"
  "rfcsr_answer hw_flat tr word = 0"
  by (simp_all add: hw_flat_def hw_quiet_def)

lemma rt2800_h_values_fields:
  "BBP4_BANDWIDTH rt2800_h_values = FIELD8 3 0x18"
  "BBP27_RX_CHAIN_SEL rt2800_h_values = FIELD8 5 0x60"
  "RFCSR22_BASEBAND_LOOPBACK rt2800_h_values = FIELD8 0 0x01"
  "RFCSR31_RX_H20M rt2800_h_values = FIELD8 5 0x20"
  by (simp_all add: rt2800_h_values_def)

text \<open>
  The EEPROM constants as the driver's headers are published with the Linux kernel, a
  blank EEPROM (every word \<open>0xffff\<close>) on a USB RT2860, and an RT3593 whose reference
  gain (field A0 of the LNA word) is \<open>0x34\<close> and whose EXT_LNA2 word holds a valid A1 gain
  \<open>0x12\<close> and the all-zero pattern in A2.
\<close>

definition rt2800_eeprom_h_values :: rt2800_eeprom_h where
  "rt2800_eeprom_h_values =
     \<lparr>EEPROM_NIC_CONF0_RXPATH = FIELD16 0 0x000f,
      EEPROM_NIC_CONF0_TXPATH = FIELD16 4 0x00f0,
      EEPROM_NIC_CONF0_RF_TYPE = FIELD16 8 0x0f00,
      EEPROM_NIC_CONF1_FIELDS =
        [FIELD16 0 0x0001, FIELD16 1 0x0002, FIELD16 2 0x0004, FIELD16 3 0x0008,
         FIELD16 4 0x0010, FIELD16 5 0x0020, FIELD16 6 0x0040, FIELD16 7 0x0080,
         FIELD16 8 0x0100, FIELD16 9 0x0200, FIELD16 10 0x0400, FIELD16 11 0x1800,
         FIELD16 13 0x2000, FIELD16 14 0x4000, FIELD16 15 0x8000],
      EEPROM_FREQ_OFFSET = FIELD16 0 0x00ff,
      EEPROM_FREQ_LED_MODE = FIELD16 8 0x7f00,
      EEPROM_FREQ_LED_POLARITY = FIELD16 12 0x1000,
      EEPROM_LNA_A0 = FIELD16 8 0xff00,
      EEPROM_RSSI_BG_OFFSET0 = FIELD16 0 0x00ff,
      EEPROM_RSSI_BG_OFFSET1 = FIELD16 8 0xff00,
      EEPROM_RSSI_BG2_OFFSET2 = FIELD16 0 0x00ff,
      EEPROM_RSSI_BG2_LNA_A1 = FIELD16 8 0xff00,
      EEPROM_RSSI_A_OFFSET0 = FIELD16 0 0x00ff,
      EEPROM_RSSI_A_OFFSET1 = FIELD16 8 0xff00,
      EEPROM_RSSI_A2_OFFSET2 = FIELD16 0 0x00ff,
      EEPROM_RSSI_A2_LNA_A2 = FIELD16 8 0xff00,
      EEPROM_EXT_LNA2_A1 = FIELD16 0 0x00ff,
      EEPROM_EXT_LNA2_A2 = FIELD16 8 0xff00,
      RF2820_CODE = 0x0001,
      LED_MODE_TXRX_ACTIVITY = 1\<rparr>"

definition blank_eeprom_dev :: rt2x00_dev where
  "blank_eeprom_dev = usb_rt2860\<lparr>eeprom := (\<lambda>_. 0xffff)\<rparr>"

definition ext_lna2_dev :: rt2x00_dev where
  "ext_lna2_dev =
     usb_rt2860\<lparr>chip_rt := RT3593, chip_rf := RF3053,
       eeprom := (\<lambda>_. 0)(0x26 := 0x3400, 0x27 := 0x0012)\<rparr>"

text \<open>
  An 8 KiB image: 8190 zero bytes followed by their checksum, low byte first (the
  byte-swapped order in which the driver compares it).
\<close>

definition fw_image_8k :: "u8 list" where
  "fw_image_8k =
     (let payload = replicate 8190 0;
          crc = crc_ccitt 0xffff payload 8190
      in payload @ [ucast crc, ucast (drop_bit 8 crc)])"

subsection \<open>Properties of firmware validation\<close>

lemma fw_crc_of_low_byte: "ucast (fw_crc_of hi lo) = lo"
  unfolding fw_crc_of_def by (rule bit_word_eqI) (auto simp add: bit_simps)

lemma fw_crc_of_swab16: "fw_crc_of (ucast c) (ucast (drop_bit 8 c)) = swab16 c"
  unfolding fw_crc_of_def swab16_def
  by (rule bit_word_eqI) (auto simp add: bit_simps dest: bit_imp_le_length)

lemma fw_crc_of_inject_low: "fw_crc_of hi lo = fw_crc_of hi lo' \<Longrightarrow> lo = lo'"
  by (metis fw_crc_of_low_byte)

lemma check_firmware_loop_not_bad_version:
  "check_firmware_loop dev data offset \<noteq> FW_BAD_VERSION"
proof (induction dev data offset rule: check_firmware_loop.induct)
  case (1 dev data offset)
  then show ?case
    by (subst check_firmware_loop.simps) simp
qed

lemma check_firmware_loop_single_chunk:
  "length data = fw_len_of dev \<Longrightarrow>
   check_firmware_loop dev data 0 =
     (if rt2800_check_firmware_crc data (fw_len_of dev) then FW_OK else FW_BAD_CRC)"
  using fw_len_of_pos [of dev]
  by (subst check_firmware_loop.simps, subst check_firmware_loop.simps) simp

text \<open>
  C2: on a device of the 8 KiB class (not on USB and not an RT3290), an image of exactly
  8192 bytes whose last two bytes are the byte-swapped CRC-CCITT of the 8190 bytes before
  them validates as \<open>FW_OK\<close>; cut to 8191 bytes it is \<open>FW_BAD_LENGTH\<close>; with its last byte
  incremented by one it is \<open>FW_BAD_CRC\<close>.
\<close>

theorem check_firmware_8k_scenario:
  assumes bus: "\<not> rt2x00_is_usb dev" "\<not> rt2x00_rt dev RT3290"
    and len: "length data = 8192"
    and crc: "fw_crc_of (data ! 8190) (data ! 8191) = swab16 (crc_ccitt 0xffff data 8190)"
  shows "rt2800_check_firmware dev data = FW_OK \<and>
         rt2800_check_firmware dev (take 8191 data) = FW_BAD_LENGTH \<and>
         rt2800_check_firmware dev (data[8191 := data ! 8191 + 1]) = FW_BAD_CRC"
proof -
  have fw: "fw_len_of dev = 8192"
    using bus by (simp add: fw_len_of_def)
  have ok: "rt2800_check_firmware_crc data 8192"
    using crc by (simp add: rt2800_check_firmware_crc_def)
  have "fw_crc_of (data ! 8190) (data ! 8191 + 1) \<noteq> fw_crc_of (data ! 8190) (data ! 8191)"
    using fw_crc_of_inject_low [of "data ! 8190" "data ! 8191 + 1" "data ! 8191"] by auto
  moreover have "crc_ccitt 0xffff (data[8191 := data ! 8191 + 1]) 8190 = crc_ccitt 0xffff data 8190"
    by (simp add: crc_ccitt_def)
  ultimately have bad: "\<not> rt2800_check_firmware_crc (data[8191 := data ! 8191 + 1]) 8192"
    using crc len by (simp add: rt2800_check_firmware_crc_def)
  have "rt2800_check_firmware dev data = FW_OK"
    using bus len fw ok
    by (simp add: rt2800_check_firmware_def check_firmware_loop_single_chunk)
  moreover have "rt2800_check_firmware dev (take 8191 data) = FW_BAD_LENGTH"
    using len fw by (simp add: rt2800_check_firmware_def)
  moreover have "rt2800_check_firmware dev (data[8191 := data ! 8191 + 1]) = FW_BAD_CRC"
    using bus len fw bad
    by (simp add: rt2800_check_firmware_def check_firmware_loop_single_chunk)
  ultimately show ?thesis by simp
qed

theorem check_firmware_8k_scenario_witness:
  "rt2800_check_firmware pci_rt2860 fw_image_8k = FW_OK \<and>
   rt2800_check_firmware pci_rt2860 (take 8191 fw_image_8k) = FW_BAD_LENGTH \<and>
   rt2800_check_firmware pci_rt2860 (fw_image_8k[8191 := fw_image_8k ! 8191 + 1]) = FW_BAD_CRC"
proof -
  have bus: "\<not> rt2x00_is_usb pci_rt2860" "\<not> rt2x00_rt pci_rt2860 RT3290"
    by (simp_all add: pci_rt2860_def rt2x00_is_usb_def rt2x00_rt_def)
  have len: "length fw_image_8k = 8192"
    by (simp add: fw_image_8k_def Let_def)
  have "crc_ccitt 0xffff fw_image_8k 8190 = crc_ccitt 0xffff (replicate 8190 0) 8190"
    by (simp add: fw_image_8k_def Let_def crc_ccitt_def)
  then have crc: "fw_crc_of (fw_image_8k ! 8190) (fw_image_8k ! 8191) =
      swab16 (crc_ccitt 0xffff fw_image_8k 8190)"
    by (simp add: fw_image_8k_def Let_def nth_append fw_crc_of_swab16)
  show ?thesis
    by (rule check_firmware_8k_scenario [OF bus len crc])
qed

text \<open>
  C6, as the code has it: the wrong-version result is returned exactly for a USB device
  other than RT2860, RT2872 and RT3070 that is given a single-image file (one 4 KiB
  unit). A multi-image file is never rejected as a wrong version, on any device.
\<close>

theorem check_firmware_bad_version_iff:
  "rt2800_check_firmware dev data = FW_BAD_VERSION \<longleftrightarrow>
     rt2x00_is_usb dev \<and> \<not> rt2x00_rt dev RT2860 \<and> \<not> rt2x00_rt dev RT2872 \<and>
     \<not> rt2x00_rt dev RT3070 \<and> length data = 4096"
proof (cases "rt2x00_is_usb dev")
  case True
  then have fw: "fw_len_of dev = 4096"
    by (simp add: fw_len_of_def)
  have one: "length data div 4096 = 1 \<and> length data mod 4096 = 0 \<longleftrightarrow> length data = 4096"
    by auto
  show ?thesis
    using True one
    by (auto simp add: rt2800_check_firmware_def Let_def fw check_firmware_loop_not_bad_version)
next
  case False
  then show ?thesis
    by (simp add: rt2800_check_firmware_def Let_def check_firmware_loop_not_bad_version)
qed

theorem check_firmware_bad_version_iff_witness:
  "rt2800_check_firmware usb_rt3071 (replicate 4096 0) = FW_BAD_VERSION"
  using check_firmware_bad_version_iff [of usb_rt3071 "replicate 4096 0"]
  by (simp add: usb_rt3071_def pci_rt2860_def rt2x00_is_usb_def rt2x00_rt_def)

text \<open>
  The claim as the specification words it fails: a two-image file (8192 bytes) is not
  rejected as a wrong version, neither on a USB RT2860 (which uses the first sub-image)
  nor on a USB RT3071 (which uses a later one).
\<close>

theorem check_firmware_multi_image_counterexample:
  "rt2800_check_firmware usb_rt2860 (replicate 8192 0) \<noteq> FW_BAD_VERSION \<and>
   rt2800_check_firmware usb_rt3071 (replicate 8192 0) \<noteq> FW_BAD_VERSION"
  by (simp add: rt2800_check_firmware_def fw_len_of_def usb_rt2860_def usb_rt3071_def
      pci_rt2860_def rt2x00_is_usb_def rt2x00_rt_def check_firmware_loop_not_bad_version)

text \<open>
  C10: a zero-length image is accepted on every bus kind and chip family. The length
  check passes because 0 is a multiple of the base unit, the wrong-version check does not
  fire because 0 sub-images is not 1, the loop over the chunks does not run, and the
  result is \<open>FW_OK\<close> although no checksum was verified.
\<close>

theorem check_firmware_empty_image_ok:
  "rt2800_check_firmware dev [] = FW_OK"
  by (simp add: rt2800_check_firmware_def check_firmware_loop.simps)

theorem check_firmware_empty_image_ok_witness:
  "rt2800_check_firmware usb_rt3071 [] = FW_OK \<and> rt2800_check_firmware pci_rt2860 [] = FW_OK"
  using check_firmware_empty_image_ok [of usb_rt3071] check_firmware_empty_image_ok [of pci_rt2860]
  by simp

subsection \<open>Properties of the radio lifecycle\<close>





subsection \<open>Properties of the channel configuration dispatch\<close>

text \<open>
  C1, as the code has it: \<^verbatim>\<open>rt2800_config_channel\<close> has no status to return. For every RF
  identity that is not a case of its switch, the unsupported ones included, it runs the
  rf2xxx procedure of the default branch (after the RT3883 adjustment, where that applies).
  An unsupported RF identity is an error at probe time: the check of
  \<^verbatim>\<open>rt2800_init_eeprom\<close> answers \<^verbatim>\<open>-ENODEV\<close> exactly for the identities it does not list.
\<close>

theorem config_channel_default_branch:
  "(chip_rf dev \<notin> rf_cases_of_config_channel \<longrightarrow>
      rt2800_config_channel dev =
        config_channel_rt_switch (chip_rt dev) @ [rt2800_config_channel_rf2xxx]) \<and>
   (init_eeprom_rf_switch rf = Inl ENODEV \<longleftrightarrow> rf = RF_UNKNOWN) \<and>
   RF_UNKNOWN \<notin> rf_cases_of_config_channel"
proof (intro conjI impI)
  assume "chip_rf dev \<notin> rf_cases_of_config_channel"
  then show "rt2800_config_channel dev =
      config_channel_rt_switch (chip_rt dev) @ [rt2800_config_channel_rf2xxx]"
    by (cases "chip_rf dev") (simp_all add: rt2800_config_channel_def rf_cases_of_config_channel_def)
next
  show "init_eeprom_rf_switch rf = Inl ENODEV \<longleftrightarrow> rf = RF_UNKNOWN"
    by (cases rf) simp_all
next
  show "RF_UNKNOWN \<notin> rf_cases_of_config_channel"
    by (simp add: rf_cases_of_config_channel_def)
qed

theorem config_channel_default_branch_witness:
  "rt2800_config_channel (usb_rt2860\<lparr>chip_rf := RF2850\<rparr>) = [rt2800_config_channel_rf2xxx]"
proof -
  have "chip_rf (usb_rt2860\<lparr>chip_rf := RF2850\<rparr>) \<notin> rf_cases_of_config_channel"
    by (simp add: rf_cases_of_config_channel_def)
  then show ?thesis
    using config_channel_default_branch [of "usb_rt2860\<lparr>chip_rf := RF2850\<rparr>"]
    by (simp add: usb_rt2860_def pci_rt2860_def)
qed

text \<open>
  The claim as the specification words it fails: for an RF identity that the probe rejects
  as unsupported, channel configuration reports nothing and runs the rf2xxx procedure.
\<close>

theorem config_channel_unknown_rf_counterexample:
  "init_eeprom_rf_switch (chip_rf unknown_rf_dev) = Inl ENODEV \<and>
   rt2800_config_channel unknown_rf_dev = [rt2800_config_channel_rf2xxx]"
  by (simp add: unknown_rf_dev_def usb_rt2860_def pci_rt2860_def rt2800_config_channel_def)

subsection \<open>Properties of the link tuner reset\<close>

lemma bbp_write_with_rx_chain_from_last:
  "chain < unat (rx_chain_num dev) \<Longrightarrow>
   \<exists>evs. bbp_write_with_rx_chain_from env h dev word v chain tr = tr @ evs @ [Bbp_write word v]"
proof (induction env h dev word v chain tr rule: bbp_write_with_rx_chain_from.induct)
  case (1 env h dev word v chain tr)
  obtain reg tr1 where r: "rt2800_bbp_read env 27 tr = (reg, tr1)"
    by (cases "rt2800_bbp_read env 27 tr")
  then have tr1: "tr1 = tr @ [Bbp_read 27 reg]"
    by (auto simp add: rt2800_bbp_read_def Let_def)
  define reg' where "reg' = rt2x00_set_field8 reg (BBP27_RX_CHAIN_SEL h) (of_nat chain)"
  define tr3 where "tr3 = rt2800_bbp_write word v (rt2800_bbp_write 27 reg' tr1)"
  have tr3: "tr3 = tr @ [Bbp_read 27 reg, Bbp_write 27 reg'] @ [Bbp_write word v]"
    by (simp add: tr3_def tr1 rt2800_bbp_write_def)
  have unfold: "bbp_write_with_rx_chain_from env h dev word v chain tr =
      bbp_write_with_rx_chain_from env h dev word v (chain + 1) tr3"
    using "1.prems" r
    by (subst bbp_write_with_rx_chain_from.simps) (simp add: tr3_def reg'_def)
  show ?case
  proof (cases "chain + 1 < unat (rx_chain_num dev)")
    case True
    from "1.IH" [OF "1.prems" refl r [symmetric] refl refl refl True]
    obtain evs where "bbp_write_with_rx_chain_from env h dev word v (chain + 1) tr3 =
        tr3 @ evs @ [Bbp_write word v]"
      by (auto simp add: reg'_def tr3_def)
    then show ?thesis
      by (simp add: unfold tr3)
  next
    case False
    then have "bbp_write_with_rx_chain_from env h dev word v (chain + 1) tr3 = tr3"
      by (subst bbp_write_with_rx_chain_from.simps) simp
    then show ?thesis
      by (simp only: unfold tr3) blast
  qed
qed


lemma chip_rt_pci_rt2860: "chip_rt pci_rt2860 = RT2860"
  by (simp add: pci_rt2860_def)

lemma default_vgc_pci_rt2860: "rt2800_get_default_vgc pci_rt2860 = 0x2e"
  by (simp add: rt2800_get_default_vgc_def pci_rt2860_def rt2x00_rt_def)

text \<open>
  C9, as the code has it: \<^verbatim>\<open>rt2800_reset_tuner\<close> computes the baseline gain level of the
  chip family and band and hands it to \<^verbatim>\<open>rt2800_set_vgc\<close>, which compares it with the level
  recorded in \<^verbatim>\<open>qual->vgc_level\<close>. When they are equal nothing is written and nothing
  changes; when they differ the level is recorded and, on a device with at least one
  receive chain where the chip writes per chain, the last device access is the write of the
  level to baseband register 66.
\<close>

theorem reset_tuner_write_suppression:
  assumes "rt2800_reset_tuner env h dev qual tr = (qual', tr')"
  shows "(vgc_level qual = rt2800_get_default_vgc dev \<longrightarrow> qual' = qual \<and> tr' = tr) \<and>
         (vgc_level qual \<noteq> rt2800_get_default_vgc dev \<longrightarrow>
            vgc_level qual' = rt2800_get_default_vgc dev \<and>
            vgc_level_reg qual' = rt2800_get_default_vgc dev \<and>
            rssi qual' = rssi qual \<and>
            ((chip_rt dev \<in> {RT3572, RT3593, RT3883, RT5592} \<longrightarrow> rx_chain_num dev \<noteq> 0) \<longrightarrow>
               (\<exists>evs. tr' = tr @ evs @ [Bbp_write 66 (rt2800_get_default_vgc dev)])))"
proof (intro conjI impI)
  assume "vgc_level qual = rt2800_get_default_vgc dev"
  with assms show "qual' = qual" and "tr' = tr"
    by (simp_all add: rt2800_reset_tuner_def rt2800_set_vgc_def)
next
  assume ne: "vgc_level qual \<noteq> rt2800_get_default_vgc dev"
  with assms show "vgc_level qual' = rt2800_get_default_vgc dev"
    and "vgc_level_reg qual' = rt2800_get_default_vgc dev"
    and "rssi qual' = rssi qual"
    by (auto simp add: rt2800_reset_tuner_def rt2800_set_vgc_def Let_def)
  assume chains: "chip_rt dev \<in> {RT3572, RT3593, RT3883, RT5592} \<longrightarrow> rx_chain_num dev \<noteq> 0"
  define level where "level = rt2800_get_default_vgc dev"
  show "\<exists>evs. tr' = tr @ evs @ [Bbp_write 66 (rt2800_get_default_vgc dev)]"
  proof (cases "chip_rt dev \<in> {RT3572, RT3593, RT3883, RT5592}")
    case False
    then have "tr' = tr @ [] @ [Bbp_write 66 level]"
      using assms ne
      by (auto simp add: rt2800_reset_tuner_def rt2800_set_vgc_def Let_def rt2x00_rt_def
          rt2800_bbp_write_def level_def)
    then show ?thesis
      unfolding level_def by blast
  next
    case True
    with chains have "rx_chain_num dev \<noteq> 0"
      by blast
    then have pos: "0 < unat (rx_chain_num dev)"
      by (simp add: unat_gt_0)
    show ?thesis
    proof (cases "chip_rt dev = RT5592")
      case False
      with True have "tr' = rt2800_bbp_write_with_rx_chain env h dev 66 level tr"
        using assms ne
        by (auto simp add: rt2800_reset_tuner_def rt2800_set_vgc_def Let_def rt2x00_rt_def
            level_def)
      then show ?thesis
        using bbp_write_with_rx_chain_from_last [OF pos, of env h 66 level tr]
        by (simp add: rt2800_bbp_write_with_rx_chain_def level_def)
    next
      case rt: True
      define tr1 where "tr1 = rt2800_bbp_write 83 (if rssi qual > -65 then 0x4a else 0x7a) tr"
      have "tr' = rt2800_bbp_write_with_rx_chain env h dev 66 level tr1"
        using assms ne rt
        by (auto simp add: rt2800_reset_tuner_def rt2800_set_vgc_def Let_def rt2x00_rt_def
            level_def tr1_def)
      moreover obtain evs where "bbp_write_with_rx_chain_from env h dev 66 level 0 tr1 =
          tr1 @ evs @ [Bbp_write 66 level]"
        using bbp_write_with_rx_chain_from_last [OF pos, of env h 66 level tr1] by blast
      moreover have "\<exists>e. tr1 = tr @ [e]"
        by (simp add: tr1_def rt2800_bbp_write_def)
      ultimately show ?thesis
        by (auto simp add: rt2800_bbp_write_with_rx_chain_def level_def)
    qed
  qed
qed

theorem reset_tuner_write_suppression_witness:
  "rt2800_reset_tuner hw_quiet rt2800_h_values pci_rt2860
       \<lparr>rssi = - 70, vgc_level = 0, vgc_level_reg = 0\<rparr> [] =
     (\<lparr>rssi = - 70, vgc_level = 0x2e, vgc_level_reg = 0x2e\<rparr>, [Bbp_write 66 0x2e])"
proof -
  obtain qual' tr' where r: "rt2800_reset_tuner hw_quiet rt2800_h_values pci_rt2860
       \<lparr>rssi = - 70, vgc_level = 0, vgc_level_reg = 0\<rparr> [] = (qual', tr')"
    by (cases "rt2800_reset_tuner hw_quiet rt2800_h_values pci_rt2860
       \<lparr>rssi = - 70, vgc_level = 0, vgc_level_reg = 0\<rparr> []")
  have "chip_rt pci_rt2860 \<notin> {RT3572, RT3593, RT3883, RT5592}"
    by (simp add: pci_rt2860_def)
  with reset_tuner_write_suppression [OF r]
  have "vgc_level qual' = 0x2e" "vgc_level_reg qual' = 0x2e" "rssi qual' = - 70"
    by (simp_all add: default_vgc_pci_rt2860)
  then have "qual' = \<lparr>rssi = - 70, vgc_level = 0x2e, vgc_level_reg = 0x2e\<rparr>"
    by (cases qual') simp
  moreover have "tr' = [Bbp_write 66 0x2e]"
    using r by (simp add: rt2800_reset_tuner_def rt2800_set_vgc_def default_vgc_pci_rt2860
        rt2x00_rt_def chip_rt_pci_rt2860 rt2800_bbp_write_def)
  ultimately show ?thesis
    using r by simp
qed

text \<open>
  The claim as the specification words it fails: when the recorded level already equals
  the baseline, the reset performs no write.
\<close>

theorem reset_tuner_unconditional_counterexample:
  "rt2800_reset_tuner hw_quiet rt2800_h_values pci_rt2860
       \<lparr>rssi = - 70, vgc_level = 0x2e, vgc_level_reg = 0x2e\<rparr> [] =
     (\<lparr>rssi = - 70, vgc_level = 0x2e, vgc_level_reg = 0x2e\<rparr>, [])"
  by (simp add: rt2800_reset_tuner_def rt2800_set_vgc_def default_vgc_pci_rt2860)

subsection \<open>Properties of the simple filter sweep\<close>

lemma bbp55_readings_append:
  "bbp55_readings (xs @ ys) = bbp55_readings xs @ bbp55_readings ys"
  by (induction xs rule: bbp55_readings.induct) simp_all

lemma stopband_loop_trace:
  "init_rx_filter_stopband_loop env t pb i r ov tr = (r', ov', tr') \<Longrightarrow>
   \<exists>evs. tr' = tr @ evs \<and>
     length (bbp55_readings evs) \<le> 100 - i \<and>
     (\<forall>s \<in> set (butlast (bbp55_readings evs)). within_target t pb s) \<and>
     (length (bbp55_readings evs) < 100 - i \<longrightarrow>
        bbp55_readings evs \<noteq> [] \<and> \<not> within_target t pb (last (bbp55_readings evs))) \<and>
     r' = r + of_nat (length (filter (within_target t pb) (bbp55_readings evs))) \<and>
     ov' = ov + of_nat (length (filter (on_target t pb) (bbp55_readings evs)))"
proof (induction env t pb i r ov tr arbitrary: r' ov' tr' rule: init_rx_filter_stopband_loop.induct)
  case (1 env t pb i r ov tr)
  show ?case
  proof (cases "i < 100")
    case False
    with "1.prems" have "tr' = tr @ []" "r' = r" "ov' = ov"
      by (simp_all add: init_rx_filter_stopband_loop.simps)
    with False show ?thesis
      by (intro exI [of _ "[]"]) simp
  next
    case True
    define tr1 where "tr1 = rt2800_bbp_write 25 0x90 tr"
    obtain s tr2 where rd: "rt2800_bbp_read env 55 tr1 = (s, tr2)"
      by (cases "rt2800_bbp_read env 55 tr1")
    then have tr2: "tr2 = tr @ [Bbp_write 25 0x90, Bbp_read 55 s]"
      by (auto simp add: rt2800_bbp_read_def tr1_def rt2800_bbp_write_def Let_def)
    show ?thesis
    proof (cases "filter_gap pb s \<le> uint t")
      case False
      with "1.prems" True rd have "tr' = tr2" "r' = r" "ov' = ov"
        by (simp_all add: init_rx_filter_stopband_loop.simps [of env t pb i] tr1_def)
      with False True show ?thesis
        by (intro exI [of _ "[Bbp_write 25 0x90, Bbp_read 55 s]"])
          (simp add: tr2 within_target_def on_target_def)
    next
      case within: True
      define r1 where "r1 = r + 1"
      define ov1 where "ov1 = ov + (if filter_gap pb s = uint t then 1 else 0)"
      define tr3 where "tr3 = rt2800_rfcsr_write 24 r1 tr2"
      have tr3: "tr3 = tr @ [Bbp_write 25 0x90, Bbp_read 55 s, Rfcsr_write 24 r1]"
        by (simp add: tr3_def tr2 rt2800_rfcsr_write_def)
      have step: "init_rx_filter_stopband_loop env t pb (i + 1) r1 ov1 tr3 = (r', ov', tr')"
        using "1.prems" True rd within
        by (simp add: init_rx_filter_stopband_loop.simps [of env t pb i] tr1_def r1_def
            ov1_def tr3_def Let_def)
      from "1.IH" [OF True tr1_def refl rd [symmetric] within r1_def ov1_def tr3_def step]
      obtain evs where evs: "tr' = tr3 @ evs"
        "length (bbp55_readings evs) \<le> 100 - (i + 1)"
        "\<forall>s \<in> set (butlast (bbp55_readings evs)). within_target t pb s"
        "length (bbp55_readings evs) < 100 - (i + 1) \<longrightarrow>
           bbp55_readings evs \<noteq> [] \<and> \<not> within_target t pb (last (bbp55_readings evs))"
        "r' = r1 + of_nat (length (filter (within_target t pb) (bbp55_readings evs)))"
        "ov' = ov1 + of_nat (length (filter (on_target t pb) (bbp55_readings evs)))"
        by blast
      let ?evs = "[Bbp_write 25 0x90, Bbp_read 55 s, Rfcsr_write 24 r1] @ evs"
      have rds: "bbp55_readings ?evs = s # bbp55_readings evs"
        by simp
      have ws: "within_target t pb s"
        using within by (simp add: within_target_def)
      have "tr' = tr @ ?evs"
        using evs(1) tr3 by simp
      moreover have "length (bbp55_readings ?evs) \<le> 100 - i"
        using evs(2) True by (simp only: rds) simp
      moreover have "\<forall>s \<in> set (butlast (bbp55_readings ?evs)). within_target t pb s"
        using evs(3) ws by (simp only: rds) (auto split: if_splits)
      moreover have "length (bbp55_readings ?evs) < 100 - i \<longrightarrow>
           bbp55_readings ?evs \<noteq> [] \<and> \<not> within_target t pb (last (bbp55_readings ?evs))"
        using evs(4) True by (simp only: rds) auto
      moreover have "r' = r + of_nat (length (filter (within_target t pb) (bbp55_readings ?evs)))"
        using evs(5) ws by (simp only: rds) (simp add: r1_def)
      moreover have "ov' = ov + of_nat (length (filter (on_target t pb) (bbp55_readings ?evs)))"
        using evs(6) by (simp only: rds) (simp add: ov1_def on_target_def)
      ultimately show ?thesis
        by blast
    qed
  qed
qed


lemma of_nat_u8_eq_0_iff: "n \<le> 100 \<Longrightarrow> (of_nat n :: u8) = 0 \<longleftrightarrow> n = 0"
  by (simp add: word_of_nat_eq_0_iff dvd_def) presburger

lemma stopband_loop_flat:
  assumes flat: "\<And>tr. bbp_answer env tr 55 = s"
    and below: "filter_gap pb s < uint t"
  shows "\<exists>tr'. init_rx_filter_stopband_loop env t pb i r ov tr = (r + of_nat (100 - i), ov, tr')"
proof (induction "100 - i" arbitrary: i r tr)
  case 0
  then show ?case
    by (simp add: init_rx_filter_stopband_loop.simps [of env t pb i])
next
  case (Suc n)
  then have i: "i < 100" and n: "n = 100 - (i + 1)"
    by simp_all
  have "100 - i = Suc (100 - (i + 1))"
    using i by simp
  then have sum: "r + 1 + of_nat (100 - (i + 1)) = r + (of_nat (100 - i) :: u8)"
    by (simp only: of_nat_Suc) simp
  define tr3 where "tr3 = rt2800_rfcsr_write 24 (r + 1)
      (rt2800_bbp_write 25 0x90 tr @ [Bbp_read 55 s])"
  from Suc.hyps(1) [OF n, of "r + 1" tr3] obtain tr' where
    "init_rx_filter_stopband_loop env t pb (i + 1) (r + 1) ov tr3 =
       (r + 1 + of_nat (100 - (i + 1)), ov, tr')"
    by blast
  then have "init_rx_filter_stopband_loop env t pb i r ov tr = (r + of_nat (100 - i), ov, tr')"
    using i below unfolding sum tr3_def
    by (subst init_rx_filter_stopband_loop.simps)
      (simp add: rt2800_bbp_read_def flat Let_def)
  then show ?case
    by blast
qed

text \<open>
  C8, as the code has it. The sweep first captures the passband response and then, at each
  of at most 100 steps, reads the stopband response: every step but the last one read had
  a gap (passband minus stopband) at or below the target and incremented the tuning value;
  when fewer than 100 steps were made, the last one had a gap above the target and ended
  the sweep. The value written last and returned is the start value plus the number of
  steps within the target, stepped back by one exactly when some step's gap equalled the
  target; after 100 steps it is returned without any failure.
\<close>

theorem init_rx_filter_sweep:
  assumes pass: "init_rx_filter_passband env h bw40 tr = (start, passband, tr1)"
    and run: "rt2800_init_rx_filter env h bw40 filter_target tr = (val, tr')"
  shows "start = (if bw40 then 0x27 else 0x07) \<and>
    (\<exists>evs. tr' = tr1 @ [Bbp_write 24 0x06] @ evs @ [Rfcsr_write 24 val] \<and>
       (let stops = bbp55_readings evs in
        length stops \<le> 100 \<and>
        (\<forall>s \<in> set (butlast stops). filter_gap passband s \<le> uint filter_target) \<and>
        (length stops < 100 \<longrightarrow>
           stops \<noteq> [] \<and> uint filter_target < filter_gap passband (last stops)) \<and>
        val = start
          + of_nat (length (filter (\<lambda>s. filter_gap passband s \<le> uint filter_target) stops))
          - (if \<exists>s \<in> set stops. filter_gap passband s = uint filter_target then 1 else 0)))"
proof
  show "start = (if bw40 then 0x27 else 0x07)"
    using pass by (auto simp add: init_rx_filter_passband_def Let_def split: prod.splits)
next
  define tr2 where "tr2 = rt2800_bbp_write 24 0x06 tr1"
  obtain r ov tr3 where loop:
    "init_rx_filter_stopband_loop env filter_target passband 0 start 0 tr2 = (r, ov, tr3)"
    by (cases "init_rx_filter_stopband_loop env filter_target passband 0 start 0 tr2")
  from run pass loop have val: "val = r - (if ov \<noteq> 0 then 1 else 0)"
    and tr': "tr' = tr3 @ [Rfcsr_write 24 val]"
    by (auto simp add: rt2800_init_rx_filter_def tr2_def rt2800_rfcsr_write_def Let_def)
  from stopband_loop_trace [OF loop]
  obtain evs where evs: "tr3 = tr2 @ evs"
    "length (bbp55_readings evs) \<le> 100"
    "\<forall>s \<in> set (butlast (bbp55_readings evs)). within_target filter_target passband s"
    "length (bbp55_readings evs) < 100 \<longrightarrow>
       bbp55_readings evs \<noteq> [] \<and> \<not> within_target filter_target passband (last (bbp55_readings evs))"
    "r = start + of_nat (length (filter (within_target filter_target passband) (bbp55_readings evs)))"
    "ov = 0 + of_nat (length (filter (on_target filter_target passband) (bbp55_readings evs)))"
    by auto
  have "length (filter (on_target filter_target passband) (bbp55_readings evs)) \<le> 100"
    using evs(2) length_filter_le [of "on_target filter_target passband" "bbp55_readings evs"]
    by linarith
  then have ov: "ov \<noteq> 0 \<longleftrightarrow> (\<exists>s \<in> set (bbp55_readings evs). on_target filter_target passband s)"
    using evs(6) by (simp add: of_nat_u8_eq_0_iff filter_empty_conv)
  have w: "within_target filter_target passband = (\<lambda>s. filter_gap passband s \<le> uint filter_target)"
    and o: "on_target filter_target passband = (\<lambda>s. filter_gap passband s = uint filter_target)"
    by (simp_all add: within_target_def on_target_def fun_eq_iff)
  have "tr' = tr1 @ [Bbp_write 24 0x06] @ evs @ [Rfcsr_write 24 val]"
    using tr' evs(1) by (simp add: tr2_def rt2800_bbp_write_def)
  moreover have "val = start
      + of_nat (length (filter (\<lambda>s. filter_gap passband s \<le> uint filter_target) (bbp55_readings evs)))
      - (if \<exists>s \<in> set (bbp55_readings evs). filter_gap passband s = uint filter_target then 1 else 0)"
    using val ov evs(5) unfolding w o by simp
  ultimately show "\<exists>evs. tr' = tr1 @ [Bbp_write 24 0x06] @ evs @ [Rfcsr_write 24 val] \<and>
       (let stops = bbp55_readings evs in
        length stops \<le> 100 \<and>
        (\<forall>s \<in> set (butlast stops). filter_gap passband s \<le> uint filter_target) \<and>
        (length stops < 100 \<longrightarrow>
           stops \<noteq> [] \<and> uint filter_target < filter_gap passband (last stops)) \<and>
        val = start
          + of_nat (length (filter (\<lambda>s. filter_gap passband s \<le> uint filter_target) stops))
          - (if \<exists>s \<in> set stops. filter_gap passband s = uint filter_target then 1 else 0))"
    using evs(2,3,4) unfolding w Let_def
    by (intro exI [of _ evs]) (simp add: not_le)
qed


theorem init_rx_filter_sweep_witness:
  "(\<exists>evs. [Rfcsr_write 24 0x07, Bbp_read 4 0, Bbp_write 4 0, Rfcsr_read 31 0, Rfcsr_write 31 0,
           Rfcsr_read 22 0, Rfcsr_write 22 1, Bbp_write 24 0, Bbp_write 25 0x90, Bbp_read 55 0x40,
           Bbp_write 24 0x06, Bbp_write 25 0x90, Bbp_read 55 0, Rfcsr_write 24 0x07] =
          [Rfcsr_write 24 0x07, Bbp_read 4 0, Bbp_write 4 0, Rfcsr_read 31 0, Rfcsr_write 31 0,
           Rfcsr_read 22 0, Rfcsr_write 22 1, Bbp_write 24 0, Bbp_write 25 0x90, Bbp_read 55 0x40]
          @ [Bbp_write 24 0x06] @ evs @ [Rfcsr_write 24 0x07] \<and>
       (let stops = bbp55_readings evs in
        length stops \<le> 100 \<and>
        (\<forall>s \<in> set (butlast stops). filter_gap 0x40 s \<le> uint (0x15 :: u8)) \<and>
        (length stops < 100 \<longrightarrow>
           stops \<noteq> [] \<and> uint (0x15 :: u8) < filter_gap 0x40 (last stops)) \<and>
        (0x07 :: u8) = 0x07
          + of_nat (length (filter (\<lambda>s. filter_gap 0x40 s \<le> uint (0x15 :: u8)) stops))
          - (if \<exists>s \<in> set stops. filter_gap 0x40 s = uint (0x15 :: u8) then 1 else 0)))"
proof -
  have pass: "init_rx_filter_passband hw_two_tone rt2800_h_values False [] =
      (0x07, 0x40,
       [Rfcsr_write 24 0x07, Bbp_read 4 0, Bbp_write 4 0, Rfcsr_read 31 0, Rfcsr_write 31 0,
        Rfcsr_read 22 0, Rfcsr_write 22 1, Bbp_write 24 0, Bbp_write 25 0x90, Bbp_read 55 0x40])"
    by (simp add: init_rx_filter_passband_def init_rx_filter_passband_loop.simps [of _ 0]
        hw_two_tone_answers rt2800_h_values_fields io_defs
        rt2x00_set_field8_def set_field_def)
  have run: "rt2800_init_rx_filter hw_two_tone rt2800_h_values False 0x15 [] =
      (0x07,
       [Rfcsr_write 24 0x07, Bbp_read 4 0, Bbp_write 4 0, Rfcsr_read 31 0, Rfcsr_write 31 0,
        Rfcsr_read 22 0, Rfcsr_write 22 1, Bbp_write 24 0, Bbp_write 25 0x90, Bbp_read 55 0x40,
        Bbp_write 24 0x06, Bbp_write 25 0x90, Bbp_read 55 0, Rfcsr_write 24 0x07])"
    by (simp add: rt2800_init_rx_filter_def pass init_rx_filter_stopband_loop.simps [of _ _ _ 0]
        hw_two_tone_answers filter_gap_def io_defs)
  from init_rx_filter_sweep [OF pass run] show ?thesis
    by simp
qed

text \<open>
  The claim as the specification words it fails: on a device whose passband and stopband
  responses are both 0x10 the gap is 0, below the target 0x15, from the first step on, and
  the sweep does not stop incrementing there: it increments at every one of the 100 steps,
  from 0x07 to 0x6b.
\<close>

theorem init_rx_filter_keeps_incrementing_counterexample:
  "fst (rt2800_init_rx_filter hw_flat rt2800_h_values False 0x15 []) = 0x6b"
proof -
  have pass: "\<exists>tr1. init_rx_filter_passband hw_flat rt2800_h_values False [] = (0x07, 0x10, tr1)"
    by (simp add: init_rx_filter_passband_def init_rx_filter_passband_loop.simps [of _ 0]
        hw_flat_answers io_defs)
  then obtain tr1 where tr1: "init_rx_filter_passband hw_flat rt2800_h_values False [] = (0x07, 0x10, tr1)" ..
  have nz: "\<And>tr. bbp_answer hw_flat tr 55 = 0x10"
    by (simp add: hw_flat_answers)
  have below: "filter_gap 0x10 0x10 < uint (0x15 :: u8)"
    by (simp add: filter_gap_def)
  obtain tr3 where loop: "init_rx_filter_stopband_loop hw_flat 0x15 0x10 0 0x07 0
      (rt2800_bbp_write 24 0x06 tr1) = (0x07 + of_nat (100 - 0), 0, tr3)"
    using stopband_loop_flat [OF nz below, of 0 "0x07" 0 "rt2800_bbp_write 24 0x06 tr1"]
    by blast
  show ?thesis
    by (simp add: rt2800_init_rx_filter_def tr1 loop Let_def)
qed

subsection \<open>Fields of a word\<close>

lemma and_zero_bits: "(m :: 'a::len word) AND m' = 0 \<Longrightarrow> bit m n \<Longrightarrow> \<not> bit m' n"
  by (metis bit_and_iff bit_0_eq bot_apply bot_bool_def)

lemma get_set_field_other:
  "(m :: 'a::len word) AND m' = 0 \<Longrightarrow>
   get_field (set_field w off m v) off' m' = get_field w off' m'"
  unfolding get_field_def set_field_def
  by (rule bit_word_eqI) (auto simp add: bit_simps dest: and_zero_bits bit_imp_le_length)

lemma get_set_field_zero: "get_field (set_field w off m 0) off m = 0"
  unfolding get_field_def set_field_def
  by (rule bit_word_eqI) (auto simp add: bit_simps dest: bit_imp_le_length)

lemma set_set_field_same: "set_field (set_field w off m v) off m v = set_field w off m v"
  unfolding set_field_def
  by (rule bit_word_eqI) (auto simp add: bit_simps dest: bit_imp_le_length)

lemma get_set_field_le: "get_field (set_field w off m v) off m \<le> v"
proof -
  have "get_field (set_field w off m v) off m = v AND drop_bit off m"
    unfolding get_field_def set_field_def
    by (rule bit_word_eqI) (auto simp add: bit_simps dest: bit_imp_le_length)
  then show ?thesis
    by (simp add: word_and_le2)
qed

lemma set_field_and_other:
  "(m :: 'a::len word) AND k = 0 \<Longrightarrow> set_field w off m v AND k = w AND k"
  unfolding set_field_def
  by (rule bit_word_eqI) (auto simp add: bit_simps dest: and_zero_bits bit_imp_le_length)


lemma get_field_le_mask: "get_field (w :: 'a::len word) off m \<le> drop_bit off m"
proof -
  have "get_field w off m = drop_bit off w AND drop_bit off m"
    unfolding get_field_def
    by (rule bit_word_eqI) (auto simp add: bit_simps)
  then show ?thesis
    by (simp add: word_and_le1)
qed

lemma set_field_and_mask_zero: "set_field w off m 0 AND m = 0"
  unfolding set_field_def
  by (rule bit_word_eqI) (auto simp add: bit_simps)

lemma set_field_zero_id: "(w :: 'a::len word) AND m = 0 \<Longrightarrow> set_field w off m 0 = w"
  unfolding set_field_def
  by (rule bit_word_eqI) (auto simp add: bit_simps dest: and_zero_bits)

lemma and_mask_via_byte:
  "(m :: 'a::len word) AND NOT k = 0 \<Longrightarrow> w AND k = w' AND k \<Longrightarrow> w AND m = w' AND m"
proof -
  assume m: "m AND NOT k = 0" and eq: "w AND k = w' AND k"
  have "m = m AND k"
    using m by (rule_tac bit_word_eqI) (auto simp add: bit_simps dest: and_zero_bits)
  then have "w AND m = (w AND k) AND m" "w' AND m = (w' AND k) AND m"
    by (metis and.assoc and.commute)+
  with eq show ?thesis
    by simp
qed

lemma u16_all_ones: "(0xffff :: u16) = - 1"
  by simp

lemma get_field_all_ones: "get_field (0xffff :: u16) off m = drop_bit off m"
proof -
  have "(0xffff :: u16) AND m = m"
    by (simp only: u16_all_ones) simp
  then show ?thesis
    by (simp only: get_field_def)
qed

subsection \<open>Properties of EEPROM validation\<close>

lemma nic_conf0_word_idem:
  assumes tx: "bit_mask16 (EEPROM_NIC_CONF0_RXPATH h) AND bit_mask16 (EEPROM_NIC_CONF0_TXPATH h) = 0"
    and rf: "bit_mask16 (EEPROM_NIC_CONF0_RXPATH h) AND bit_mask16 (EEPROM_NIC_CONF0_RF_TYPE h) = 0"
  shows "nic_conf0_word h rt28 (nic_conf0_word h rt28 word) = nic_conf0_word h rt28 word"
proof -
  let ?rx = "EEPROM_NIC_CONF0_RXPATH h"
  let ?tx = "EEPROM_NIC_CONF0_TXPATH h"
  let ?rf = "EEPROM_NIC_CONF0_RF_TYPE h"
  have tx': "bit_mask16 ?tx AND bit_mask16 ?rx = 0" and rf': "bit_mask16 ?rf AND bit_mask16 ?rx = 0"
    using tx rf by (simp_all add: and.commute)
  define w1 where "w1 = rt2x00_set_field16
      (rt2x00_set_field16 (rt2x00_set_field16 0xffff ?rx 2) ?tx 1) ?rf (RF2820_CODE h)"
  have "rt2x00_get_field16 w1 ?rx = rt2x00_get_field16 (rt2x00_set_field16 0xffff ?rx 2) ?rx"
    unfolding w1_def rt2x00_get_field16_def rt2x00_set_field16_def
    by (simp add: get_set_field_other [OF rf'] get_set_field_other [OF tx'])
  then have w1_rx: "\<not> rt2x00_get_field16 w1 ?rx > 2"
    unfolding rt2x00_get_field16_def rt2x00_set_field16_def
    using get_set_field_le [of "0xffff" "bit_offset16 ?rx" "bit_mask16 ?rx" 2]
    by (simp add: not_less)
  show ?thesis
  proof (cases "word = 0xffff")
    case True
    then have "nic_conf0_word h rt28 word = w1"
      by (simp add: nic_conf0_word_def w1_def)
    moreover have "nic_conf0_word h rt28 w1 = w1"
      using w1_rx by (auto simp add: nic_conf0_word_def w1_def)
    ultimately show ?thesis
      by simp
  next
    case False
    show ?thesis
    proof (cases "rt28 \<and> rt2x00_get_field16 word ?rx > 2")
      case no: False
      with False have "nic_conf0_word h rt28 word = word"
        by (auto simp add: nic_conf0_word_def)
      then show ?thesis
        by simp
    next
      case True
      define w2 where "w2 = rt2x00_set_field16 word ?rx 2"
      have w2: "nic_conf0_word h rt28 word = w2"
        using False True by (simp add: nic_conf0_word_def w2_def)
      have le: "rt2x00_get_field16 w2 ?rx \<le> 2"
        unfolding w2_def rt2x00_get_field16_def rt2x00_set_field16_def
        by (rule get_set_field_le)
      have "w2 \<noteq> 0xffff"
      proof
        assume all: "w2 = 0xffff"
        have "rt2x00_get_field16 w2 ?rx = drop_bit (bit_offset16 ?rx) (bit_mask16 ?rx)"
          by (simp add: all rt2x00_get_field16_def get_field_all_ones)
        with le have "drop_bit (bit_offset16 ?rx) (bit_mask16 ?rx) \<le> 2"
          by simp
        moreover have "rt2x00_get_field16 word ?rx \<le> drop_bit (bit_offset16 ?rx) (bit_mask16 ?rx)"
          unfolding rt2x00_get_field16_def by (rule get_field_le_mask)
        ultimately have "rt2x00_get_field16 word ?rx \<le> 2"
          by (metis order_trans)
        with True show False
          by (simp add: leD)
      qed
      then have "nic_conf0_word h rt28 w2 = w2"
        using le by (auto simp add: nic_conf0_word_def)
      with w2 show ?thesis
        by simp
    qed
  qed
qed

lemma nic_conf1_word_idem: "nic_conf1_word h (nic_conf1_word h word) = nic_conf1_word h word"
  by (simp add: nic_conf1_word_def)


lemma not_low_byte: "NOT (0x00ff :: u16) = 0xff00"
  by simp

lemma freq_led_word_low: 
  assumes "bit_mask16 (EEPROM_FREQ_LED_MODE h) AND 0x00ff = 0"
    and "bit_mask16 (EEPROM_FREQ_LED_POLARITY h) AND 0x00ff = 0"
  shows "freq_led_word h x AND 0x00ff = x AND 0x00ff"
  using assms
  by (simp add: freq_led_word_def rt2x00_set_field16_def set_field_and_other)

lemma freq_led_word_idem: "freq_led_word h (freq_led_word h x) = freq_led_word h x"
proof -
  have "set_field (set_field (set_field (set_field x o1 m1 v) o2 m2 0) o1 m1 v) o2 m2 0 =
      set_field (set_field x o1 m1 v) o2 m2 0" for o1 o2 and m1 m2 v :: u16
    unfolding set_field_def
    by (rule bit_word_eqI) (auto simp add: bit_simps dest: bit_imp_le_length)
  then show ?thesis
    by (simp add: freq_led_word_def rt2x00_set_field16_def)
qed

lemma freq_offset_word_after_led:
  assumes off: "bit_mask16 (EEPROM_FREQ_OFFSET h) AND 0xff00 = 0"
    and led: "bit_mask16 (EEPROM_FREQ_LED_MODE h) AND 0x00ff = 0"
      "bit_mask16 (EEPROM_FREQ_LED_POLARITY h) AND 0x00ff = 0"
  shows "freq_offset_word h (freq_word h w) = freq_word h w"
proof -
  let ?f = "EEPROM_FREQ_OFFSET h"
  define a where "a = freq_offset_word h w"
  define b where "b = freq_led_word h a"
  have low: "b AND 0x00ff = a AND 0x00ff"
    unfolding b_def by (rule freq_led_word_low [OF led])
  have off': "bit_mask16 ?f AND NOT 0x00ff = 0"
    using off by (simp only: not_low_byte)
  show ?thesis
  proof (cases "w AND 0x00ff = 0x00ff")
    case True
    then have "a = set_field w (bit_offset16 ?f) (bit_mask16 ?f) 0"
      by (simp add: a_def freq_offset_word_def rt2x00_set_field16_def)
    then have "a AND bit_mask16 ?f = 0"
      by (simp add: set_field_and_mask_zero)
    moreover have "b AND bit_mask16 ?f = a AND bit_mask16 ?f"
      using and_mask_via_byte [OF off' low] .
    ultimately have "set_field b (bit_offset16 ?f) (bit_mask16 ?f) 0 = b"
      by (simp add: set_field_zero_id)
    then have "freq_offset_word h b = b"
      by (simp add: freq_offset_word_def rt2x00_set_field16_def)
    then show ?thesis
      by (simp add: freq_word_def a_def b_def)
  next
    case False
    then have "a = w"
      by (simp add: a_def freq_offset_word_def)
    with low False have "b AND 0x00ff \<noteq> 0x00ff"
      by simp
    then have "freq_offset_word h b = b"
      by (simp add: freq_offset_word_def)
    then show ?thesis
      by (simp add: freq_word_def a_def b_def)
  qed
qed

lemma freq_word_idem:
  assumes "bit_mask16 (EEPROM_FREQ_OFFSET h) AND 0xff00 = 0"
    and "bit_mask16 (EEPROM_FREQ_LED_MODE h) AND 0x00ff = 0"
    and "bit_mask16 (EEPROM_FREQ_LED_POLARITY h) AND 0x00ff = 0"
  shows "freq_word h (freq_word h w) = freq_word h w"
proof -
  have "freq_word h (freq_word h w) = freq_led_word h (freq_offset_word h (freq_word h w))"
    by (simp add: freq_word_def)
  also have "\<dots> = freq_led_word h (freq_word h w)"
    by (simp only: freq_offset_word_after_led [OF assms])
  also have "\<dots> = freq_word h w"
    by (simp add: freq_word_def freq_led_word_idem)
  finally show ?thesis .
qed

lemma freq_led_after:
  assumes "bit_mask16 (EEPROM_FREQ_OFFSET h) AND 0xff00 = 0"
    and "bit_mask16 (EEPROM_FREQ_LED_MODE h) AND 0x00ff = 0"
    and "bit_mask16 (EEPROM_FREQ_LED_POLARITY h) AND 0x00ff = 0"
  shows "freq_led h (freq_word h w) \<Longrightarrow> freq_led h w"
proof (rule ccontr)
  assume after: "freq_led h (freq_word h w)" and before: "\<not> freq_led h w"
  from before have "freq_word h w = freq_offset_word h w"
    by (simp add: freq_led_def freq_word_def freq_led_word_def)
  with before have "freq_word h w AND 0xff00 \<noteq> 0xff00"
    by (simp add: freq_led_def)
  with after show False
    by (simp add: freq_led_def freq_offset_word_after_led [OF assms])
qed

lemma rssi_offset_clamp_idem: "rssi_offset_clamp (rssi_offset_clamp w f) f = rssi_offset_clamp w f"
  by (simp add: rssi_offset_clamp_def rt2x00_get_field16_def rt2x00_set_field16_def
      get_set_field_zero)

lemma rssi_offset_clamp_other:
  "bit_mask16 f AND bit_mask16 g = 0 \<Longrightarrow>
   rt2x00_get_field16 (rssi_offset_clamp w f) g = rt2x00_get_field16 w g"
  by (simp add: rssi_offset_clamp_def rt2x00_get_field16_def rt2x00_set_field16_def
      get_set_field_other)

lemma rssi_offset_clamp_fixed:
  "rssi_offset_clamp w f = w \<longleftrightarrow> \<not> \<bar>uint (rt2x00_get_field16 w f)\<bar> > 10 \<or> rt2x00_set_field16 w f 0 = w"
  by (auto simp add: rssi_offset_clamp_def)

lemma rssi_offset_clamp_small:
  "\<not> \<bar>uint (rt2x00_get_field16 (rssi_offset_clamp w f) f)\<bar> > 10"
  by (simp add: rssi_offset_clamp_def rt2x00_get_field16_def rt2x00_set_field16_def
      get_set_field_zero)

lemma rssi_word_idem:
  assumes "bit_mask16 f0 AND bit_mask16 f1 = 0"
  shows "rssi_word f0 f1 (rssi_word f0 f1 w) = rssi_word f0 f1 w"
proof -
  define b where "b = rssi_word f0 f1 w"
  have "bit_mask16 f1 AND bit_mask16 f0 = 0"
    using assms by (simp add: and.commute)
  then have "rt2x00_get_field16 b f0 = rt2x00_get_field16 (rssi_offset_clamp w f0) f0"
    by (simp add: b_def rssi_word_def rssi_offset_clamp_other)
  then have "rssi_offset_clamp b f0 = b"
    using rssi_offset_clamp_small [of w f0] by (simp add: rssi_offset_clamp_def)
  moreover have "rssi_offset_clamp b f1 = b"
    by (simp add: b_def rssi_word_def rssi_offset_clamp_idem)
  ultimately have "rssi_word f0 f1 b = b"
    by (simp add: rssi_word_def)
  then show ?thesis
    by (simp add: b_def)
qed

lemma lna_backfill_cases:
  "lna_backfill x t wr d = x \<or> lna_backfill x t wr d = rt2x00_set_field16 x wr (ucast d)"
  by (simp add: lna_backfill_def)

lemma set_field16_same:
  "rt2x00_set_field16 (rt2x00_set_field16 x f v) f v = rt2x00_set_field16 x f v"
  by (simp add: rt2x00_set_field16_def set_set_field_same)

lemma lna_backfill_set: 
  "lna_backfill (rt2x00_set_field16 x wr (ucast d)) t wr d = rt2x00_set_field16 x wr (ucast d)"
  by (simp add: lna_backfill_def set_field16_same)

lemma lna_backfill_idem: "lna_backfill (lna_backfill x t wr d) t wr d = lna_backfill x t wr d"
  using lna_backfill_cases [of x t wr d] 
  by (auto simp add: lna_backfill_set)

lemma lna_backfill_other:
  "bit_mask16 wr AND bit_mask16 g = 0 \<Longrightarrow>
   rt2x00_get_field16 (lna_backfill x t wr d) g = rt2x00_get_field16 x g"
  by (simp add: lna_backfill_def rt2x00_get_field16_def rt2x00_set_field16_def
      get_set_field_other)

lemma rssi2_word_idem:
  assumes "bit_mask16 f AND bit_mask16 lna = 0"
  shows "rssi2_word ext f lna d (rssi2_word ext f lna d w) = rssi2_word ext f lna d w"
proof (cases ext)
  case True
  then show ?thesis
    by (simp add: rssi2_word_def rssi_offset_clamp_idem)
next
  case False
  define a where "a = rssi_offset_clamp w f"
  define b where "b = lna_backfill a lna lna d"
  have "bit_mask16 lna AND bit_mask16 f = 0"
    using assms by (simp add: and.commute)
  then have "rt2x00_get_field16 b f = rt2x00_get_field16 a f"
    by (simp add: b_def lna_backfill_other)
  then have "rssi_offset_clamp b f = b"
    using rssi_offset_clamp_small [of w f] by (simp add: rssi_offset_clamp_def a_def)
  moreover have "lna_backfill b lna lna d = b"
    by (simp add: b_def lna_backfill_idem)
  ultimately have "rssi2_word ext f lna d b = b"
    using False by (simp add: rssi2_word_def)
  moreover have "rssi2_word ext f lna d w = b"
    using False by (simp add: rssi2_word_def a_def b_def)
  ultimately show ?thesis
    by simp
qed

lemma ext_lna2_word_idem: "ext_lna2_word h d (ext_lna2_word h d w) = ext_lna2_word h d w"
proof -
  let ?a1 = "EEPROM_EXT_LNA2_A1 h"
  let ?a2 = "EEPROM_EXT_LNA2_A2 h"
  define u where "u = rt2x00_set_field16 w ?a1 (ucast d)"
  define a where "a = lna_backfill w ?a1 ?a1 d"
  define b where "b = lna_backfill a ?a2 ?a1 d"
  have b: "ext_lna2_word h d w = b"
    by (simp add: ext_lna2_word_def a_def b_def)
  have uu: "rt2x00_set_field16 u ?a1 (ucast d) = u"
    by (simp add: u_def set_field16_same)
  have fix_u: "ext_lna2_word h d u = u"
    by (simp add: ext_lna2_word_def u_def lna_backfill_set)
  have a_cases: "a = w \<or> a = u"
    using lna_backfill_cases [of w ?a1 ?a1 d] by (simp add: a_def u_def)
  have b_cases: "b = a \<or> b = rt2x00_set_field16 a ?a1 (ucast d)"
    using lna_backfill_cases [of a ?a2 ?a1 d] by (simp add: b_def)
  show ?thesis
  proof (cases "b = u")
    case True
    with fix_u b show ?thesis
      by simp
  next
    case False
    with a_cases b_cases uu have "a = w" "b = w"
      by (auto simp add: u_def)
    then have "ext_lna2_word h d w = w"
      using b by simp
    then show ?thesis
      by simp
  qed
qed


lemma chip_rt_eeprom_write: "chip_rt (rt2800_eeprom_write d W x) = chip_rt d"
  by (simp add: rt2800_eeprom_write_def)

lemma word_index_chip_rt:
  "chip_rt d' = chip_rt d \<Longrightarrow> rt2800_eeprom_word_index d' W = rt2800_eeprom_word_index d W"
  by (simp add: rt2800_eeprom_word_index_def rt2x00_rt_def)

lemma eeprom_write_frame: "rt2800_eeprom_write d W x = d\<lparr>eeprom := eeprom (rt2800_eeprom_write d W x)\<rparr>"
  by (simp add: rt2800_eeprom_write_def)

lemma frame_trans:
  "d1 = d\<lparr>eeprom := e1\<rparr> \<Longrightarrow> d2 = d1\<lparr>eeprom := e2\<rparr> \<Longrightarrow> d2 = d\<lparr>eeprom := eeprom d2\<rparr>"
  by simp

lemma validate_nic_conf0_frame: "validate_nic_conf0 h d = d\<lparr>eeprom := eeprom (validate_nic_conf0 h d)\<rparr>"
  by (simp add: validate_nic_conf0_def Let_def rt2800_eeprom_write_def)

lemma validate_nic_conf1_frame: "validate_nic_conf1 h d = d\<lparr>eeprom := eeprom (validate_nic_conf1 h d)\<rparr>"
  by (simp add: validate_nic_conf1_def Let_def rt2800_eeprom_write_def)

lemma validate_freq_frame: "validate_freq h d = d\<lparr>eeprom := eeprom (validate_freq h d)\<rparr>"
  by (simp add: validate_freq_def Let_def rt2800_eeprom_write_def)

lemma validate_rssi_bg_frame: "validate_rssi_bg h d = d\<lparr>eeprom := eeprom (validate_rssi_bg h d)\<rparr>"
  by (simp add: validate_rssi_bg_def Let_def rt2800_eeprom_write_def)

lemma validate_rssi_bg2_frame: "validate_rssi_bg2 h g d = d\<lparr>eeprom := eeprom (validate_rssi_bg2 h g d)\<rparr>"
  by (simp add: validate_rssi_bg2_def Let_def rt2800_eeprom_write_def)

lemma validate_rssi_a_frame: "validate_rssi_a h d = d\<lparr>eeprom := eeprom (validate_rssi_a h d)\<rparr>"
  by (simp add: validate_rssi_a_def Let_def rt2800_eeprom_write_def)

lemma validate_rssi_a2_frame: "validate_rssi_a2 h g d = d\<lparr>eeprom := eeprom (validate_rssi_a2 h g d)\<rparr>"
  by (simp add: validate_rssi_a2_def Let_def rt2800_eeprom_write_def)

lemma validate_ext_lna2_frame: "validate_ext_lna2 h g d = d\<lparr>eeprom := eeprom (validate_ext_lna2 h g d)\<rparr>"
  by (simp add: validate_ext_lna2_def Let_def rt2800_eeprom_write_def)

lemma frame_chip_rt: "d' = d\<lparr>eeprom := e\<rparr> \<Longrightarrow> chip_rt d' = chip_rt d"
  by simp

lemmas validate_chip_rt =
  validate_nic_conf0_frame [THEN frame_chip_rt] validate_nic_conf1_frame [THEN frame_chip_rt]
  validate_freq_frame [THEN frame_chip_rt] validate_rssi_bg_frame [THEN frame_chip_rt]
  validate_rssi_bg2_frame [THEN frame_chip_rt] validate_rssi_a_frame [THEN frame_chip_rt]
  validate_rssi_a2_frame [THEN frame_chip_rt] validate_ext_lna2_frame [THEN frame_chip_rt]

lemma eeprom_validate_nic_conf0:
  "eeprom (validate_nic_conf0 h d) j =
     (if j = rt2800_eeprom_word_index d EEPROM_NIC_CONF0
      then nic_conf0_word h (chip_rt d = RT2860 \<or> chip_rt d = RT2872) (eeprom d j)
      else eeprom d j)"
  by (simp add: validate_nic_conf0_def nic_conf0_word_def Let_def rt2800_eeprom_write_def
      rt2800_eeprom_read_def rt2x00_rt_def)

lemma eeprom_validate_nic_conf1:
  "eeprom (validate_nic_conf1 h d) j =
     (if j = rt2800_eeprom_word_index d EEPROM_NIC_CONF1
      then nic_conf1_word h (eeprom d j) else eeprom d j)"
  by (simp add: validate_nic_conf1_def nic_conf1_word_def Let_def rt2800_eeprom_write_def
      rt2800_eeprom_read_def)

lemma eeprom_validate_freq:
  "eeprom (validate_freq h d) j =
     (let w = eeprom d (rt2800_eeprom_word_index d EEPROM_FREQ) in
      if freq_led h w then
        (if j = rt2800_eeprom_word_index d EEPROM_LED_POLARITY then 0xa9f8
         else if j = rt2800_eeprom_word_index d EEPROM_LED_ACT_CONF then 0x2221
         else if j = rt2800_eeprom_word_index d EEPROM_LED_AG_CONF then 0x5555
         else if j = rt2800_eeprom_word_index d EEPROM_FREQ then freq_word h w
         else eeprom d j)
      else (if j = rt2800_eeprom_word_index d EEPROM_FREQ then freq_word h w else eeprom d j))"
  by (simp add: validate_freq_def freq_led_def freq_word_def freq_led_word_def
      freq_offset_word_def Let_def rt2800_eeprom_write_def rt2800_eeprom_read_def
      rt2800_eeprom_word_index_def rt2x00_rt_def)

lemma eeprom_validate_rssi_bg:
  "eeprom (validate_rssi_bg h d) j =
     (if j = rt2800_eeprom_word_index d EEPROM_RSSI_BG
      then rssi_word (EEPROM_RSSI_BG_OFFSET0 h) (EEPROM_RSSI_BG_OFFSET1 h) (eeprom d j)
      else eeprom d j)"
  by (simp add: validate_rssi_bg_def rssi_word_def Let_def rt2800_eeprom_write_def
      rt2800_eeprom_read_def)

lemma eeprom_validate_rssi_a:
  "eeprom (validate_rssi_a h d) j =
     (if j = rt2800_eeprom_word_index d EEPROM_RSSI_A
      then rssi_word (EEPROM_RSSI_A_OFFSET0 h) (EEPROM_RSSI_A_OFFSET1 h) (eeprom d j)
      else eeprom d j)"
  by (simp add: validate_rssi_a_def rssi_word_def Let_def rt2800_eeprom_write_def
      rt2800_eeprom_read_def)

lemma eeprom_validate_rssi_bg2:
  "eeprom (validate_rssi_bg2 h g d) j =
     (if j = rt2800_eeprom_word_index d EEPROM_RSSI_BG2
      then rssi2_word (chip_rt d = RT3593 \<or> chip_rt d = RT3883)
             (EEPROM_RSSI_BG2_OFFSET2 h) (EEPROM_RSSI_BG2_LNA_A1 h) g (eeprom d j)
      else eeprom d j)"
  by (simp add: validate_rssi_bg2_def rssi2_word_def Let_def rt2800_eeprom_write_def
      rt2800_eeprom_read_def rt2x00_rt_def)

lemma eeprom_validate_rssi_a2:
  "eeprom (validate_rssi_a2 h g d) j =
     (if j = rt2800_eeprom_word_index d EEPROM_RSSI_A2
      then rssi2_word (chip_rt d = RT3593 \<or> chip_rt d = RT3883)
             (EEPROM_RSSI_A2_OFFSET2 h) (EEPROM_RSSI_A2_LNA_A2 h) g (eeprom d j)
      else eeprom d j)"
  by (simp add: validate_rssi_a2_def rssi2_word_def Let_def rt2800_eeprom_write_def
      rt2800_eeprom_read_def rt2x00_rt_def)

lemma eeprom_validate_ext_lna2:
  "eeprom (validate_ext_lna2 h g d) j =
     (if (chip_rt d = RT3593 \<or> chip_rt d = RT3883) \<and>
         j = rt2800_eeprom_word_index d EEPROM_EXT_LNA2
      then ext_lna2_word h g (eeprom d j) else eeprom d j)"
  by (simp add: validate_ext_lna2_def ext_lna2_word_def Let_def rt2800_eeprom_write_def
      rt2800_eeprom_read_def rt2x00_rt_def)

lemmas eeprom_validate =
  eeprom_validate_nic_conf0 eeprom_validate_nic_conf1 eeprom_validate_freq
  eeprom_validate_rssi_bg eeprom_validate_rssi_bg2 eeprom_validate_rssi_a
  eeprom_validate_rssi_a2 eeprom_validate_ext_lna2


lemma word_index_std:
  "chip_rt d \<noteq> RT3593 \<Longrightarrow> chip_rt d \<noteq> RT3883 \<Longrightarrow>
   rt2800_eeprom_word_index d W = rt2800_eeprom_map W"
  by (simp add: rt2800_eeprom_word_index_def rt2x00_rt_def)

lemma word_index_ext:
  "chip_rt d = RT3593 \<or> chip_rt d = RT3883 \<Longrightarrow>
   rt2800_eeprom_word_index d W = rt2800_eeprom_map_ext W"
  by (auto simp add: rt2800_eeprom_word_index_def rt2x00_rt_def)

lemma frame_step:
  assumes "d1 = d\<lparr>eeprom := eeprom d1\<rparr>" and "d2 = d1\<lparr>eeprom := eeprom d2\<rparr>"
  shows "d2 = d\<lparr>eeprom := eeprom d2\<rparr>"
proof -
  have "d2 = d\<lparr>eeprom := eeprom d1\<rparr>\<lparr>eeprom := eeprom d2\<rparr>"
    using assms by simp
  then show ?thesis
    by simp
qed

lemma validate_eeprom_image_frame:
  "validate_eeprom_image h d = d\<lparr>eeprom := eeprom (validate_eeprom_image h d)\<rparr>"
proof -
  define d1 where "d1 = validate_nic_conf0 h d"
  define d2 where "d2 = validate_nic_conf1 h d1"
  define d3 where "d3 = validate_freq h d2"
  define g :: u8 where
    "g = ucast (rt2x00_get_field16 (rt2800_eeprom_read d3 EEPROM_LNA) (EEPROM_LNA_A0 h))"
  define d4 where "d4 = validate_rssi_bg h d3"
  define d5 where "d5 = validate_rssi_bg2 h g d4"
  define d6 where "d6 = validate_rssi_a h d5"
  define d7 where "d7 = validate_rssi_a2 h g d6"
  define d8 where "d8 = validate_ext_lna2 h g d7"
  have v: "validate_eeprom_image h d = d8"
    by (simp add: validate_eeprom_image_def Let_def d1_def d2_def d3_def d4_def d5_def d6_def
        d7_def d8_def g_def)
  have "d1 = d\<lparr>eeprom := eeprom d1\<rparr>"
    unfolding d1_def by (rule validate_nic_conf0_frame)
  then have "d2 = d\<lparr>eeprom := eeprom d2\<rparr>"
    unfolding d2_def by (rule frame_step) (rule validate_nic_conf1_frame)
  then have "d3 = d\<lparr>eeprom := eeprom d3\<rparr>"
    unfolding d3_def by (rule frame_step) (rule validate_freq_frame)
  then have "d4 = d\<lparr>eeprom := eeprom d4\<rparr>"
    unfolding d4_def by (rule frame_step) (rule validate_rssi_bg_frame)
  then have "d5 = d\<lparr>eeprom := eeprom d5\<rparr>"
    unfolding d5_def by (rule frame_step) (rule validate_rssi_bg2_frame)
  then have "d6 = d\<lparr>eeprom := eeprom d6\<rparr>"
    unfolding d6_def by (rule frame_step) (rule validate_rssi_a_frame)
  then have "d7 = d\<lparr>eeprom := eeprom d7\<rparr>"
    unfolding d7_def by (rule frame_step) (rule validate_rssi_a2_frame)
  then have "d8 = d\<lparr>eeprom := eeprom d8\<rparr>"
    unfolding d8_def by (rule frame_step) (rule validate_ext_lna2_frame)
  then show ?thesis
    by (simp only: v)
qed

lemma eeprom_validate_image_std:
  assumes "chip_rt d \<noteq> RT3593" "chip_rt d \<noteq> RT3883"
  shows "eeprom (validate_eeprom_image h d) j =
     (let g = ucast (rt2x00_get_field16 (eeprom d 0x22) (EEPROM_LNA_A0 h)) in
      if j = 0x1a then nic_conf0_word h (chip_rt d = RT2860 \<or> chip_rt d = RT2872) (eeprom d j)
      else if j = 0x1b then nic_conf1_word h (eeprom d j)
      else if j = 0x1d then freq_word h (eeprom d j)
      else if j = 0x1e then (if freq_led h (eeprom d 0x1d) then 0x5555 else eeprom d j)
      else if j = 0x1f then (if freq_led h (eeprom d 0x1d) then 0x2221 else eeprom d j)
      else if j = 0x20 then (if freq_led h (eeprom d 0x1d) then 0xa9f8 else eeprom d j)
      else if j = 0x23
        then rssi_word (EEPROM_RSSI_BG_OFFSET0 h) (EEPROM_RSSI_BG_OFFSET1 h) (eeprom d j)
      else if j = 0x24
        then rssi2_word False (EEPROM_RSSI_BG2_OFFSET2 h) (EEPROM_RSSI_BG2_LNA_A1 h) g (eeprom d j)
      else if j = 0x25
        then rssi_word (EEPROM_RSSI_A_OFFSET0 h) (EEPROM_RSSI_A_OFFSET1 h) (eeprom d j)
      else if j = 0x26
        then rssi2_word False (EEPROM_RSSI_A2_OFFSET2 h) (EEPROM_RSSI_A2_LNA_A2 h) g (eeprom d j)
      else eeprom d j)"
  using assms
  by (simp add: validate_eeprom_image_def Let_def eeprom_validate validate_chip_rt
      word_index_std rt2800_eeprom_read_def)


lemma eeprom_validate_image_ext:
  assumes "chip_rt d = RT3593 \<or> chip_rt d = RT3883"
  shows "eeprom (validate_eeprom_image h d) j =
     (let g = ucast (rt2x00_get_field16 (eeprom d 0x26) (EEPROM_LNA_A0 h)) in
      if j = 0x1a then nic_conf0_word h False (eeprom d j)
      else if j = 0x1b then nic_conf1_word h (eeprom d j)
      else if j = 0x22 then freq_word h (eeprom d j)
      else if j = 0x23 then (if freq_led h (eeprom d 0x22) then 0x5555 else eeprom d j)
      else if j = 0x24 then (if freq_led h (eeprom d 0x22) then 0x2221 else eeprom d j)
      else if j = 0x25 then (if freq_led h (eeprom d 0x22) then 0xa9f8 else eeprom d j)
      else if j = 0x27 then ext_lna2_word h g (eeprom d j)
      else if j = 0x28
        then rssi_word (EEPROM_RSSI_BG_OFFSET0 h) (EEPROM_RSSI_BG_OFFSET1 h) (eeprom d j)
      else if j = 0x29
        then rssi2_word True (EEPROM_RSSI_BG2_OFFSET2 h) (EEPROM_RSSI_BG2_LNA_A1 h) g (eeprom d j)
      else if j = 0x2a
        then rssi_word (EEPROM_RSSI_A_OFFSET0 h) (EEPROM_RSSI_A_OFFSET1 h) (eeprom d j)
      else if j = 0x2b
        then rssi2_word True (EEPROM_RSSI_A2_OFFSET2 h) (EEPROM_RSSI_A2_LNA_A2 h) g (eeprom d j)
      else eeprom d j)"
  using assms
  by (auto simp add: validate_eeprom_image_def Let_def eeprom_validate validate_chip_rt
      word_index_ext rt2800_eeprom_read_def)


lemma idem_at_std:
  assumes ok: "eeprom_layout_ok h"
    and std: "chip_rt dev \<noteq> RT3593" "chip_rt dev \<noteq> RT3883"
    and chip: "chip_rt dev1 = chip_rt dev"
    and dev1: "\<And>j. eeprom dev1 j = eeprom (validate_eeprom_image h dev) j"
  shows "eeprom (validate_eeprom_image h dev1) j = eeprom dev1 j"
proof -
  have std1: "chip_rt dev1 \<noteq> RT3593" "chip_rt dev1 \<noteq> RT3883"
    using std chip by simp_all
  note layout = ok [unfolded eeprom_layout_ok_def]
  note idem =
    nic_conf0_word_idem nic_conf1_word_idem freq_word_idem freq_led_after rssi_word_idem
    rssi2_word_idem ext_lna2_word_idem
  note first = eeprom_validate_image_std [OF std]
  note second = eeprom_validate_image_std [OF std1]
  consider "j = 0x1a" | "j = 0x1b" | "j = 0x1d" | "j = 0x1e" | "j = 0x1f" | "j = 0x20"
    | "j = 0x23" | "j = 0x24" | "j = 0x25" | "j = 0x26"
    | "j \<notin> {0x1a, 0x1b, 0x1d, 0x1e, 0x1f, 0x20, 0x23, 0x24, 0x25, 0x26}"
    by blast
  then show ?thesis
  proof cases
    case 1
    then show ?thesis
      using layout by (simp add: second dev1 first chip Let_def nic_conf0_word_idem)
  next
    case 2
    then show ?thesis
      by (simp add: second dev1 first Let_def nic_conf1_word_idem)
  next
    case 3
    then show ?thesis
      using layout by (simp add: second dev1 first Let_def freq_word_idem)
  next
    case 4
    then show ?thesis
      using layout freq_led_after [of h "eeprom dev 0x1d"]
      by (simp add: second dev1 first Let_def)
  next
    case 5
    then show ?thesis
      using layout freq_led_after [of h "eeprom dev 0x1d"]
      by (simp add: second dev1 first Let_def)
  next
    case 6
    then show ?thesis
      using layout freq_led_after [of h "eeprom dev 0x1d"]
      by (simp add: second dev1 first Let_def)
  next
    case 7
    then show ?thesis
      using layout by (simp add: second dev1 first Let_def rssi_word_idem)
  next
    case 8
    then show ?thesis
      using layout by (simp add: second dev1 first Let_def rssi2_word_idem)
  next
    case 9
    then show ?thesis
      using layout by (simp add: second dev1 first Let_def rssi_word_idem)
  next
    case 10
    then show ?thesis
      using layout by (simp add: second dev1 first Let_def rssi2_word_idem)
  next
    case 11
    then show ?thesis
      by (simp add: second dev1 first Let_def)
  qed
qed


lemma idem_at_ext:
  assumes ok: "eeprom_layout_ok h"
    and ext: "chip_rt dev = RT3593 \<or> chip_rt dev = RT3883"
    and chip: "chip_rt dev1 = chip_rt dev"
    and dev1: "\<And>j. eeprom dev1 j = eeprom (validate_eeprom_image h dev) j"
  shows "eeprom (validate_eeprom_image h dev1) j = eeprom dev1 j"
proof -
  have ext1: "chip_rt dev1 = RT3593 \<or> chip_rt dev1 = RT3883"
    using ext chip by simp
  note layout = ok [unfolded eeprom_layout_ok_def]
  note first = eeprom_validate_image_ext [OF ext]
  note second = eeprom_validate_image_ext [OF ext1]
  consider "j = 0x1a" | "j = 0x1b" | "j = 0x22" | "j = 0x23" | "j = 0x24" | "j = 0x25"
    | "j = 0x27" | "j = 0x28" | "j = 0x29" | "j = 0x2a" | "j = 0x2b"
    | "j \<notin> {0x1a, 0x1b, 0x22, 0x23, 0x24, 0x25, 0x27, 0x28, 0x29, 0x2a, 0x2b}"
    by blast
  then show ?thesis
  proof cases
    case 1
    then show ?thesis
      using layout by (simp add: second dev1 first Let_def nic_conf0_word_idem)
  next
    case 2
    then show ?thesis
      by (simp add: second dev1 first Let_def nic_conf1_word_idem)
  next
    case 3
    then show ?thesis
      using layout by (simp add: second dev1 first Let_def freq_word_idem)
  next
    case 4
    then show ?thesis
      using layout freq_led_after [of h "eeprom dev 0x22"]
      by (simp add: second dev1 first Let_def)
  next
    case 5
    then show ?thesis
      using layout freq_led_after [of h "eeprom dev 0x22"]
      by (simp add: second dev1 first Let_def)
  next
    case 6
    then show ?thesis
      using layout freq_led_after [of h "eeprom dev 0x22"]
      by (simp add: second dev1 first Let_def)
  next
    case 7
    then show ?thesis
      by (simp add: second dev1 first Let_def ext_lna2_word_idem)
  next
    case 8
    then show ?thesis
      using layout by (simp add: second dev1 first Let_def rssi_word_idem)
  next
    case 9
    then show ?thesis
      using layout by (simp add: second dev1 first Let_def rssi2_word_idem)
  next
    case 10
    then show ?thesis
      using layout by (simp add: second dev1 first Let_def rssi_word_idem)
  next
    case 11
    then show ?thesis
      using layout by (simp add: second dev1 first Let_def rssi2_word_idem)
  next
    case 12
    then show ?thesis
      by (simp add: second dev1 first Let_def)
  qed
qed

lemma validate_eeprom_image_idem:
  assumes ok: "eeprom_layout_ok h"
  shows "validate_eeprom_image h (validate_eeprom_image h dev) = validate_eeprom_image h dev"
proof -
  define dev1 where "dev1 = validate_eeprom_image h dev"
  have chip: "chip_rt dev1 = chip_rt dev"
    unfolding dev1_def by (rule frame_chip_rt) (rule validate_eeprom_image_frame)
  have same: "eeprom dev1 j = eeprom (validate_eeprom_image h dev) j" for j
    by (simp add: dev1_def)
  have "eeprom (validate_eeprom_image h dev1) j = eeprom dev1 j" for j
  proof (cases "chip_rt dev = RT3593 \<or> chip_rt dev = RT3883")
    case True
    show ?thesis
      by (rule idem_at_ext [OF ok True chip same])
  next
    case False
    then have "chip_rt dev \<noteq> RT3593" "chip_rt dev \<noteq> RT3883"
      by simp_all
    then show ?thesis
      by (rule idem_at_std [OF ok _ _ chip same])
  qed
  then have "eeprom (validate_eeprom_image h dev1) = eeprom dev1"
    by (rule ext)
  moreover have "validate_eeprom_image h dev1 =
      dev1\<lparr>eeprom := eeprom (validate_eeprom_image h dev1)\<rparr>"
    by (rule validate_eeprom_image_frame)
  ultimately show ?thesis
    by (simp add: dev1_def)
qed


lemma eeprom_h_values_ok: "eeprom_layout_ok rt2800_eeprom_h_values"
  by (simp add: eeprom_layout_ok_def rt2800_eeprom_h_values_def)


text \<open>
  C5: for a field layout in which the fields written side by side do not overlap, the
  validation is idempotent on the in-memory image: validating the validated image changes
  no word of it (and nothing else of the device structure), and a second run of
  \<^verbatim>\<open>rt2800_validate_eeprom\<close> that reads back the image the first run left returns 0 and
  leaves the device structure as it was.
\<close>

theorem validate_eeprom_idempotent:
  assumes ok: "eeprom_layout_ok h"
  shows "validate_eeprom_image h (validate_eeprom_image h dev) = validate_eeprom_image h dev \<and>
    (rt2800_validate_eeprom env h dev tr = (0, dev1, tr1) \<and>
     eeprom_answer env' tr1 = (0, eeprom dev1) \<longrightarrow>
       rt2800_validate_eeprom env' h dev1 tr1 = (0, dev1, tr1 @ [Read_eeprom 0]))"
proof (intro conjI impI)
  show "validate_eeprom_image h (validate_eeprom_image h dev) = validate_eeprom_image h dev"
    by (rule validate_eeprom_image_idem [OF ok])
next
  assume a: "rt2800_validate_eeprom env h dev tr = (0, dev1, tr1) \<and>
     eeprom_answer env' tr1 = (0, eeprom dev1)"
  obtain retval image where rd: "eeprom_answer env tr = (retval, image)"
    by (cases "eeprom_answer env tr")
  with a have dev1: "dev1 = validate_eeprom_image h (dev\<lparr>eeprom := image\<rparr>)"
    by (auto simp add: rt2800_validate_eeprom_def rt2800_read_eeprom_def split: if_splits)
  have "validate_eeprom_image h dev1 = dev1"
    unfolding dev1 by (rule validate_eeprom_image_idem [OF ok])
  then show "rt2800_validate_eeprom env' h dev1 tr1 = (0, dev1, tr1 @ [Read_eeprom 0])"
    using a by (simp add: rt2800_validate_eeprom_def rt2800_read_eeprom_def)
qed


theorem validate_eeprom_idempotent_witness:
  "validate_eeprom_image rt2800_eeprom_h_values
     (validate_eeprom_image rt2800_eeprom_h_values blank_eeprom_dev) =
   validate_eeprom_image rt2800_eeprom_h_values blank_eeprom_dev"
  using validate_eeprom_idempotent [OF eeprom_h_values_ok, where dev = blank_eeprom_dev]
  by (rule conjunct1)

lemma eeprom_h_values_fields:
  "EEPROM_LNA_A0 rt2800_eeprom_h_values = FIELD16 8 0xff00"
  "EEPROM_EXT_LNA2_A1 rt2800_eeprom_h_values = FIELD16 0 0x00ff"
  "EEPROM_EXT_LNA2_A2 rt2800_eeprom_h_values = FIELD16 8 0xff00"
  by (simp_all add: rt2800_eeprom_h_values_def)

lemma ext_lna2_dev_fields:
  "chip_rt ext_lna2_dev = RT3593"
  "eeprom ext_lna2_dev 0x26 = 0x3400"
  "eeprom ext_lna2_dev 0x27 = 0x0012"
  by (simp_all add: ext_lna2_dev_def)

text \<open>
  C7 at a concrete input, an RT3593 (extended map) with reference gain \<open>0x34\<close>: the A2
  field of EXT_LNA2 reads as the all-zero pattern before validation and still does after
  it, while the valid A1 gain \<open>0x12\<close> has been replaced by the reference value. The
  paragraph tests A2 and writes A1.
\<close>

theorem validate_eeprom_ext_lna2_a2_kept:
  "rt2x00_get_field16 (rt2800_eeprom_read ext_lna2_dev EEPROM_LNA)
     (EEPROM_LNA_A0 rt2800_eeprom_h_values) = 0x34 \<and>
   rt2x00_get_field16 (rt2800_eeprom_read ext_lna2_dev EEPROM_EXT_LNA2)
     (EEPROM_EXT_LNA2_A2 rt2800_eeprom_h_values) = 0x00 \<and>
   rt2x00_get_field16
     (rt2800_eeprom_read (validate_eeprom_image rt2800_eeprom_h_values ext_lna2_dev)
        EEPROM_EXT_LNA2)
     (EEPROM_EXT_LNA2_A2 rt2800_eeprom_h_values) = 0x00 \<and>
   rt2x00_get_field16
     (rt2800_eeprom_read (validate_eeprom_image rt2800_eeprom_h_values ext_lna2_dev)
        EEPROM_EXT_LNA2)
     (EEPROM_EXT_LNA2_A1 rt2800_eeprom_h_values) = 0x34"
proof -
  have ext: "chip_rt ext_lna2_dev = RT3593 \<or> chip_rt ext_lna2_dev = RT3883"
    by (simp add: ext_lna2_dev_fields)
  have chip: "chip_rt (validate_eeprom_image rt2800_eeprom_h_values ext_lna2_dev) =
      chip_rt ext_lna2_dev"
    by (rule frame_chip_rt) (rule validate_eeprom_image_frame)
  have ix: "rt2800_eeprom_word_index ext_lna2_dev EEPROM_EXT_LNA2 = 0x27"
    "rt2800_eeprom_word_index ext_lna2_dev EEPROM_LNA = 0x26"
    "rt2800_eeprom_word_index (validate_eeprom_image rt2800_eeprom_h_values ext_lna2_dev)
       EEPROM_EXT_LNA2 = 0x27"
    using chip by (simp_all add: rt2800_eeprom_word_index_def rt2x00_rt_def ext_lna2_dev_fields)
  have after: "eeprom (validate_eeprom_image rt2800_eeprom_h_values ext_lna2_dev) 0x27 = 0x0034"
    by (simp add: eeprom_validate_image_ext [OF ext] ext_lna2_dev_fields ext_lna2_word_def
        lna_backfill_def eeprom_h_values_fields rt2x00_get_field16_def rt2x00_set_field16_def
        get_field_def set_field_def)
  show ?thesis
    by (simp add: rt2800_eeprom_read_def ix after ext_lna2_dev_fields eeprom_h_values_fields
        rt2x00_get_field16_def get_field_def)
qed


subsection \<open>Properties of the bandwidth filter calibration\<close>

lemma rf_writes_saved_Nil [simp]: "rf_writes_saved []"
  by (simp add: rf_writes_saved_def)

lemma rf_writes_saved_Cons [simp]:
  "rf_writes_saved (e # evs) \<longleftrightarrow> rf_write_saved e \<and> rf_writes_saved evs"
  by (simp add: rf_writes_saved_def)

lemma rf_writes_saved_append [simp]:
  "rf_writes_saved (xs @ ys) \<longleftrightarrow> rf_writes_saved xs \<and> rf_writes_saved ys"
  by (simp add: rf_writes_saved_def)

lemma extends_refl: "extends tr tr"
  by (simp add: extends_def)

lemma extends_trans: "extends a b \<Longrightarrow> extends b c \<Longrightarrow> extends a c"
  by (auto simp add: extends_def)

lemma extends_register_read: "extends tr X \<Longrightarrow> extends tr (snd (rt2800_register_read env r X))"
  by (auto simp add: extends_def rt2800_register_read_def Let_def)

lemma extends_register_write: "extends tr X \<Longrightarrow> extends tr (rt2800_register_write r v X)"
  by (auto simp add: extends_def rt2800_register_write_def)

lemma extends_bbp_read: "extends tr X \<Longrightarrow> extends tr (snd (rt2800_bbp_read env w X))"
  by (auto simp add: extends_def rt2800_bbp_read_def Let_def)

lemma extends_bbp_write: "extends tr X \<Longrightarrow> extends tr (rt2800_bbp_write w v X)"
  by (auto simp add: extends_def rt2800_bbp_write_def)

lemma extends_rfcsr_read_bank:
  "extends tr X \<Longrightarrow> extends tr (snd (rt2800_rfcsr_read_bank env b r X))"
  by (auto simp add: extends_def rt2800_rfcsr_read_bank_def rt2800_rfcsr_read_def Let_def)

lemma extends_rfcsr_write_bank:
  "r \<in> set saved_rfb5_regs \<Longrightarrow> extends tr X \<Longrightarrow> extends tr (rt2800_rfcsr_write_bank 5 r v X)"
  by (auto simp add: extends_def rt2800_rfcsr_write_bank_def rt2800_rfcsr_write_def)

lemma extends_dcoc_read: "extends tr X \<Longrightarrow> extends tr (snd (rt2800_bbp_dcoc_read env k X))"
  unfolding rt2800_bbp_dcoc_read_def
  by (intro extends_bbp_read extends_bbp_write)

lemma extends_dcoc_write: "extends tr X \<Longrightarrow> extends tr (rt2800_bbp_dcoc_write k v X)"
  unfolding rt2800_bbp_dcoc_write_def
  by (intro extends_bbp_write)

lemma extends_if:
  "(c \<Longrightarrow> extends tr A) \<Longrightarrow> (\<not> c \<Longrightarrow> extends tr B) \<Longrightarrow> extends tr (if c then A else B)"
  by simp

lemmas extends_prims =
  extends_register_read extends_register_write extends_bbp_read extends_bbp_write
  extends_rfcsr_read_bank extends_rfcsr_write_bank extends_dcoc_read extends_dcoc_write

lemma extends_soft_reset:
  "extends tr X \<Longrightarrow> extends tr (rt2800_bbp_core_soft_reset env h set_bw is_ht40 X)"
  unfolding rt2800_bbp_core_soft_reset_def Let_def case_prod_beta
  by (intro extends_prims extends_if) (simp_all add: saved_rfb5_regs_def)

lemma extends_rf_lp_config: "extends tr X \<Longrightarrow> extends tr (rt2800_rf_lp_config env btxcal X)"
  unfolding rt2800_rf_lp_config_def Let_def case_prod_beta
  by (intro extends_prims extends_if) (simp_all add: saved_rfb5_regs_def)

lemma extends_poll: "extends tr X \<Longrightarrow> extends tr (lp_tx_filter_bw_cal_poll env cnt X)"
proof (induction env cnt X rule: lp_tx_filter_bw_cal_poll.induct)
  case (1 env cnt X)
  obtain v Y where r: "rt2800_bbp_read env 159 X = (v, Y)"
    by (cases "rt2800_bbp_read env 159 X")
  have Y: "extends tr Y"
    using extends_bbp_read [OF "1.prems", of env 159] r by simp
  show ?case
  proof (cases "\<not> (v = 0x02 \<or> cnt = 20) \<and> cnt + 1 < 20")
    case True
    then have "extends tr (lp_tx_filter_bw_cal_poll env (cnt + 1) Y)"
      by (intro "1.IH" [OF refl r [symmetric] _ refl _ Y]) simp_all
    then show ?thesis
      using r True by (subst lp_tx_filter_bw_cal_poll.simps) (simp add: Let_def)
  next
    case False
    then show ?thesis
      using r Y by (subst lp_tx_filter_bw_cal_poll.simps) (auto simp add: Let_def)
  qed
qed

lemma extends_lp_cal: "extends tr X \<Longrightarrow> extends tr (snd (rt2800_lp_tx_filter_bw_cal env X))"
  unfolding rt2800_lp_tx_filter_bw_cal_def Let_def case_prod_beta snd_conv
  by (intro extends_prims extends_poll)

lemma extends_wait_rcal: "extends tr X \<Longrightarrow> extends tr (bw_filter_wait_rcal env cnt X)"
proof (induction env cnt X rule: bw_filter_wait_rcal.induct)
  case (1 env cnt X)
  obtain v Y where r: "rt2800_rfcsr_read_bank env 5 1 X = (v, Y)"
    by (cases "rt2800_rfcsr_read_bank env 5 1 X")
  have Y: "extends tr Y"
    using extends_rfcsr_read_bank [OF "1.prems", of env 5 1] r by simp
  show ?case
  proof (cases "\<not> (v AND 0x1 = 0x00 \<or> cnt = 40) \<and> cnt + 1 < 40")
    case True
    then have "extends tr (bw_filter_wait_rcal env (cnt + 1) Y)"
      by (intro "1.IH" [OF refl r [symmetric] _ refl _ Y]) simp_all
    then show ?thesis
      using r True by (subst bw_filter_wait_rcal.simps) (simp add: Let_def)
  next
    case False
    then show ?thesis
      using r Y by (subst bw_filter_wait_rcal.simps) (auto simp add: Let_def)
  qed
qed

lemma extends_write_agc:
  "extends tr X \<Longrightarrow> extends tr (bw_filter_write_agc env btxcal tx rx X)"
  unfolding bw_filter_write_agc_def Let_def case_prod_beta
  by (intro extends_prims extends_if) (simp_all add: saved_rfb5_regs_def)


lemma u8_succ_le_3f: "(c :: u8) < 0x3f \<Longrightarrow> c + 1 \<le> 0x3f"
  by (simp add: word_less_nat_alt word_le_nat_alt unat_word_ariths)

lemma do_cal_result:
  "extends tr X \<Longrightarrow>
   bw_filter_do_cal env h btxcal ht t init tx rx X = (tx', rx', Y) \<Longrightarrow>
   extends tr Y \<and> (tx \<le> 0x3f \<longrightarrow> tx' \<le> 0x3f) \<and> (rx \<le> 0x3f \<longrightarrow> rx' \<le> 0x3f) \<and>
   (btxcal \<longrightarrow> rx' = rx) \<and> (\<not> btxcal \<longrightarrow> tx' = tx)"
proof (induction env h btxcal ht t init tx rx X rule: bw_filter_do_cal.induct)
  case (1 env h btxcal ht t init tx rx X)
  define X1 where "X1 = bw_filter_write_agc env btxcal tx rx X"
  define X2 where "X2 = rt2800_bbp_core_soft_reset env h False ht X1"
  obtain val X3 where cal: "rt2800_lp_tx_filter_bw_cal env X2 = (val, X3)"
    by (cases "rt2800_lp_tx_filter_bw_cal env X2")
  define diff where "diff = init - val"
  define cmm where "cmm = (if btxcal then tx else rx)"
  have X3: "extends tr X3"
    using extends_lp_cal [OF extends_soft_reset [OF extends_write_agc [OF "1.prems"(1)]],
        of env env h False ht env btxcal tx rx] cal
    by (simp add: X1_def X2_def)
  let ?sat = "(sint diff > uint t \<and> cmm = 0) \<or> (sint diff < uint t \<and> cmm = 0x3f)"
  let ?more = "sint diff \<le> uint t \<and> cmm < 0x3f"
  have body: "bw_filter_do_cal env h btxcal ht t init tx rx X =
      (if ?sat then (if btxcal then (0, rx, X3) else (tx, 0, X3))
       else if ?more then
         (if btxcal then bw_filter_do_cal env h btxcal ht t init (tx + 1) rx X3
          else bw_filter_do_cal env h btxcal ht t init tx (rx + 1) X3)
       else (tx, rx, X3))"
    by (subst bw_filter_do_cal.simps)
      (simp add: Let_def cal [unfolded X2_def X1_def] diff_def cmm_def)
  show ?case
  proof (cases ?sat)
    case True
    have "bw_filter_do_cal env h btxcal ht t init tx rx X =
        (if btxcal then (0, rx, X3) else (tx, 0, X3))"
      by (simp only: body if_P [OF True])
    with "1.prems"(2) have "(tx', rx', Y) = (if btxcal then (0, rx, X3) else (tx, 0, X3))"
      by simp
    then show ?thesis
      using X3 by (auto split: if_splits)
  next
    case sat: False
    show ?thesis
    proof (cases ?more)
      case False
      have "bw_filter_do_cal env h btxcal ht t init tx rx X = (tx, rx, X3)"
        by (simp only: body if_not_P [OF sat] if_not_P [OF False])
      with "1.prems"(2) have "(tx', rx', Y) = (tx, rx, X3)"
        by simp
      then show ?thesis
        using X3 by simp
    next
      case more: True
      show ?thesis
      proof (cases btxcal)
        case True
        have "bw_filter_do_cal env h btxcal ht t init tx rx X =
            bw_filter_do_cal env h btxcal ht t init (tx + 1) rx X3"
          by (simp only: body if_not_P [OF sat] if_P [OF more] if_P [OF True])
        with "1.prems"(2)
        have step: "bw_filter_do_cal env h btxcal ht t init (tx + 1) rx X3 = (tx', rx', Y)"
          by simp
        have le: "tx + 1 \<le> 0x3f"
          using more True by (simp add: cmm_def u8_succ_le_3f)
        from "1.IH"(1) [OF X1_def X2_def cal [symmetric] refl diff_def cmm_def sat more True
            X3 step]
        show ?thesis
          using True le by auto
      next
        case False
        have "bw_filter_do_cal env h btxcal ht t init tx rx X =
            bw_filter_do_cal env h btxcal ht t init tx (rx + 1) X3"
          by (simp only: body if_not_P [OF sat] if_P [OF more] if_not_P [OF False])
        with "1.prems"(2)
        have step: "bw_filter_do_cal env h btxcal ht t init tx (rx + 1) X3 = (tx', rx', Y)"
          by simp
        have le: "rx + 1 \<le> 0x3f"
          using more False by (simp add: cmm_def u8_succ_le_3f)
        from "1.IH"(2) [OF X1_def X2_def cal [symmetric] refl diff_def cmm_def sat more False
            X3 step]
        show ?thesis
          using False le by auto
      qed
    qed
  qed
qed


lemma extends_do_cal:
  "extends tr X \<Longrightarrow> extends tr (snd (snd (bw_filter_do_cal env h btxcal ht t init tx rx X)))"
  using do_cal_result [of tr X env h btxcal ht t init tx rx]
  by (cases "bw_filter_do_cal env h btxcal ht t init tx rx X") simp

lemma do_cal_tx_le:
  "tx \<le> 0x3f \<Longrightarrow> fst (bw_filter_do_cal env h btxcal ht t init tx rx X) \<le> 0x3f"
  using do_cal_result [OF extends_refl, of env h btxcal ht t init tx rx X]
  by (cases "bw_filter_do_cal env h btxcal ht t init tx rx X") simp

lemma do_cal_rx_le:
  "rx \<le> 0x3f \<Longrightarrow> fst (snd (bw_filter_do_cal env h btxcal ht t init tx rx X)) \<le> 0x3f"
  using do_cal_result [OF extends_refl, of env h btxcal ht t init tx rx X]
  by (cases "bw_filter_do_cal env h btxcal ht t init tx rx X") simp

lemma extends_loop_body:
  "extends tr X \<Longrightarrow>
   extends tr (snd (snd (snd (bw_filter_loop_body env h btxcal loop tx rx dev X))))"
  unfolding bw_filter_loop_body_def Let_def case_prod_beta snd_conv
  by (intro extends_do_cal extends_prims extends_lp_cal extends_soft_reset extends_rf_lp_config
      extends_if) (simp_all add: saved_rfb5_regs_def)

lemma loop_body_tx_le:
  "tx \<le> 0x3f \<Longrightarrow> fst (bw_filter_loop_body env h btxcal loop tx rx dev X) \<le> 0x3f"
  unfolding bw_filter_loop_body_def Let_def case_prod_beta fst_conv
  by (rule do_cal_tx_le) simp

lemma loop_body_rx_le:
  "rx \<le> 0x3f \<Longrightarrow> fst (snd (bw_filter_loop_body env h btxcal loop tx rx dev X)) \<le> 0x3f"
  unfolding bw_filter_loop_body_def Let_def case_prod_beta fst_conv snd_conv
  by (rule do_cal_rx_le) simp

lemma loop_body_dev:
  "fst (snd (snd (bw_filter_loop_body env h btxcal loop tx rx dev X))) =
     dev\<lparr>drv_data :=
       (if btxcal then
          (if loop = 0
           then (drv_data dev)\<lparr>tx_calibration_bw20 :=
                  fst (bw_filter_loop_body env h btxcal loop tx rx dev X)\<rparr>
           else (drv_data dev)\<lparr>tx_calibration_bw40 :=
                  fst (bw_filter_loop_body env h btxcal loop tx rx dev X)\<rparr>)
        else
          (if loop = 0
           then (drv_data dev)\<lparr>rx_calibration_bw20 :=
                  fst (snd (bw_filter_loop_body env h btxcal loop tx rx dev X))\<rparr>
           else (drv_data dev)\<lparr>rx_calibration_bw40 :=
                  fst (snd (bw_filter_loop_body env h btxcal loop tx rx dev X))\<rparr>))\<rparr>"
  unfolding bw_filter_loop_body_def Let_def case_prod_beta fst_conv snd_conv
  by (rule refl)


lemma two_loop_bodies:
  assumes B1: "B1 = bw_filter_loop_body env h btxcal 0 0 0 dev X"
    and B2: "B2 = bw_filter_loop_body env h btxcal 1 (fst B1) (fst (snd B1))
        (fst (snd (snd B1))) (snd (snd (snd B1)))"
    and d: "d = fst (snd (snd B2))"
  shows "d = dev\<lparr>drv_data := drv_data d\<rparr> \<and>
     (btxcal \<longrightarrow>
        tx_calibration_bw20 (drv_data d) \<le> 0x3f \<and> tx_calibration_bw40 (drv_data d) \<le> 0x3f \<and>
        rx_calibration_bw20 (drv_data d) = rx_calibration_bw20 (drv_data dev) \<and>
        rx_calibration_bw40 (drv_data d) = rx_calibration_bw40 (drv_data dev)) \<and>
     (\<not> btxcal \<longrightarrow>
        rx_calibration_bw20 (drv_data d) \<le> 0x3f \<and> rx_calibration_bw40 (drv_data d) \<le> 0x3f \<and>
        tx_calibration_bw20 (drv_data d) = tx_calibration_bw20 (drv_data dev) \<and>
        tx_calibration_bw40 (drv_data d) = tx_calibration_bw40 (drv_data dev))"
proof -
  have tx1: "fst B1 \<le> 0x3f" and rx1: "fst (snd B1) \<le> 0x3f"
    unfolding B1 by (simp_all add: loop_body_tx_le loop_body_rx_le)
  have tx2: "fst B2 \<le> 0x3f" and rx2: "fst (snd B2) \<le> 0x3f"
    unfolding B2 using tx1 rx1 by (simp_all add: loop_body_tx_le loop_body_rx_le)
  have d1: "fst (snd (snd B1)) = dev\<lparr>drv_data :=
      (if btxcal then (drv_data dev)\<lparr>tx_calibration_bw20 := fst B1\<rparr>
       else (drv_data dev)\<lparr>rx_calibration_bw20 := fst (snd B1)\<rparr>)\<rparr>"
    unfolding B1 by (subst loop_body_dev) simp
  have d2: "d = (fst (snd (snd B1)))\<lparr>drv_data :=
      (if btxcal then (drv_data (fst (snd (snd B1))))\<lparr>tx_calibration_bw40 := fst B2\<rparr>
       else (drv_data (fst (snd (snd B1))))\<lparr>rx_calibration_bw40 := fst (snd B2)\<rparr>)\<rparr>"
    unfolding d B2 by (subst loop_body_dev) simp
  show ?thesis
    unfolding d2 d1 using tx1 rx1 tx2 rx2 by simp
qed

lemma extends_search:
  "extends tr X \<Longrightarrow> extends tr (snd (bw_filter_search env h btxcal dev X))"
  unfolding bw_filter_search_def Let_def case_prod_beta snd_conv
  by (intro extends_loop_body extends_prims extends_wait_rcal) (simp_all add: saved_rfb5_regs_def)

lemma search_dev:
  assumes "d = fst (bw_filter_search env h btxcal dev X)"
  shows "d = dev\<lparr>drv_data := drv_data d\<rparr> \<and>
     (btxcal \<longrightarrow>
        tx_calibration_bw20 (drv_data d) \<le> 0x3f \<and> tx_calibration_bw40 (drv_data d) \<le> 0x3f \<and>
        rx_calibration_bw20 (drv_data d) = rx_calibration_bw20 (drv_data dev) \<and>
        rx_calibration_bw40 (drv_data d) = rx_calibration_bw40 (drv_data dev)) \<and>
     (\<not> btxcal \<longrightarrow>
        rx_calibration_bw20 (drv_data d) \<le> 0x3f \<and> rx_calibration_bw40 (drv_data d) \<le> 0x3f \<and>
        tx_calibration_bw20 (drv_data d) = tx_calibration_bw20 (drv_data dev) \<and>
        tx_calibration_bw40 (drv_data d) = tx_calibration_bw40 (drv_data dev))"
  by (rule two_loop_bodies [OF refl refl])
    (simp add: assms bw_filter_search_def Let_def case_prod_beta)

lemma rfcsr_save_bank_events:
  "rfcsr_save_bank env bank regs tr = (vs, tr') \<Longrightarrow>
   map fst vs = regs \<and>
   tr' = tr @ map (\<lambda>(r, v). Rfcsr_read (rfcsr_bank_word bank r) v) vs"
proof (induction regs arbitrary: tr vs tr')
  case Nil
  then show ?case by simp
next
  case (Cons reg regs)
  obtain v tr1 where rd: "rt2800_rfcsr_read_bank env bank reg tr = (v, tr1)"
    by (cases "rt2800_rfcsr_read_bank env bank reg tr")
  obtain vs1 tr2 where rest: "rfcsr_save_bank env bank regs tr1 = (vs1, tr2)"
    by (cases "rfcsr_save_bank env bank regs tr1")
  from rd have tr1: "tr1 = tr @ [Rfcsr_read (rfcsr_bank_word bank reg) v]"
    by (auto simp add: rt2800_rfcsr_read_bank_def rt2800_rfcsr_read_def Let_def)
  from Cons.prems rd rest have "vs = (reg, v) # vs1" "tr' = tr2"
    by simp_all
  with Cons.IH [OF rest] tr1 show ?case
    by simp
qed

lemma rfcsr_restore_bank_events:
  "rfcsr_restore_bank bank vs tr =
     tr @ map (\<lambda>(r, v). Rfcsr_write (rfcsr_bank_word bank r) v) vs"
  by (induction bank vs tr rule: rfcsr_restore_bank.induct)
    (simp_all add: rt2800_rfcsr_write_bank_def rt2800_rfcsr_write_def)

lemma rfcsr_bank_word_inject:
  assumes "r < 64" "r' < 64" "rfcsr_bank_word b r = rfcsr_bank_word b r'"
  shows "r = r'"
proof -
  have "take_bit 6 (rfcsr_bank_word b x) = x" if "x < 64" for x
    using that
    by (simp add: rfcsr_bank_word_def take_bit_push_bit take_bit_nat_eq_self)
  with assms show ?thesis
    by metis
qed


lemma rfcsr_entry_append:
  "rfcsr_entry_value w xs = Some v \<Longrightarrow> rfcsr_entry_value w (xs @ ys) = Some v"
  by (induction w xs rule: rfcsr_entry_value.induct) (auto split: if_splits)

lemma bbp_entry_append:
  "bbp_entry_value w xs = Some v \<Longrightarrow> bbp_entry_value w (xs @ ys) = Some v"
  by (induction w xs rule: bbp_entry_value.induct) (auto split: if_splits)

lemma register_entry_append:
  "register_entry_value r xs = Some v \<Longrightarrow> register_entry_value r (xs @ ys) = Some v"
  by (induction r xs rule: register_entry_value.induct) (auto split: if_splits)

lemma dcoc_entry_append:
  "dcoc_entry_value k sel xs = Some v \<Longrightarrow> dcoc_entry_value k sel (xs @ ys) = Some v"
  by (induction k sel xs rule: dcoc_entry_value.induct) (auto split: if_splits)

lemma rfcsr_last_append:
  "rfcsr_last_write w ys = Some v \<Longrightarrow> rfcsr_last_write w (xs @ ys) = Some v"
  by (induction w xs rule: rfcsr_last_write.induct) auto

lemma bbp_last_append:
  "bbp_last_write w ys = Some v \<Longrightarrow> bbp_last_write w (xs @ ys) = Some v"
  by (induction w xs rule: bbp_last_write.induct) auto

lemma register_last_append:
  "register_last_write r ys = Some v \<Longrightarrow> register_last_write r (xs @ ys) = Some v"
  by (induction r xs rule: register_last_write.induct) auto

lemma dcoc_last_append:
  "(\<And>sel'. dcoc_last_write k sel' ys = Some v) \<Longrightarrow> dcoc_last_write k sel (xs @ ys) = Some v"
  by (induction k sel xs rule: dcoc_last_write.induct) auto

lemma rfcsr_entry_saved:
  assumes "distinct (map fst vs)" and "\<forall>k \<in> fst ` set vs. k < 64" and "(r, v) \<in> set vs"
  shows "rfcsr_entry_value (rfcsr_bank_word b r)
      (map (\<lambda>(r, v). Rfcsr_read (rfcsr_bank_word b r) v) vs @ ys) = Some v"
  using assms
proof (induction vs)
  case Nil
  then show ?case by simp
next
  case (Cons p vs)
  obtain r' v' where p: "p = (r', v')"
    by (cases p)
  show ?case
  proof (cases "r' = r")
    case True
    with Cons.prems p have "v' = v"
      by (auto simp add: image_iff)
    with True p show ?thesis
      by simp
  next
    case False
    with Cons.prems p have "(r, v) \<in> set vs" "r < 64" "r' < 64"
      by (auto simp add: image_iff)
    moreover from this False have "rfcsr_bank_word b r' \<noteq> rfcsr_bank_word b r"
      using rfcsr_bank_word_inject by blast
    ultimately show ?thesis
      using Cons.IH Cons.prems p by simp
  qed
qed

lemma rfcsr_last_not_saved:
  assumes "r \<notin> fst ` set vs" and "\<forall>k \<in> fst ` set vs. k < 64" and "r < 64"
    and "rfcsr_last_write (rfcsr_bank_word b r) ys = None"
  shows "rfcsr_last_write (rfcsr_bank_word b r)
      (map (\<lambda>(r, v). Rfcsr_write (rfcsr_bank_word b r) v) vs @ ys) = None"
  using assms
proof (induction vs)
  case Nil
  then show ?case by simp
next
  case (Cons p vs)
  obtain r' v' where p: "p = (r', v')"
    by (cases p)
  with Cons.prems have "r' \<noteq> r" "r' < 64"
    by auto
  then have "rfcsr_bank_word b r' \<noteq> rfcsr_bank_word b r"
    using rfcsr_bank_word_inject Cons.prems(3) by blast
  then show ?case
    using Cons p by simp
qed

lemma rfcsr_last_saved:
  assumes "distinct (map fst vs)" and "\<forall>k \<in> fst ` set vs. k < 64" and "(r, v) \<in> set vs"
    and "rfcsr_last_write (rfcsr_bank_word b r) ys = None"
  shows "rfcsr_last_write (rfcsr_bank_word b r)
      (map (\<lambda>(r, v). Rfcsr_write (rfcsr_bank_word b r) v) vs @ ys) = Some v"
  using assms
proof (induction vs)
  case Nil
  then show ?case by simp
next
  case (Cons p vs)
  obtain r' v' where p: "p = (r', v')"
    by (cases p)
  show ?case
  proof (cases "(r, v) \<in> set vs")
    case True
    with Cons show ?thesis
      by (simp add: p)
  next
    case False
    with Cons.prems p have eq: "r' = r" "v' = v"
      by auto
    with Cons.prems p have "r \<notin> fst ` set vs" "r < 64"
      by (auto simp add: image_iff)
    with Cons.prems have "rfcsr_last_write (rfcsr_bank_word b r)
        (map (\<lambda>(r, v). Rfcsr_write (rfcsr_bank_word b r) v) vs @ ys) = None"
      by (intro rfcsr_last_not_saved) auto
    with eq p show ?thesis
      by simp
  qed
qed

lemma rfcsr_save_bank_keys:
  "map fst (fst (rfcsr_save_bank env b regs tr)) = regs"
  using rfcsr_save_bank_events [OF surjective_pairing] by blast

lemma rfcsr_save_bank_trace:
  "snd (rfcsr_save_bank env b regs tr) =
     tr @ map (\<lambda>(r, v). Rfcsr_read (rfcsr_bank_word b r) v) (fst (rfcsr_save_bank env b regs tr))"
  using rfcsr_save_bank_events [OF surjective_pairing] by blast

lemma bw_filter_save_events:
  assumes "bw_filter_save env tr = (saved, tr1)"
  shows "map fst (saverfb5 saved) = saved_rfb5_regs \<and>
    tr1 = tr @
      [Register_read RF_CONTROL0 (MAC_RF_CONTROL0 saved),
       Register_read RF_BYPASS0 (MAC_RF_BYPASS0 saved),
       Bbp_read 23 (savebbpr23 saved),
       Bbp_write 158 0, Bbp_read 159 (savebbp159r0 saved),
       Bbp_write 158 2, Bbp_read 159 (savebbp159r2 saved)] @
      map (\<lambda>(r, v). Rfcsr_read (rfcsr_bank_word 5 r) v) (saverfb5 saved)"
proof -
  from assms have saved: "saved = fst (bw_filter_save env tr)" and tr1: "tr1 = snd (bw_filter_save env tr)"
    by simp_all
  show ?thesis
    unfolding saved tr1
    by (simp add: bw_filter_save_def Let_def case_prod_beta rt2800_register_read_def
        rt2800_bbp_read_def rt2800_bbp_dcoc_read_def rt2800_bbp_write_def rfcsr_save_bank_keys)
      (subst rfcsr_save_bank_trace, simp)
qed

lemma bw_filter_restore_events:
  "\<exists>v4 v4'. bw_filter_restore env h dev saved tr =
     tr @ map (\<lambda>(r, v). Rfcsr_write (rfcsr_bank_word 5 r) v) (saverfb5 saved) @
       [Bbp_write 23 (savebbpr23 saved),
        Bbp_write 158 0, Bbp_write 159 (savebbp159r0 saved),
        Bbp_write 158 2, Bbp_write 159 (savebbp159r2 saved),
        Bbp_read 4 v4, Bbp_write 4 v4',
        Register_write RF_CONTROL0 (MAC_RF_CONTROL0 saved),
        Register_write RF_BYPASS0 (MAC_RF_BYPASS0 saved)]"
  by (simp add: bw_filter_restore_def Let_def rfcsr_restore_bank_events rt2800_bbp_write_def
      rt2800_bbp_dcoc_write_def rt2800_bbp_read_def rt2800_register_write_def)


lemma rf_writes_saved_reads:
  "rf_writes_saved (map (\<lambda>(r, v). Rfcsr_read (rfcsr_bank_word b r) v) vs)"
  by (induction vs) auto

lemma rf_writes_saved_restore:
  "map fst vs = saved_rfb5_regs \<Longrightarrow>
   rf_writes_saved (map (\<lambda>(r, v). Rfcsr_write (rfcsr_bank_word 5 r) v) vs)"
proof -
  have "set (map fst vs) \<subseteq> set saved_rfb5_regs \<Longrightarrow>
      rf_writes_saved (map (\<lambda>(r, v). Rfcsr_write (rfcsr_bank_word 5 r) v) vs)"
    by (induction vs) auto
  then show "map fst vs = saved_rfb5_regs \<Longrightarrow> ?thesis"
    by simp
qed

lemma bw_filter_calibration_events:
  assumes "rt2800_bw_filter_calibration env h btxcal dev tr = (dev', tr')"
  shows "\<exists>(saved :: bw_filter_saved) mid v4 v4'.
    map fst (saverfb5 saved) = saved_rfb5_regs \<and> rf_writes_saved mid \<and>
    tr' = tr @
      ([Register_read RF_CONTROL0 (MAC_RF_CONTROL0 saved),
        Register_read RF_BYPASS0 (MAC_RF_BYPASS0 saved),
        Bbp_read 23 (savebbpr23 saved),
        Bbp_write 158 0, Bbp_read 159 (savebbp159r0 saved),
        Bbp_write 158 2, Bbp_read 159 (savebbp159r2 saved)] @
       map (\<lambda>(r, v). Rfcsr_read (rfcsr_bank_word 5 r) v) (saverfb5 saved) @ mid @
       map (\<lambda>(r, v). Rfcsr_write (rfcsr_bank_word 5 r) v) (saverfb5 saved)) @
      [Bbp_write 23 (savebbpr23 saved),
       Bbp_write 158 0, Bbp_write 159 (savebbp159r0 saved),
       Bbp_write 158 2, Bbp_write 159 (savebbp159r2 saved),
       Bbp_read 4 v4, Bbp_write 4 v4',
       Register_write RF_CONTROL0 (MAC_RF_CONTROL0 saved),
       Register_write RF_BYPASS0 (MAC_RF_BYPASS0 saved)]"
proof -
  obtain saved tr1 where save: "bw_filter_save env tr = (saved, tr1)"
    by (cases "bw_filter_save env tr")
  obtain d tr2 where search: "bw_filter_search env h btxcal dev tr1 = (d, tr2)"
    by (cases "bw_filter_search env h btxcal dev tr1")
  from assms save search have tr': "tr' = bw_filter_restore env h d saved tr2"
    by (auto simp add: rt2800_bw_filter_calibration_def Let_def)
  from extends_search [OF extends_refl, of tr1 env h btxcal dev] search
  obtain mid where tr2: "tr2 = tr1 @ mid" and mid: "rf_writes_saved mid"
    by (auto simp add: extends_def)
  from bw_filter_save_events [OF save]
  have keys: "map fst (saverfb5 saved) = saved_rfb5_regs"
    and tr1: "tr1 = tr @
      [Register_read RF_CONTROL0 (MAC_RF_CONTROL0 saved),
       Register_read RF_BYPASS0 (MAC_RF_BYPASS0 saved),
       Bbp_read 23 (savebbpr23 saved),
       Bbp_write 158 0, Bbp_read 159 (savebbp159r0 saved),
       Bbp_write 158 2, Bbp_read 159 (savebbp159r2 saved)] @
      map (\<lambda>(r, v). Rfcsr_read (rfcsr_bank_word 5 r) v) (saverfb5 saved)"
    by blast+
  from bw_filter_restore_events [of env h d saved tr2]
  obtain v4 v4' where restore: "bw_filter_restore env h d saved tr2 =
     tr2 @ map (\<lambda>(r, v). Rfcsr_write (rfcsr_bank_word 5 r) v) (saverfb5 saved) @
       [Bbp_write 23 (savebbpr23 saved),
        Bbp_write 158 0, Bbp_write 159 (savebbp159r0 saved),
        Bbp_write 158 2, Bbp_write 159 (savebbp159r2 saved),
        Bbp_read 4 v4, Bbp_write 4 v4',
        Register_write RF_CONTROL0 (MAC_RF_CONTROL0 saved),
        Register_write RF_BYPASS0 (MAC_RF_BYPASS0 saved)]"
    by blast
  have "tr' = tr2 @ map (\<lambda>(r, v). Rfcsr_write (rfcsr_bank_word 5 r) v) (saverfb5 saved) @
       [Bbp_write 23 (savebbpr23 saved),
        Bbp_write 158 0, Bbp_write 159 (savebbp159r0 saved),
        Bbp_write 158 2, Bbp_write 159 (savebbp159r2 saved),
        Bbp_read 4 v4, Bbp_write 4 v4',
        Register_write RF_CONTROL0 (MAC_RF_CONTROL0 saved),
        Register_write RF_BYPASS0 (MAC_RF_BYPASS0 saved)]"
    using tr' restore by simp
  then have "map fst (saverfb5 saved) = saved_rfb5_regs \<and> rf_writes_saved mid \<and>
    tr' = tr @
      ([Register_read RF_CONTROL0 (MAC_RF_CONTROL0 saved),
        Register_read RF_BYPASS0 (MAC_RF_BYPASS0 saved),
        Bbp_read 23 (savebbpr23 saved),
        Bbp_write 158 0, Bbp_read 159 (savebbp159r0 saved),
        Bbp_write 158 2, Bbp_read 159 (savebbp159r2 saved)] @
       map (\<lambda>(r, v). Rfcsr_read (rfcsr_bank_word 5 r) v) (saverfb5 saved) @ mid @
       map (\<lambda>(r, v). Rfcsr_write (rfcsr_bank_word 5 r) v) (saverfb5 saved)) @
      [Bbp_write 23 (savebbpr23 saved),
       Bbp_write 158 0, Bbp_write 159 (savebbp159r0 saved),
       Bbp_write 158 2, Bbp_write 159 (savebbp159r2 saved),
       Bbp_read 4 v4, Bbp_write 4 v4',
       Register_write RF_CONTROL0 (MAC_RF_CONTROL0 saved),
       Register_write RF_BYPASS0 (MAC_RF_BYPASS0 saved)]"
    unfolding tr2 tr1 using keys mid by simp
  then show ?thesis
    by blast
qed

lemma bw_filter_calibration_dev:
  assumes "rt2800_bw_filter_calibration env h btxcal dev tr = (dev', tr')"
  shows "dev' = dev\<lparr>drv_data := drv_data dev'\<rparr> \<and>
     (btxcal \<longrightarrow>
        tx_calibration_bw20 (drv_data dev') \<le> 0x3f \<and> tx_calibration_bw40 (drv_data dev') \<le> 0x3f \<and>
        rx_calibration_bw20 (drv_data dev') = rx_calibration_bw20 (drv_data dev) \<and>
        rx_calibration_bw40 (drv_data dev') = rx_calibration_bw40 (drv_data dev)) \<and>
     (\<not> btxcal \<longrightarrow>
        rx_calibration_bw20 (drv_data dev') \<le> 0x3f \<and> rx_calibration_bw40 (drv_data dev') \<le> 0x3f \<and>
        tx_calibration_bw20 (drv_data dev') = tx_calibration_bw20 (drv_data dev) \<and>
        tx_calibration_bw40 (drv_data dev') = tx_calibration_bw40 (drv_data dev))"
proof -
  from assms have "dev' = fst (bw_filter_search env h btxcal dev (snd (bw_filter_save env tr)))"
    by (auto simp add: rt2800_bw_filter_calibration_def Let_def case_prod_beta)
  then show ?thesis
    by (rule search_dev)
qed


lemma loop_body_stores:
  assumes "bw_filter_loop_body env h btxcal loop tx rx dev X = (tx', rx', dev', Y)"
  shows "drv_data dev' =
     (if btxcal then
        (if loop = 0 then (drv_data dev)\<lparr>tx_calibration_bw20 := tx'\<rparr>
         else (drv_data dev)\<lparr>tx_calibration_bw40 := tx'\<rparr>)
      else
        (if loop = 0 then (drv_data dev)\<lparr>rx_calibration_bw20 := rx'\<rparr>
         else (drv_data dev)\<lparr>rx_calibration_bw40 := rx'\<rparr>))"
proof -
  from assms have "tx' = fst (bw_filter_loop_body env h btxcal loop tx rx dev X)"
    and "rx' = fst (snd (bw_filter_loop_body env h btxcal loop tx rx dev X))"
    and "dev' = fst (snd (snd (bw_filter_loop_body env h btxcal loop tx rx dev X)))"
    by simp_all
  then show ?thesis
    unfolding bw_filter_loop_body_def Let_def case_prod_beta fst_conv snd_conv
    by simp
qed

lemma bw_filter_calibration_tx_rx_fields:
  assumes "bw_filter_calibration_tx_rx env h dev tr = (dev', tr')"
  shows "dev' = dev\<lparr>drv_data := drv_data dev'\<rparr> \<and>
     tx_calibration_bw20 (drv_data dev') \<le> 0x3f \<and> tx_calibration_bw40 (drv_data dev') \<le> 0x3f \<and>
     rx_calibration_bw20 (drv_data dev') \<le> 0x3f \<and> rx_calibration_bw40 (drv_data dev') \<le> 0x3f"
proof -
  obtain d1 t1 where tx: "rt2800_bw_filter_calibration env h True dev tr = (d1, t1)"
    by (cases "rt2800_bw_filter_calibration env h True dev tr")
  with assms have rx: "rt2800_bw_filter_calibration env h False d1 t1 = (dev', tr')"
    by (simp add: bw_filter_calibration_tx_rx_def)
  from bw_filter_calibration_dev [OF tx] have d1: "d1 = dev\<lparr>drv_data := drv_data d1\<rparr>"
    and tx_le: "tx_calibration_bw20 (drv_data d1) \<le> 0x3f" "tx_calibration_bw40 (drv_data d1) \<le> 0x3f"
    by simp_all
  from bw_filter_calibration_dev [OF rx] have dev': "dev' = d1\<lparr>drv_data := drv_data dev'\<rparr>"
    and rx_le: "rx_calibration_bw20 (drv_data dev') \<le> 0x3f" "rx_calibration_bw40 (drv_data dev') \<le> 0x3f"
    and keep: "tx_calibration_bw20 (drv_data dev') = tx_calibration_bw20 (drv_data d1)"
      "tx_calibration_bw40 (drv_data dev') = tx_calibration_bw40 (drv_data d1)"
    by simp_all
  have "dev' = dev\<lparr>drv_data := drv_data dev'\<rparr>"
    by (subst dev', subst d1) simp
  with tx_le rx_le keep show ?thesis
    by simp
qed

text \<open>
  C4. When \<^verbatim>\<open>rt2800_bw_filter_calibration\<close> returns, for either direction and whatever
  the device answered during the searches (so whether a search met its target or ran to the
  end of the field), the accesses \<open>evs\<close> that the call made are such that: each of the 24
  saved registers of RF bank 5, baseband register 23, the registers 0 and 2 behind baseband
  register 159 and the two MAC registers was first read, and the last value written to it is
  the value read then; every RF register that the call wrote is one of the saved ones, so
  no RF register is left with a test-tone setting. Of the device record only the two cache
  fields of the calibrated direction change, each to a value of the six-bit field; the two
  fields of the other direction are kept.
\<close>

theorem bw_filter_calibration_restores:
  assumes "rt2800_bw_filter_calibration env h btxcal dev tr = (dev', tr')"
  shows "\<exists>evs. tr' = tr @ evs \<and>
     (\<forall>r \<in> set saved_rfb5_regs. \<exists>v.
        rfcsr_entry_value (rfcsr_bank_word 5 r) evs = Some v \<and>
        rfcsr_last_write (rfcsr_bank_word 5 r) evs = Some v) \<and>
     rf_writes_saved evs \<and>
     (\<exists>v. bbp_entry_value 23 evs = Some v \<and> bbp_last_write 23 evs = Some v) \<and>
     (\<forall>k \<in> {0, 2}. \<exists>v.
        dcoc_entry_value k None evs = Some v \<and> dcoc_last_write k None evs = Some v) \<and>
     (\<forall>r \<in> {RF_CONTROL0, RF_BYPASS0}. \<exists>v.
        register_entry_value r evs = Some v \<and> register_last_write r evs = Some v) \<and>
     dev' = dev\<lparr>drv_data := drv_data dev'\<rparr> \<and>
     (btxcal \<longrightarrow>
        tx_calibration_bw20 (drv_data dev') \<le> 0x3f \<and> tx_calibration_bw40 (drv_data dev') \<le> 0x3f \<and>
        rx_calibration_bw20 (drv_data dev') = rx_calibration_bw20 (drv_data dev) \<and>
        rx_calibration_bw40 (drv_data dev') = rx_calibration_bw40 (drv_data dev)) \<and>
     (\<not> btxcal \<longrightarrow>
        rx_calibration_bw20 (drv_data dev') \<le> 0x3f \<and> rx_calibration_bw40 (drv_data dev') \<le> 0x3f \<and>
        tx_calibration_bw20 (drv_data dev') = tx_calibration_bw20 (drv_data dev) \<and>
        tx_calibration_bw40 (drv_data dev') = tx_calibration_bw40 (drv_data dev))"
proof -
  let ?RD = "\<lambda>(r, v). Rfcsr_read (rfcsr_bank_word 5 r) v"
  let ?WR = "\<lambda>(r, v). Rfcsr_write (rfcsr_bank_word 5 r) v"
  from bw_filter_calibration_events [OF assms]
  obtain saved :: bw_filter_saved and mid v4 v4' where
    keys: "map fst (saverfb5 saved) = saved_rfb5_regs" and mid: "rf_writes_saved mid" and
    tr': "tr' = tr @
      ([Register_read RF_CONTROL0 (MAC_RF_CONTROL0 saved),
        Register_read RF_BYPASS0 (MAC_RF_BYPASS0 saved),
        Bbp_read 23 (savebbpr23 saved),
        Bbp_write 158 0, Bbp_read 159 (savebbp159r0 saved),
        Bbp_write 158 2, Bbp_read 159 (savebbp159r2 saved)] @
       map ?RD (saverfb5 saved) @ mid @ map ?WR (saverfb5 saved)) @
      [Bbp_write 23 (savebbpr23 saved),
       Bbp_write 158 0, Bbp_write 159 (savebbp159r0 saved),
       Bbp_write 158 2, Bbp_write 159 (savebbp159r2 saved),
       Bbp_read 4 v4, Bbp_write 4 v4',
       Register_write RF_CONTROL0 (MAC_RF_CONTROL0 saved),
       Register_write RF_BYPASS0 (MAC_RF_BYPASS0 saved)]"
    by blast
  define vs where "vs = saverfb5 saved"
  define pre where "pre =
      [Register_read RF_CONTROL0 (MAC_RF_CONTROL0 saved),
       Register_read RF_BYPASS0 (MAC_RF_BYPASS0 saved),
       Bbp_read 23 (savebbpr23 saved),
       Bbp_write 158 0, Bbp_read 159 (savebbp159r0 saved),
       Bbp_write 158 2, Bbp_read 159 (savebbp159r2 saved)]"
  define suf where "suf =
      [Bbp_write 23 (savebbpr23 saved),
       Bbp_write 158 0, Bbp_write 159 (savebbp159r0 saved),
       Bbp_write 158 2, Bbp_write 159 (savebbp159r2 saved),
       Bbp_read 4 v4, Bbp_write 4 v4',
       Register_write RF_CONTROL0 (MAC_RF_CONTROL0 saved),
       Register_write RF_BYPASS0 (MAC_RF_BYPASS0 saved)]"
  define evs where "evs = (pre @ map ?RD vs @ mid @ map ?WR vs) @ suf"
  have evs_pre: "evs = pre @ (map ?RD vs @ mid @ map ?WR vs @ suf)"
    and evs_rf: "evs = (pre @ map ?RD vs @ mid) @ (map ?WR vs @ suf)"
    by (simp_all add: evs_def)
  have tr'_evs: "tr' = tr @ evs"
    by (simp only: tr' evs_def pre_def suf_def vs_def)
  have keys': "map fst vs = saved_rfb5_regs"
    by (simp add: vs_def keys)
  then have dist: "distinct (map fst vs)"
    by (simp add: saved_rfb5_regs_def)
  have "set (map fst vs) = set saved_rfb5_regs"
    by (simp only: keys')
  then have keyset: "fst ` set vs = set saved_rfb5_regs"
    by simp
  then have lt: "\<forall>k \<in> fst ` set vs. k < 64"
    by (simp add: saved_rfb5_regs_def)
  have rf: "\<forall>r \<in> set saved_rfb5_regs. \<exists>v.
        rfcsr_entry_value (rfcsr_bank_word 5 r) evs = Some v \<and>
        rfcsr_last_write (rfcsr_bank_word 5 r) evs = Some v"
  proof
    fix r
    assume "r \<in> set saved_rfb5_regs"
    with keyset obtain v where mem: "(r, v) \<in> set vs"
      by force
    have "rfcsr_entry_value (rfcsr_bank_word 5 r) evs =
        rfcsr_entry_value (rfcsr_bank_word 5 r) (map ?RD vs @ mid @ map ?WR vs @ suf)"
      by (simp add: evs_pre pre_def)
    also have "\<dots> = Some v"
      by (rule rfcsr_entry_saved [OF dist lt mem])
    finally have entry: "rfcsr_entry_value (rfcsr_bank_word 5 r) evs = Some v" .
    have "rfcsr_last_write (rfcsr_bank_word 5 r) suf = None"
      by (simp add: suf_def)
    then have "rfcsr_last_write (rfcsr_bank_word 5 r) (map ?WR vs @ suf) = Some v"
      by (rule rfcsr_last_saved [OF dist lt mem])
    then have "rfcsr_last_write (rfcsr_bank_word 5 r) evs = Some v"
      unfolding evs_rf by (rule rfcsr_last_append)
    with entry show "\<exists>v. rfcsr_entry_value (rfcsr_bank_word 5 r) evs = Some v \<and>
        rfcsr_last_write (rfcsr_bank_word 5 r) evs = Some v"
      by blast
  qed
  have frame: "rf_writes_saved evs"
    using mid rf_writes_saved_restore [OF keys'] rf_writes_saved_reads [of 5 vs]
    by (simp add: evs_def pre_def suf_def)
  have "bbp_entry_value 23 pre = Some (savebbpr23 saved)"
    by (simp add: pre_def)
  then have "bbp_entry_value 23 evs = Some (savebbpr23 saved)"
    unfolding evs_pre by (rule bbp_entry_append)
  moreover have "bbp_last_write 23 suf = Some (savebbpr23 saved)"
    by (simp add: suf_def)
  then have "bbp_last_write 23 evs = Some (savebbpr23 saved)"
    unfolding evs_def by (rule bbp_last_append)
  ultimately have bbp: "\<exists>v. bbp_entry_value 23 evs = Some v \<and> bbp_last_write 23 evs = Some v"
    by blast
  have "dcoc_entry_value 0 None pre = Some (savebbp159r0 saved)"
    by (simp add: pre_def)
  then have "dcoc_entry_value 0 None evs = Some (savebbp159r0 saved)"
    unfolding evs_pre by (rule dcoc_entry_append)
  moreover have "\<And>sel'. dcoc_last_write 0 sel' suf = Some (savebbp159r0 saved)"
    by (simp add: suf_def)
  then have "dcoc_last_write 0 None evs = Some (savebbp159r0 saved)"
    unfolding evs_def by (rule dcoc_last_append)
  ultimately have dcoc0:
    "\<exists>v. dcoc_entry_value 0 None evs = Some v \<and> dcoc_last_write 0 None evs = Some v"
    by blast
  have "dcoc_entry_value 2 None pre = Some (savebbp159r2 saved)"
    by (simp add: pre_def)
  then have "dcoc_entry_value 2 None evs = Some (savebbp159r2 saved)"
    unfolding evs_pre by (rule dcoc_entry_append)
  moreover have "\<And>sel'. dcoc_last_write 2 sel' suf = Some (savebbp159r2 saved)"
    by (simp add: suf_def)
  then have "dcoc_last_write 2 None evs = Some (savebbp159r2 saved)"
    unfolding evs_def by (rule dcoc_last_append)
  ultimately have dcoc2:
    "\<exists>v. dcoc_entry_value 2 None evs = Some v \<and> dcoc_last_write 2 None evs = Some v"
    by blast
  have "register_entry_value RF_CONTROL0 pre = Some (MAC_RF_CONTROL0 saved)"
    by (simp add: pre_def)
  then have "register_entry_value RF_CONTROL0 evs = Some (MAC_RF_CONTROL0 saved)"
    unfolding evs_pre by (rule register_entry_append)
  moreover have "register_last_write RF_CONTROL0 suf = Some (MAC_RF_CONTROL0 saved)"
    by (simp add: suf_def)
  then have "register_last_write RF_CONTROL0 evs = Some (MAC_RF_CONTROL0 saved)"
    unfolding evs_def by (rule register_last_append)
  ultimately have reg0: "\<exists>v. register_entry_value RF_CONTROL0 evs = Some v \<and>
      register_last_write RF_CONTROL0 evs = Some v"
    by blast
  have "register_entry_value RF_BYPASS0 pre = Some (MAC_RF_BYPASS0 saved)"
    by (simp add: pre_def)
  then have "register_entry_value RF_BYPASS0 evs = Some (MAC_RF_BYPASS0 saved)"
    unfolding evs_pre by (rule register_entry_append)
  moreover have "register_last_write RF_BYPASS0 suf = Some (MAC_RF_BYPASS0 saved)"
    by (simp add: suf_def)
  then have "register_last_write RF_BYPASS0 evs = Some (MAC_RF_BYPASS0 saved)"
    unfolding evs_def by (rule register_last_append)
  ultimately have reg1: "\<exists>v. register_entry_value RF_BYPASS0 evs = Some v \<and>
      register_last_write RF_BYPASS0 evs = Some v"
    by blast
  note dev = bw_filter_calibration_dev [OF assms]
  show ?thesis
    apply (rule exI [of _ evs])
    apply (intro conjI)
            apply (rule tr'_evs)
           apply (rule rf)
          apply (rule frame)
         apply (rule bbp)
    using dcoc0 dcoc2 apply simp
    using reg0 reg1 apply simp
    using dev apply blast
    using dev apply blast
    using dev apply blast
    done
qed

theorem bw_filter_calibration_restores_witness:
  "\<exists>evs v17 v23.
     snd (rt2800_bw_filter_calibration hw_quiet rt2800_h_values True usb_rt2860 []) = evs \<and>
     rfcsr_entry_value (rfcsr_bank_word 5 17) evs = Some v17 \<and>
     rfcsr_last_write (rfcsr_bank_word 5 17) evs = Some v17 \<and>
     bbp_entry_value 23 evs = Some v23 \<and> bbp_last_write 23 evs = Some v23 \<and>
     tx_calibration_bw20
       (drv_data (fst (rt2800_bw_filter_calibration hw_quiet rt2800_h_values True usb_rt2860 [])))
       \<le> 0x3f"
proof -
  from bw_filter_calibration_restores [of hw_quiet rt2800_h_values True usb_rt2860 "[]"
      "fst (rt2800_bw_filter_calibration hw_quiet rt2800_h_values True usb_rt2860 [])"
      "snd (rt2800_bw_filter_calibration hw_quiet rt2800_h_values True usb_rt2860 [])"]
  obtain evs where
    "snd (rt2800_bw_filter_calibration hw_quiet rt2800_h_values True usb_rt2860 []) = evs"
    "\<forall>r \<in> set saved_rfb5_regs. \<exists>v.
        rfcsr_entry_value (rfcsr_bank_word 5 r) evs = Some v \<and>
        rfcsr_last_write (rfcsr_bank_word 5 r) evs = Some v"
    "\<exists>v. bbp_entry_value 23 evs = Some v \<and> bbp_last_write 23 evs = Some v"
    "tx_calibration_bw20
       (drv_data (fst (rt2800_bw_filter_calibration hw_quiet rt2800_h_values True usb_rt2860 [])))
       \<le> 0x3f"
    by auto
  moreover have "17 \<in> set saved_rfb5_regs"
    by (simp add: saved_rfb5_regs_def)
  ultimately show ?thesis
    by blast
qed

end
